theory Spec2Isabelle
  imports Complex_Main
begin

section \<open>Numbers and labels\<close>

text \<open>
  The engine of \<^verbatim>\<open>predictionLogic.js\<close> works on JavaScript numbers. They are modelled
  as real numbers: every clamp, comparison and ratio below is read over the reals, and
  rounding of IEEE doubles is outside the model. The two values of a double that are not
  reals and that the code really produces are written out where they occur:
  \<^verbatim>\<open>Infinity\<close> (the drift detector's minima) and \<^verbatim>\<open>null\<close> (an absent number).
\<close>

datatype outcome = BIG | SMALL

text \<open>\<^verbatim>\<open>Array.prototype.slice(0, e)\<close>: a negative end counts from the end of the array.\<close>

definition slice0 :: "'a list \<Rightarrow> int \<Rightarrow> 'a list" where
  "slice0 xs e = (if e < 0 then take (nat (int (length xs) + e)) xs else take (nat e) xs)"

section \<open>Primitive statistics: entropy of a window\<close>

text \<open>
  \<^verbatim>\<open>counts[o] = (counts[o] || 0) + 1\<close> for every truthy entry of the window; the entries are
  the labels returned by \<^verbatim>\<open>getBigSmallFromNumber\<close>, so \<^verbatim>\<open>null\<close> is \<open>None\<close>.
\<close>

definition countOutcome :: "outcome \<Rightarrow> outcome option list \<Rightarrow> nat" where
  "countOutcome k os = length (filter (\<lambda>x. x = Some k) os)"

text \<open>One round of the \<^verbatim>\<open>for (let key in counts)\<close> loop: the summand \<open>p * log2 p\<close> of a key.\<close>

definition entropyTerm :: "nat \<Rightarrow> nat \<Rightarrow> real" where
  "entropyTerm c totalValidOutcomes =
     (if c > 0 then (real c / real totalValidOutcomes) * log 2 (real c / real totalValidOutcomes)
      else 0)"

text \<open>
  \<^verbatim>\<open>calculateEntropyForSignal(outcomes, windowSize)\<close>. \<open>None\<close> is the \<^verbatim>\<open>null\<close> of the first
  line. The closing \<^verbatim>\<open>isNaN(entropy) ? 1 : entropy\<close> never fires on labels: every \<open>p\<close> is
  in \<open>(0, 1]\<close>.
\<close>

definition calculateEntropyForSignal :: "outcome option list \<Rightarrow> int \<Rightarrow> real option" where
  "calculateEntropyForSignal outcomes windowSize =
     (if int (length outcomes) < windowSize then None
      else
        let window = slice0 outcomes windowSize;
            cBIG = countOutcome BIG window;
            cSMALL = countOutcome SMALL window;
            totalValidOutcomes = cBIG + cSMALL
        in if totalValidOutcomes = 0 then Some 1
           else Some (0 - entropyTerm cBIG totalValidOutcomes
                        - entropyTerm cSMALL totalValidOutcomes))"

section \<open>Drift detector (DDM)\<close>

text \<open>
  The minima of the detector start at \<^verbatim>\<open>Infinity\<close> and return to it at every reset, so
  they range over the reals extended by that one value. \<open>xadd\<close>, \<open>xscale\<close> and \<open>xless\<close> are
  \<^verbatim>\<open>+\<close>, \<^verbatim>\<open>*\<close> by a positive level and \<^verbatim>\<open><\<close> of doubles on those values.
\<close>

datatype xreal = Fin real | Infinity

fun xadd :: "xreal \<Rightarrow> xreal \<Rightarrow> xreal" where
  "xadd (Fin a) (Fin b) = Fin (a + b)"
| "xadd _ _ = Infinity"

fun xscale :: "real \<Rightarrow> xreal \<Rightarrow> xreal" where
  "xscale k (Fin a) = Fin (k * a)"
| "xscale k Infinity = Infinity"

fun xless :: "xreal \<Rightarrow> xreal \<Rightarrow> bool" where
  "xless (Fin a) (Fin b) = (a < b)"
| "xless (Fin a) Infinity = True"
| "xless Infinity _ = False"

datatype driftState = STABLE | WARNING | DRIFT

text \<open>
  \<^verbatim>\<open>let driftDetector = { p_min: Infinity, s_min: Infinity, n: 0, warning_level: 2.0,
  drift_level: 3.0 }\<close>. The field \<^verbatim>\<open>n\<close> is \<open>n_samples\<close> here. \<^verbatim>\<open>p_i\<close> is not a field of
  the initial object: it is \<open>None\<close> until the first call assigns it. The two levels are
  never assigned after initialisation and are constants of the model.
\<close>

record driftDetector =
  p_min :: xreal
  s_min :: xreal
  n_samples :: nat
  p_i :: "real option"

definition warning_level :: real where "warning_level = 2.0"
definition drift_level :: real where "drift_level = 3.0"

definition driftDetector_init :: driftDetector where
  "driftDetector_init = \<lparr>p_min = Infinity, s_min = Infinity, n_samples = 0, p_i = None\<rparr>"

text \<open>
  \<^verbatim>\<open>detectConceptDrift(isCorrect)\<close>, on the detector passed in and returned. The result
  is \<open>None\<close> where the source would compute with a non-number: reading \<^verbatim>\<open>p_i\<close> while it
  is undefined, or the square root of a negative number (both give \<^verbatim>\<open>NaN\<close>).
  \<open>runDrift_total\<close> shows that neither happens from the initial detector.
\<close>

definition detectConceptDrift :: "bool \<Rightarrow> driftDetector \<Rightarrow> (driftState \<times> driftDetector) option" where
  "detectConceptDrift isCorrect d =
     (let n1 = n_samples d + 1;
          errorRate = (if isCorrect then 0 else 1 :: real)
      in case (if n1 > 1 then p_i d else Some 0) of
           None \<Rightarrow> None
         | Some prev \<Rightarrow>
             let p = prev + (errorRate - prev) / real n1
             in if p * (1 - p) / real n1 < 0 then None
                else
                  let s = sqrt (p * (1 - p) / real n1);
                      d1 = d\<lparr>n_samples := n1, p_i := Some p\<rparr>;
                      d2 = (if xless (Fin (p + s)) (xadd (p_min d1) (s_min d1))
                            then d1\<lparr>p_min := Fin p, s_min := Fin s\<rparr> else d1)
                  in if xless (xadd (p_min d2) (xscale drift_level (s_min d2))) (Fin (p + s))
                     then Some (DRIFT, d2\<lparr>p_min := Infinity, s_min := Infinity, n_samples := 1\<rparr>)
                     else if xless (xadd (p_min d2) (xscale warning_level (s_min d2))) (Fin (p + s))
                     then Some (WARNING, d2)
                     else Some (STABLE, d2))"

text \<open>
  The transition rule in the words of the specification: the running error mean \<open>p_i\<close>
  and its standard error \<open>s_i\<close> over the count, the three-way comparison against the
  stored minima, the hard reset on DRIFT, and the refresh of the minima on STABLE.
\<close>

definition ddm_p :: "bool \<Rightarrow> driftDetector \<Rightarrow> real" where
  "ddm_p isCorrect d =
     (let prev = (case p_i d of Some q \<Rightarrow> q | None \<Rightarrow> 0)
      in prev + ((if isCorrect then 0 else 1) - prev) / real (n_samples d + 1))"

definition ddm_s :: "bool \<Rightarrow> driftDetector \<Rightarrow> real" where
  "ddm_s isCorrect d =
     sqrt (ddm_p isCorrect d * (1 - ddm_p isCorrect d) / real (n_samples d + 1))"

definition ddm_transition_spec :: "bool \<Rightarrow> driftDetector \<Rightarrow> driftState \<times> driftDetector" where
  "ddm_transition_spec isCorrect d =
     (let p = ddm_p isCorrect d; s = ddm_s isCorrect d
      in if xless (xadd (p_min d) (xscale 3 (s_min d))) (Fin (p + s))
         then (DRIFT, \<lparr>p_min = Infinity, s_min = Infinity, n_samples = 1, p_i = Some p\<rparr>)
         else if xless (xadd (p_min d) (xscale 2 (s_min d))) (Fin (p + s))
         then (WARNING, \<lparr>p_min = p_min d, s_min = s_min d, n_samples = n_samples d + 1, p_i = Some p\<rparr>)
         else if xless (Fin (p + s)) (xadd (p_min d) (s_min d))
         then (STABLE, \<lparr>p_min = Fin p, s_min = Fin s, n_samples = n_samples d + 1, p_i = Some p\<rparr>)
         else (STABLE, \<lparr>p_min = p_min d, s_min = s_min d, n_samples = n_samples d + 1, p_i = Some p\<rparr>))"

text \<open>
  What every detector reached from the initial one satisfies: the stored minimum of the
  standard error is not negative, and the error mean is defined and in \<open>[0, 1]\<close> as
  soon as one sample was counted.
\<close>

definition dd_inv :: "driftDetector \<Rightarrow> bool" where
  "dd_inv d =
     ((case s_min d of Fin s \<Rightarrow> 0 \<le> s | Infinity \<Rightarrow> True) \<and>
      (case p_i d of Some q \<Rightarrow> 0 \<le> q \<and> q \<le> 1 \<and> 1 \<le> n_samples d | None \<Rightarrow> n_samples d = 0))"

text \<open>One call per cycle, over a stream of correctness bits.\<close>

fun runDrift :: "bool list \<Rightarrow> driftDetector \<Rightarrow> (driftState list \<times> driftDetector) option" where
  "runDrift [] d = Some ([], d)"
| "runDrift (b # bs) d =
     (case detectConceptDrift b d of
        None \<Rightarrow> None
      | Some (st, d') \<Rightarrow>
          (case runDrift bs d' of None \<Rightarrow> None | Some (sts, d'') \<Rightarrow> Some (st # sts, d'')))"

text \<open>The detector after one correct prediction from the initial state.\<close>

definition dd_after_hit :: driftDetector where
  "dd_after_hit = \<lparr>p_min = Fin 0, s_min = Fin 0, n_samples = 1, p_i = Some 0\<rparr>"

section \<open>Helper functions\<close>

text \<open>
  \<^verbatim>\<open>parseInt(string)\<close> with no radix, on a string: leading white space is skipped, one
  sign is read, a \<^verbatim>\<open>0x\<close> or \<^verbatim>\<open>0X\<close> prefix switches to radix 16, and the longest run of
  digits of the radix is the value. \<open>None\<close> is \<^verbatim>\<open>NaN\<close>: no digit was found.
  A \<open>char\<close> holds a code unit below 256, so the white space of the language that a
  string of the model can contain is TAB, LF, VT, FF, CR, SP and the no-break space
  U+00A0 (160); the white space above U+00FF cannot occur in a model string.
\<close>

definition isStrWhiteSpace :: "char \<Rightarrow> bool" where
  "isStrWhiteSpace c = (of_char c \<in> {9, 10, 11, 12, 13, 32, 160 :: nat})"

definition digitValue :: "char \<Rightarrow> nat option" where
  "digitValue c =
     (let k = (of_char c :: nat)
      in if 48 \<le> k \<and> k \<le> 57 then Some (k - 48)
         else if 97 \<le> k \<and> k \<le> 122 then Some (k - 87)
         else if 65 \<le> k \<and> k \<le> 90 then Some (k - 55)
         else None)"

definition isRadixDigit :: "nat \<Rightarrow> char \<Rightarrow> bool" where
  "isRadixDigit R c = (case digitValue c of Some v \<Rightarrow> v < R | None \<Rightarrow> False)"

definition digitsValue :: "nat \<Rightarrow> string \<Rightarrow> nat" where
  "digitsValue R ds =
     foldl (\<lambda>acc c. case digitValue c of Some v \<Rightarrow> acc * R + v | None \<Rightarrow> acc) 0 ds"

definition parseInt :: "string \<Rightarrow> int option" where
  "parseInt inputString =
     (let S = dropWhile isStrWhiteSpace inputString;
          sign = (if take 1 S = ''-'' then - 1 else 1 :: int);
          S1 = (if take 1 S = ''-'' \<or> take 1 S = ''+'' then drop 1 S else S);
          hex = (take 2 S1 = ''0x'' \<or> take 2 S1 = ''0X'');
          R = (if hex then 16 else 10);
          S2 = (if hex then drop 2 S1 else S1);
          Z = takeWhile (isRadixDigit R) S2
      in if Z = [] then None else Some (sign * int (digitsValue R Z)))"

text \<open>
  \<^verbatim>\<open>getBigSmallFromNumber(number)\<close>. The argument is a string or \<^verbatim>\<open>null\<close>/\<^verbatim>\<open>undefined\<close>
  (\<open>None\<close>): the callers pass the \<^verbatim>\<open>actual\<close> field of a history record, the last actual
  outcome, or a label.
\<close>

definition getBigSmallFromNumber :: "string option \<Rightarrow> outcome option" where
  "getBigSmallFromNumber number =
     (case number of
        None \<Rightarrow> None
      | Some s \<Rightarrow>
          (case parseInt s of
             None \<Rightarrow> None
           | Some num \<Rightarrow>
               if 0 \<le> num \<and> num \<le> 4 then Some SMALL
               else if 5 \<le> num \<and> num \<le> 9 then Some BIG
               else None))"

text \<open>The label as the string the code holds.\<close>

fun outcomeName :: "outcome \<Rightarrow> string" where
  "outcomeName BIG = ''BIG''"
| "outcomeName SMALL = ''SMALL''"

text \<open>\<^verbatim>\<open>String.prototype.includes\<close>.\<close>

fun includesStr :: "string \<Rightarrow> string \<Rightarrow> bool" where
  "includesStr [] sub = (sub = [])"
| "includesStr (c # cs) sub = (take (length sub) (c # cs) = sub \<or> includesStr cs sub)"

text \<open>A number that may be \<^verbatim>\<open>null\<close>: \<^verbatim>\<open>null > x\<close> is false for every positive \<open>x\<close>.\<close>

definition gtNum :: "real option \<Rightarrow> real \<Rightarrow> bool" where
  "gtNum v x = (case v of None \<Rightarrow> 0 > x | Some r \<Rightarrow> r > x)"

section \<open>The state carried between cycles\<close>

text \<open>
  A field that may be missing (\<^verbatim>\<open>undefined\<close>), \<^verbatim>\<open>null\<close> or present: the code tells the
  first two apart in \<^verbatim>\<open>typeof currentSharedStats.lastActualOutcome !== 'undefined'\<close>.
\<close>

datatype 'a jsfield = Undefined | Null | Val 'a

fun fieldValue :: "'a jsfield \<Rightarrow> 'a option" where
  "fieldValue (Val v) = Some v"
| "fieldValue _ = None"

text \<open>Truthiness of a string field: missing, \<^verbatim>\<open>null\<close> and the empty string are falsy.\<close>

fun truthyStr :: "string jsfield \<Rightarrow> bool" where
  "truthyStr (Val s) = (s \<noteq> [])"
| "truthyStr _ = False"

text \<open>
  One vote as it is echoed to the caller in \<^verbatim>\<open>lastPredictionSignals\<close> and replayed into
  the next cycle's performance update.
\<close>

record signalVote =
  source :: string
  prediction :: outcome
  weight :: real

text \<open>
  \<^verbatim>\<open>currentSharedStats\<close>, with the fields the engine reads. Numbers that the server
  initialises to \<^verbatim>\<open>null\<close> are options; period identifiers are integers.
\<close>

record sharedStats =
  periodFull :: "int option"
  longTermGlobalAccuracy :: "real option"
  lastPredictionSignals :: "signalVote list"
  lastActualOutcome :: "string jsfield"
  lastPredictedOutcome :: "outcome option"
  lastFinalConfidence :: "real option"
  lastConfidenceLevel :: nat
  lastPeriodFull :: "int option"
  lastVolatilityRegime :: string
  lastMacroRegime :: string
  lastConcentrationModeEngaged :: bool
  lastMarketEntropyState :: string

section \<open>Reflexive correction\<close>

text \<open>
  \<^verbatim>\<open>let consecutiveHighConfLosses = 0; let reflexiveCorrectionActive = 0;\<close> The second is
  a countdown.
\<close>

record reflexState =
  consecutiveHighConfLosses :: nat
  reflexiveCorrectionActive :: nat

definition reflexState_init :: reflexState where
  "reflexState_init = \<lparr>consecutiveHighConfLosses = 0, reflexiveCorrectionActive = 0\<rparr>"

text \<open>\<^verbatim>\<open>checkForAnomalousPerformance(currentSharedStats)\<close>: the flag and the new counters.\<close>

definition checkForAnomalousPerformance ::
  "sharedStats option \<Rightarrow> reflexState \<Rightarrow> bool \<times> reflexState" where
  "checkForAnomalousPerformance currentSharedStats r =
     (if reflexiveCorrectionActive r > 0
      then (True, r\<lparr>reflexiveCorrectionActive := reflexiveCorrectionActive r - 1\<rparr>)
      else
        let r1 =
          (case currentSharedStats of
             None \<Rightarrow> r
           | Some st \<Rightarrow>
               if lastFinalConfidence st \<noteq> None \<and> truthyStr (lastActualOutcome st)
               then
                 let lastPredOutcomeBS = getBigSmallFromNumber (fieldValue (lastActualOutcome st));
                     lastPredWasCorrect = (lastPredOutcomeBS = lastPredictedOutcome st);
                     lastPredWasHighConf = (lastConfidenceLevel st = 3)
                 in if lastPredWasHighConf \<and> \<not> lastPredWasCorrect
                    then r\<lparr>consecutiveHighConfLosses := consecutiveHighConfLosses r + 1\<rparr>
                    else r\<lparr>consecutiveHighConfLosses := 0\<rparr>
               else r)
        in if consecutiveHighConfLosses r1 \<ge> 2
           then (True, r1\<lparr>reflexiveCorrectionActive := 5, consecutiveHighConfLosses := 0\<rparr>)
           else (False, r1))"

text \<open>
  The contextual aggression of the cycle, lines
  \<^verbatim>\<open>let regimeContextualAggression = (currentRegimeProfile.contextualAggression || 1.0) *
  primeTimeAggression\<close> and the two that scale it.
\<close>

definition regimeContextualAggression ::
  "real \<Rightarrow> real \<Rightarrow> bool \<Rightarrow> driftState \<Rightarrow> bool \<Rightarrow> real" where
  "regimeContextualAggression contextualAggression primeTimeAggression isReflexiveCorrection
       driftSt concentrationModeEngaged =
     (let a = (if contextualAggression = 0 then 1.0 else contextualAggression) * primeTimeAggression
      in if isReflexiveCorrection \<or> driftSt = DRIFT then a * 0.25
         else if concentrationModeEngaged then a * 0.6
         else a)"

text \<open>
  The cycles' view of the counters: each element of the list is the carried state handed
  to one cycle.
\<close>

fun runReflex :: "sharedStats option list \<Rightarrow> reflexState \<Rightarrow> bool list \<times> reflexState" where
  "runReflex [] r = ([], r)"
| "runReflex (st # sts) r =
     (let (flag, r1) = checkForAnomalousPerformance st r;
          (flags, r2) = runReflex sts r1
      in (flag # flags, r2))"

text \<open>
  The carried state describes a previous prediction whose outcome is known (the guard of
  the counter update), and that prediction was a miss at confidence level 3.
\<close>

definition scoredPrediction :: "sharedStats \<Rightarrow> bool" where
  "scoredPrediction st = (lastFinalConfidence st \<noteq> None \<and> truthyStr (lastActualOutcome st))"

definition highConfMiss :: "sharedStats \<Rightarrow> bool" where
  "highConfMiss st =
     (scoredPrediction st \<and> lastConfidenceLevel st = 3 \<and>
      getBigSmallFromNumber (fieldValue (lastActualOutcome st)) \<noteq> lastPredictedOutcome st)"

text \<open>What the counters satisfy in every state reached from the initial one.\<close>

definition reflex_inv :: "reflexState \<Rightarrow> bool" where
  "reflex_inv r =
     (consecutiveHighConfLosses r \<le> 1 \<and> reflexiveCorrectionActive r \<le> 5 \<and>
      (reflexiveCorrectionActive r > 0 \<longrightarrow> consecutiveHighConfLosses r = 0))"

text \<open>A carried state as the server builds it, for the worked examples.\<close>

definition statsExample :: "nat \<Rightarrow> string \<Rightarrow> outcome \<Rightarrow> sharedStats" where
  "statsExample level actual predicted =
     \<lparr>periodFull = None, longTermGlobalAccuracy = Some 0.5, lastPredictionSignals = [],
      lastActualOutcome = Val actual, lastPredictedOutcome = Some predicted,
      lastFinalConfidence = Some 0.8, lastConfidenceLevel = level, lastPeriodFull = Some 7,
      lastVolatilityRegime = ''MEDIUM'', lastMacroRegime = ''RANGE_MED_VOL'',
      lastConcentrationModeEngaged = False, lastMarketEntropyState = ''STABLE_MODERATE''\<rparr>"


text \<open>
  The carried state gives nothing to score: it is absent, its confidence is not a number,
  or its last actual outcome is missing (the guard of the counter update fails).
\<close>

definition unscoredCycle :: "sharedStats option \<Rightarrow> bool" where
  "unscoredCycle st = (case st of None \<Rightarrow> True | Some s \<Rightarrow> \<not> scoredPrediction s)"

text \<open>
  A carried state whose outcome is not known yet: \<^verbatim>\<open>lastActualOutcome: null\<close>, as the
  servers initialise it, after a prediction at confidence level 1.
\<close>

definition pendingExample :: sharedStats where
  "pendingExample = (statsExample 1 ''7'' BIG)\<lparr>lastActualOutcome := Null\<rparr>"
section \<open>Signal performance learning\<close>

definition PERFORMANCE_WINDOW :: nat where "PERFORMANCE_WINDOW = 30"
definition MIN_OBSERVATIONS_FOR_ADJUST :: nat where "MIN_OBSERVATIONS_FOR_ADJUST = 10"
definition MAX_WEIGHT_FACTOR :: real where "MAX_WEIGHT_FACTOR = 1.95"
definition MIN_WEIGHT_FACTOR :: real where "MIN_WEIGHT_FACTOR = 0.05"
definition MAX_ALPHA_FACTOR :: real where "MAX_ALPHA_FACTOR = 1.6"
definition MIN_ALPHA_FACTOR :: real where "MIN_ALPHA_FACTOR = 0.4"
definition MIN_ABSOLUTE_WEIGHT :: real where "MIN_ABSOLUTE_WEIGHT = 0.0003"
definition INACTIVITY_PERIOD_FOR_DECAY :: nat where
  "INACTIVITY_PERIOD_FOR_DECAY = PERFORMANCE_WINDOW * 3"
definition DECAY_RATE :: real where "DECAY_RATE = 0.025"
definition ALPHA_UPDATE_RATE :: real where "ALPHA_UPDATE_RATE = 0.04"
definition PROBATION_THRESHOLD_ACCURACY :: real where "PROBATION_THRESHOLD_ACCURACY = 0.40"
definition PROBATION_MIN_OBSERVATIONS :: nat where "PROBATION_MIN_OBSERVATIONS = 15"
definition PROBATION_WEIGHT_CAP :: real where "PROBATION_WEIGHT_CAP = 0.10"

text \<open>One bucket of \<^verbatim>\<open>performanceByVolatility\<close>: \<^verbatim>\<open>{ correct, total }\<close>.\<close>

record volPerf =
  vol_correct :: nat
  vol_total :: nat

text \<open>
  The record kept per signal source. \<^verbatim>\<open>total\<close> is \<open>total_obs\<close> here;
  \<^verbatim>\<open>recentAccuracy\<close> holds the pushed 0/1 values, oldest first; a period that is
  \<^verbatim>\<open>null\<close> is \<open>None\<close>.
\<close>

record signalPerf =
  correct :: nat
  total_obs :: nat
  recentAccuracy :: "nat list"
  sessionCorrect :: nat
  sessionTotal :: nat
  lastUpdatePeriod :: "int option"
  lastActivePeriod :: "int option"
  currentAdjustmentFactor :: real
  alphaFactor :: real
  longTermImportanceScore :: real
  performanceByVolatility :: "string \<rightharpoonup> volPerf"
  isOnProbation :: bool

text \<open>The object literal both functions store for a source seen for the first time.\<close>

definition newSignalPerf :: signalPerf where
  "newSignalPerf =
     \<lparr>correct = 0, total_obs = 0, recentAccuracy = [],
      sessionCorrect = 0, sessionTotal = 0,
      lastUpdatePeriod = None, lastActivePeriod = None,
      currentAdjustmentFactor = 1.0, alphaFactor = 1.0, longTermImportanceScore = 0.5,
      performanceByVolatility = Map.empty, isOnProbation = False\<rparr>"

text \<open>\<^verbatim>\<open>let signalPerformance = {}\<close>: the table from source name to record.\<close>

type_synonym signalPerformance = "string \<rightharpoonup> signalPerf"

text \<open>
  The step of \<^verbatim>\<open>getDynamicWeightAdjustment\<close> taken when the last update was for another
  period: decay after a long inactivity (which also lifts probation), then the period
  stamp.
\<close>

definition decayInactive :: "int \<Rightarrow> signalPerf \<Rightarrow> signalPerf" where
  "decayInactive currentPeriodFull perf =
     (if lastUpdatePeriod perf \<noteq> Some currentPeriodFull
      then
        (let perf1 =
           (case lastActivePeriod perf of
              None \<Rightarrow> perf
            | Some lap \<Rightarrow>
                if currentPeriodFull - lap > int INACTIVITY_PERIOD_FOR_DECAY
                then
                  (let perfA =
                     (if currentAdjustmentFactor perf > 1.0
                      then perf\<lparr>currentAdjustmentFactor :=
                                   max 1.0 (currentAdjustmentFactor perf - DECAY_RATE)\<rparr>
                      else if currentAdjustmentFactor perf < 1.0
                      then perf\<lparr>currentAdjustmentFactor :=
                                   min 1.0 (currentAdjustmentFactor perf + DECAY_RATE)\<rparr>
                      else perf)
                   in if isOnProbation perfA then perfA\<lparr>isOnProbation := False\<rparr> else perfA)
                else perf)
         in perf1\<lparr>lastUpdatePeriod := Some currentPeriodFull\<rparr>)
      else perf)"

definition volatilitySpecificAdjustment :: "string \<Rightarrow> signalPerf \<Rightarrow> real" where
  "volatilitySpecificAdjustment currentVolatilityRegime perf =
     (case performanceByVolatility perf currentVolatilityRegime of
        None \<Rightarrow> 1.0
      | Some volPerf \<Rightarrow>
          if real (vol_total volPerf) \<ge> real MIN_OBSERVATIONS_FOR_ADJUST / 2.0
          then
            (let volAccuracy = real (vol_correct volPerf) / real (vol_total volPerf);
                 volDeviation = volAccuracy - 0.5
             in min (max (1 + volDeviation * 1.30) 0.55) 1.45)
          else 1.0)"

definition sessionAdjustmentFactor :: "signalPerf \<Rightarrow> real" where
  "sessionAdjustmentFactor perf =
     (if sessionTotal perf \<ge> 3
      then
        (let sessionAccuracy = real (sessionCorrect perf) / real (sessionTotal perf);
             sessionDeviation = sessionAccuracy - 0.5
         in min (max (1 + sessionDeviation * 1.5) 0.6) 1.4)
      else 1.0)"

text \<open>
  \<^verbatim>\<open>getDynamicWeightAdjustment(signalSourceName, baseWeight, currentPeriodFull,
  currentVolatilityRegime, sessionHistory)\<close>: the weight returned and the table as the call
  leaves it.
\<close>

definition getDynamicWeightAdjustment ::
  "string \<Rightarrow> real \<Rightarrow> int \<Rightarrow> string \<Rightarrow> 'h list \<Rightarrow> signalPerformance
     \<Rightarrow> real \<times> signalPerformance" where
  "getDynamicWeightAdjustment signalSourceName baseWeight currentPeriodFull
       currentVolatilityRegime sessionHistory sp =
     (case sp signalSourceName of
        None \<Rightarrow>
          (max baseWeight MIN_ABSOLUTE_WEIGHT, sp(signalSourceName \<mapsto> newSignalPerf))
      | Some perf0 \<Rightarrow>
          let perf1 = (if length sessionHistory \<le> 1
                       then perf0\<lparr>sessionCorrect := 0, sessionTotal := 0\<rparr> else perf0);
              perf = decayInactive currentPeriodFull perf1;
              finalAdjustmentFactor0 =
                currentAdjustmentFactor perf * alphaFactor perf
                  * volatilitySpecificAdjustment currentVolatilityRegime perf
                  * sessionAdjustmentFactor perf
                  * (0.70 + longTermImportanceScore perf * 0.6);
              finalAdjustmentFactor =
                (if isOnProbation perf then min finalAdjustmentFactor0 PROBATION_WEIGHT_CAP
                 else finalAdjustmentFactor0);
              adjustedWeight = baseWeight * finalAdjustmentFactor
          in (max adjustedWeight MIN_ABSOLUTE_WEIGHT, sp(signalSourceName \<mapsto> perf)))"

text \<open>The accuracy over the recent window: \<^verbatim>\<open>recentCorrectCount / recentAccuracy.length\<close>.\<close>

definition windowAccuracy :: "nat list \<Rightarrow> real" where
  "windowAccuracy ra = real (sum_list ra) / real (length ra)"

definition newAdjustmentFactor :: "real \<Rightarrow> real" where
  "newAdjustmentFactor accuracy =
     (let deviation = accuracy - 0.5
      in min (max (1 + deviation * 3.5) MIN_WEIGHT_FACTOR) MAX_WEIGHT_FACTOR)"

definition alphaLearningRate :: "real \<Rightarrow> real" where
  "alphaLearningRate accuracy =
     (if accuracy < 0.35 then ALPHA_UPDATE_RATE * 1.75
      else if accuracy < 0.45 then ALPHA_UPDATE_RATE * 1.4
      else ALPHA_UPDATE_RATE)"

definition alphaFactorStep :: "real \<Rightarrow> real \<Rightarrow> real \<Rightarrow> real" where
  "alphaFactorStep alpha newAdj rate =
     (if newAdj > alpha then min MAX_ALPHA_FACTOR (alpha + rate * (newAdj - alpha))
      else max MIN_ALPHA_FACTOR (alpha - rate * (alpha - newAdj)))"

text \<open>
  The block guarded by \<^verbatim>\<open>total >= MIN_OBSERVATIONS_FOR_ADJUST && recentAccuracy.length >=
  PERFORMANCE_WINDOW / 2\<close>: the adjustment factor, probation, and the alpha factor.
\<close>

definition adjustFromWindow :: "signalPerf \<Rightarrow> signalPerf" where
  "adjustFromWindow perf =
     (if total_obs perf \<ge> MIN_OBSERVATIONS_FOR_ADJUST
         \<and> real (length (recentAccuracy perf)) \<ge> real PERFORMANCE_WINDOW / 2
      then
        (let accuracy = windowAccuracy (recentAccuracy perf);
             newAdj = newAdjustmentFactor accuracy;
             probation =
               (if length (recentAccuracy perf) \<ge> PROBATION_MIN_OBSERVATIONS
                   \<and> accuracy < PROBATION_THRESHOLD_ACCURACY then True
                else if accuracy > PROBATION_THRESHOLD_ACCURACY + 0.15 then False
                else isOnProbation perf)
         in perf\<lparr>currentAdjustmentFactor := newAdj,
                 isOnProbation := probation,
                 alphaFactor := alphaFactorStep (alphaFactor perf) newAdj (alphaLearningRate accuracy)\<rparr>)
      else perf)"

definition bumpBucket :: "bool \<Rightarrow> volPerf \<Rightarrow> volPerf" where
  "bumpBucket outcomeCorrect b =
     \<lparr>vol_correct = (if outcomeCorrect then vol_correct b + 1 else vol_correct b),
      vol_total = vol_total b + 1\<rparr>"

definition importanceDelta :: "bool \<Rightarrow> bool \<Rightarrow> bool \<Rightarrow> bool \<Rightarrow> string \<Rightarrow> real" where
  "importanceDelta outcomeCorrect isHighConfidencePrediction isOverallCorrect
       concentrationModeActive marketEntropyState =
     (let d = (if outcomeCorrect then (if isHighConfidencePrediction then 0.025 else 0.01)
               else (if isHighConfidencePrediction \<and> \<not> isOverallCorrect then - 0.040 else - 0.015))
      in if concentrationModeActive \<or> includesStr marketEntropyState ''CHAOS'' then d * 1.5 else d)"

text \<open>\<^verbatim>\<open>recentAccuracy.push(outcomeCorrect)\<close> and the \<^verbatim>\<open>shift()\<close> beyond the window.\<close>

definition pushWindow :: "nat list \<Rightarrow> bool \<Rightarrow> nat list" where
  "pushWindow ra outcomeCorrect =
     (let ra1 = ra @ [if outcomeCorrect then 1 else 0]
      in if length ra1 > PERFORMANCE_WINDOW then tl ra1 else ra1)"

text \<open>
  The body of the branch \<^verbatim>\<open>lastActivePeriod !== periodFull || total === 0\<close>: the counted
  observation of one source.
\<close>

definition countObservation ::
  "bool \<Rightarrow> int option \<Rightarrow> string \<Rightarrow> real \<Rightarrow> signalPerf \<Rightarrow> signalPerf" where
  "countObservation outcomeCorrect period currentVolatilityRegime delta perf =
     (let bucket = (case performanceByVolatility perf currentVolatilityRegime of
                      None \<Rightarrow> \<lparr>vol_correct = 0, vol_total = 0\<rparr> | Some b \<Rightarrow> b);
          perf1 = perf\<lparr>
            total_obs := total_obs perf + 1,
            sessionTotal := sessionTotal perf + 1,
            correct := (if outcomeCorrect then correct perf + 1 else correct perf),
            sessionCorrect := (if outcomeCorrect then sessionCorrect perf + 1 else sessionCorrect perf),
            performanceByVolatility :=
              (performanceByVolatility perf)(currentVolatilityRegime \<mapsto> bumpBucket outcomeCorrect bucket),
            longTermImportanceScore := min 1.0 (max 0.0 (longTermImportanceScore perf + delta)),
            recentAccuracy := pushWindow (recentAccuracy perf) outcomeCorrect\<rparr>
      in (adjustFromWindow perf1)\<lparr>lastActivePeriod := period\<rparr>)"

text \<open>
  The record of a source as the callback of \<^verbatim>\<open>forEach\<close> finds it, created when missing,
  and the same with the bucket of the volatility regime created when missing.
\<close>

definition perfBefore :: "signalPerformance \<Rightarrow> string \<Rightarrow> signalPerf" where
  "perfBefore sp src = (case sp src of None \<Rightarrow> newSignalPerf | Some p \<Rightarrow> p)"

definition ensureBucket :: "string \<Rightarrow> signalPerf \<Rightarrow> signalPerf" where
  "ensureBucket currentVolatilityRegime perf =
     (if performanceByVolatility perf currentVolatilityRegime = None
      then perf\<lparr>performanceByVolatility :=
             (performanceByVolatility perf)
               (currentVolatilityRegime \<mapsto> \<lparr>vol_correct = 0, vol_total = 0\<rparr>)\<rparr>
      else perf)"

text \<open>
  The callback of \<^verbatim>\<open>contributingSignals.forEach\<close>, for one vote. A vote whose source is
  the empty string is skipped (\<^verbatim>\<open>!signal.source\<close>).
\<close>

definition updateSignalEntry ::
  "outcome \<Rightarrow> int option \<Rightarrow> string \<Rightarrow> bool \<Rightarrow> bool \<Rightarrow> bool \<Rightarrow> string
     \<Rightarrow> signalPerformance \<Rightarrow> signalVote \<Rightarrow> signalPerformance" where
  "updateSignalEntry actualOutcome period currentVolatilityRegime isHighConfidencePrediction
       isOverallCorrect concentrationModeActive marketEntropyState sp signal =
     (if source signal = [] then sp
      else
        let perf1 = ensureBucket currentVolatilityRegime (perfBefore sp (source signal));
            perf2 =
              (if lastActivePeriod perf1 \<noteq> period \<or> total_obs perf1 = 0
               then
                 (let outcomeCorrect = (prediction signal = actualOutcome)
                  in countObservation outcomeCorrect period currentVolatilityRegime
                       (importanceDelta outcomeCorrect isHighConfidencePrediction isOverallCorrect
                          concentrationModeActive marketEntropyState)
                       perf1)
               else perf1)
        in sp(source signal \<mapsto> perf2\<lparr>lastUpdatePeriod := period\<rparr>))"

text \<open>
  \<^verbatim>\<open>updateSignalPerformance(contributingSignals, actualOutcome, periodFull,
  currentVolatilityRegime, lastFinalConfidence, concentrationModeActive,
  marketEntropyState)\<close>. The caller passes the label of the last actual outcome, so
  \<^verbatim>\<open>getBigSmallFromNumber(actualOutcome)\<close> parses a label.
\<close>

definition updateSignalPerformance ::
  "signalVote list \<Rightarrow> outcome option \<Rightarrow> int option \<Rightarrow> string \<Rightarrow> real option \<Rightarrow> bool \<Rightarrow> string
     \<Rightarrow> signalPerformance \<Rightarrow> signalPerformance" where
  "updateSignalPerformance contributingSignals actualOutcome period currentVolatilityRegime
       lastFinalConf concentrationModeActive marketEntropyState sp =
     (case actualOutcome of
        None \<Rightarrow> sp
      | Some ao \<Rightarrow>
          if contributingSignals = [] then sp
          else
            let isHighConfidencePrediction = gtNum lastFinalConf 0.75;
                isOverallCorrect =
                  (getBigSmallFromNumber (Some (outcomeName ao))
                     = Some (if gtNum lastFinalConf 0.5 then BIG else SMALL))
            in foldl (updateSignalEntry ao period currentVolatilityRegime
                        isHighConfidencePrediction isOverallCorrect concentrationModeActive
                        marketEntropyState)
                 sp contributingSignals)"

section \<open>Signal performance: predicates and worked examples\<close>

text \<open>
  The guard of the counted branch, read on the table before the call: the source was last
  counted for another period, or never.
\<close>

definition countedFor :: "signalPerformance \<Rightarrow> string \<Rightarrow> int option \<Rightarrow> bool" where
  "countedFor sp src period =
     (lastActivePeriod (perfBefore sp src) \<noteq> period \<or> total_obs (perfBefore sp src) = 0)"

text \<open>
  A record that the callback leaves alone for this period and regime: counted for the
  period, stamped with it, and holding the regime's bucket.
\<close>

definition settled :: "int option \<Rightarrow> string \<Rightarrow> signalPerf \<Rightarrow> bool" where
  "settled period regime p =
     (lastActivePeriod p = period \<and> total_obs p \<noteq> 0 \<and> lastUpdatePeriod p = period \<and>
      performanceByVolatility p regime \<noteq> None)"

definition settledAt :: "int option \<Rightarrow> string \<Rightarrow> signalPerformance \<Rightarrow> string \<Rightarrow> bool" where
  "settledAt period regime sp src = (case sp src of None \<Rightarrow> False | Some p \<Rightarrow> settled period regime p)"

text \<open>
  A worked run: one source that votes BIG while SMALL comes out, period after period
  (confidence 0.6, no concentration mode, entropy state STABLE_MODERATE).
\<close>

definition missVote :: signalVote where
  "missVote = \<lparr>source = ''RSI'', prediction = BIG, weight = 0.05\<rparr>"

definition missStep :: "int \<Rightarrow> signalPerformance \<Rightarrow> signalPerformance" where
  "missStep j sp = updateSignalPerformance [missVote]
                      (Some SMALL) (Some j) ''MEDIUM'' (Some 0.6) False ''STABLE_MODERATE'' sp"

text \<open>The record of that source after \<open>k\<close> misses, for \<open>k\<close> up to 14.\<close>

definition missRecord :: "nat \<Rightarrow> signalPerf" where
  "missRecord k =
     \<lparr>correct = 0, total_obs = k, recentAccuracy = replicate k 0,
      sessionCorrect = 0, sessionTotal = k,
      lastUpdatePeriod = Some (int k), lastActivePeriod = Some (int k),
      currentAdjustmentFactor = 1.0, alphaFactor = 1.0,
      longTermImportanceScore = 0.5 - 0.015 * real k,
      performanceByVolatility = Map.empty(''MEDIUM'' \<mapsto> \<lparr>vol_correct = 0, vol_total = k\<rparr>),
      isOnProbation = False\<rparr>"

definition missStreak :: "nat \<Rightarrow> signalPerformance" where
  "missStreak k = foldl (\<lambda>sp j. missStep (int j) sp) Map.empty [1..<Suc k]"

text \<open>The record after the fifteenth miss: the window is full enough and probation starts.\<close>

definition probationRecord :: signalPerf where
  "probationRecord =
     (missRecord 15)\<lparr>currentAdjustmentFactor := 0.05, alphaFactor := 0.9335, isOnProbation := True\<rparr>"

text \<open>
  The read finds the source inactive for more than \<^verbatim>\<open>INACTIVITY_PERIOD_FOR_DECAY\<close> periods,
  which is when it lifts probation before the cap is applied.
\<close>

definition inactiveTooLong :: "int \<Rightarrow> signalPerf \<Rightarrow> bool" where
  "inactiveTooLong currentPeriodFull perf =
     (lastUpdatePeriod perf \<noteq> Some currentPeriodFull \<and>
      (case lastActivePeriod perf of None \<Rightarrow> False
       | Some lap \<Rightarrow> currentPeriodFull - lap > int INACTIVITY_PERIOD_FOR_DECAY))"

text \<open>
  The counters of a record: every field, with the buckets read as their two counters and
  a missing bucket as \<open>(0, 0)\<close>.
\<close>

definition bucketCounts :: "signalPerf \<Rightarrow> string \<Rightarrow> nat \<times> nat" where
  "bucketCounts p g =
     (case performanceByVolatility p g of None \<Rightarrow> (0, 0) | Some b \<Rightarrow> (vol_correct b, vol_total b))"

definition perfCounters ::
  "signalPerf \<Rightarrow> (nat \<times> nat \<times> nat list \<times> nat \<times> nat) \<times> (int option \<times> int option)
      \<times> (real \<times> real \<times> real \<times> bool) \<times> (string \<Rightarrow> nat \<times> nat)" where
  "perfCounters p =
     ((correct p, total_obs p, recentAccuracy p, sessionCorrect p, sessionTotal p),
      (lastUpdatePeriod p, lastActivePeriod p),
      (currentAdjustmentFactor p, alphaFactor p, longTermImportanceScore p, isOnProbation p),
      bucketCounts p)"

text \<open>The source was counted for the period and stamped with it.\<close>

definition countedAt :: "int option \<Rightarrow> signalPerformance \<Rightarrow> string \<Rightarrow> bool" where
  "countedAt period sp src =
     (case sp src of None \<Rightarrow> False
      | Some p \<Rightarrow> lastActivePeriod p = period \<and> total_obs p \<noteq> 0 \<and> lastUpdatePeriod p = period)"

text \<open>
  The ranges of the data model: the window is no longer than the total count and than
  \<^verbatim>\<open>PERFORMANCE_WINDOW\<close>, and the three factors stay in their clamps.
\<close>

definition perf_inv :: "signalPerf \<Rightarrow> bool" where
  "perf_inv p =
     (length (recentAccuracy p) \<le> total_obs p \<and> length (recentAccuracy p) \<le> PERFORMANCE_WINDOW \<and>
      correct p \<le> total_obs p \<and>
      MIN_WEIGHT_FACTOR \<le> currentAdjustmentFactor p \<and> currentAdjustmentFactor p \<le> MAX_WEIGHT_FACTOR \<and>
      MIN_ALPHA_FACTOR \<le> alphaFactor p \<and> alphaFactor p \<le> MAX_ALPHA_FACTOR \<and>
      0 \<le> longTermImportanceScore p \<and> longTermImportanceScore p \<le> 1)"

definition sp_inv :: "signalPerformance \<Rightarrow> bool" where
  "sp_inv sp = (\<forall>src p. sp src = Some p \<longrightarrow> perf_inv p)"

text \<open>
  The worked run continued: the same source votes SMALL while SMALL comes out, a correct
  vote, in the periods that follow ten misses. \<open>mixedRun h\<close> is the table after the ten
  misses of periods 1 to 10 and \<open>h\<close> correct votes in periods 11 to \<open>10 + h\<close>.
\<close>

definition hitVote :: signalVote where
  "hitVote = \<lparr>source = ''RSI'', prediction = SMALL, weight = 0.05\<rparr>"

definition hitStep :: "int \<Rightarrow> signalPerformance \<Rightarrow> signalPerformance" where
  "hitStep j sp = updateSignalPerformance [hitVote]
                     (Some SMALL) (Some j) ''MEDIUM'' (Some 0.6) False ''STABLE_MODERATE'' sp"

definition mixedRun :: "nat \<Rightarrow> signalPerformance" where
  "mixedRun h = foldl (\<lambda>sp j. hitStep (int j) sp) (missStreak 10) [11..<11 + h]"

text \<open>The record of the source after the ten misses and \<open>h\<close> correct votes, for \<open>h\<close> up to 4.\<close>

definition mixedRecord :: "nat \<Rightarrow> signalPerf" where
  "mixedRecord h =
     \<lparr>correct = h, total_obs = 10 + h, recentAccuracy = replicate 10 0 @ replicate h 1,
      sessionCorrect = h, sessionTotal = 10 + h,
      lastUpdatePeriod = Some (int (10 + h)), lastActivePeriod = Some (int (10 + h)),
      currentAdjustmentFactor = 1.0, alphaFactor = 1.0,
      longTermImportanceScore = 0.35 + 0.01 * real h,
      performanceByVolatility = Map.empty(''MEDIUM'' \<mapsto> \<lparr>vol_correct = h, vol_total = 10 + h\<rparr>),
      isOnProbation = False\<rparr>"

text \<open>
  The record after the fifth correct vote, in period 15: the window holds 15 samples at
  accuracy 1/3, the adjustment factor is \<open>1 + (1/3 - 0.5) * 3.5 = 5/12\<close>, and probation
  starts.
\<close>

definition mixedProbation :: signalPerf where
  "mixedProbation =
     (mixedRecord 5)\<lparr>currentAdjustmentFactor := 5 / 12, alphaFactor := 1151 / 1200,
                      isOnProbation := True\<rparr>"

text \<open>
  The product of the five factors that \<^verbatim>\<open>getDynamicWeightAdjustment\<close> computes for a record
  and a volatility regime, before the probation cap.
\<close>

definition uncappedFactor :: "string \<Rightarrow> signalPerf \<Rightarrow> real" where
  "uncappedFactor currentVolatilityRegime perf =
     currentAdjustmentFactor perf * alphaFactor perf
       * volatilitySpecificAdjustment currentVolatilityRegime perf
       * sessionAdjustmentFactor perf
       * (0.70 + longTermImportanceScore perf * 0.6)"
section \<open>Numbers as text\<close>

text \<open>The decimal digits of a natural number, as template literals print an integer.\<close>

definition digitChar :: "nat \<Rightarrow> char" where
  "digitChar k = char_of (48 + k)"

function showNat :: "nat \<Rightarrow> string" where
  "showNat k = (if k < 10 then [digitChar k] else showNat (k div 10) @ [digitChar (k mod 10)])"
  by pat_completeness auto
termination
  by (relation "measure id") auto

definition showInt :: "int \<Rightarrow> string" where
  "showInt i = (if i < 0 then ''-'' @ showNat (nat (- i)) else showNat (nat i))"

text \<open>
  \<^verbatim>\<open>Number.prototype.toFixed(f)\<close> read over the reals: the integer \<open>n\<close> nearest to
  \<open>x * 10^f\<close> (the larger one on a tie), printed with \<open>f\<close> digits after the point, behind a
  minus sign when \<open>x < 0\<close>.
\<close>

definition toFixed :: "real \<Rightarrow> nat \<Rightarrow> string" where
  "toFixed x f =
     (let a = \<bar>x\<bar>;
          n = nat \<lfloor>a * 10 ^ f + 1 / 2\<rfloor>;
          ds = showNat n;
          padded = replicate (f + 1 - length ds) (CHR ''0'') @ ds;
          k = length padded - f
      in (if x < 0 then ''-'' else [])
           @ take k padded @ (if f = 0 then [] else ''.'' @ drop k padded))"

text \<open>\<^verbatim>\<open>Array.prototype.join(sep)\<close> on strings.\<close>

fun joinWith :: "string \<Rightarrow> string list \<Rightarrow> string" where
  "joinWith sep [] = []"
| "joinWith sep [x] = x"
| "joinWith sep (x # y # ys) = x @ sep @ joinWith sep (y # ys)"

section \<open>Session and external data\<close>

text \<open>\<^verbatim>\<open>getPrimeTimeSession(istHour)\<close>: the session name, its aggression and its confidence.\<close>

record primeSession =
  session :: string
  aggression :: real
  confidence :: real

definition getPrimeTimeSession :: "int \<Rightarrow> primeSession option" where
  "getPrimeTimeSession istHour =
     (if istHour \<ge> 10 \<and> istHour < 12
      then Some \<lparr>session = ''PRIME_MORNING'', aggression = 1.25, confidence = 1.15\<rparr>
      else if istHour \<ge> 13 \<and> istHour < 14
      then Some \<lparr>session = ''PRIME_AFTERNOON_1'', aggression = 1.15, confidence = 1.10\<rparr>
      else if istHour \<ge> 15 \<and> istHour < 16
      then Some \<lparr>session = ''PRIME_AFTERNOON_2'', aggression = 1.15, confidence = 1.10\<rparr>
      else if istHour \<ge> 17 \<and> istHour < 20
      then (if istHour = 19
            then Some \<lparr>session = ''PRIME_EVENING_PEAK'', aggression = 1.35, confidence = 1.25\<rparr>
            else Some \<lparr>session = ''PRIME_EVENING'', aggression = 1.30, confidence = 1.20\<rparr>)
      else None)"

text \<open>
  \<^verbatim>\<open>xs[Math.floor(Math.random() * xs.length)]\<close> for a draw \<open>r\<close>; a draw outside \<open>[0, 1)\<close>
  would read \<^verbatim>\<open>undefined\<close>.
\<close>

definition pickRandom :: "string list \<Rightarrow> real \<Rightarrow> string" where
  "pickRandom xs r =
     (let i = \<lfloor>r * real (length xs)\<rfloor>
      in if 0 \<le> i \<and> i < int (length xs) then xs ! nat i else ''undefined'')"

text \<open>
  \<^verbatim>\<open>getRealTimeExternalData()\<close>, with its three calls of \<^verbatim>\<open>Math.random()\<close> as arguments:
  the combined factor and the reason.
\<close>

definition getRealTimeExternalData :: "real \<Rightarrow> real \<Rightarrow> real \<Rightarrow> real \<times> string" where
  "getRealTimeExternalData r1 r2 r3 =
     (let randomWeather = pickRandom [''Clear'', ''Clouds'', ''Haze'', ''Smoke'', ''Rain'', ''Drizzle''] r1;
          weatherFactor = (if randomWeather \<in> set [''Clear'', ''Clouds''] then 1.01
                           else if randomWeather \<in> set [''Rain'', ''Drizzle''] then 0.99
                           else 1.0 :: real);
          randomNewsSentiment =
            pickRandom [''Strongly Positive'', ''Positive'', ''Neutral'', ''Negative'',
                        ''Strongly Negative''] r2;
          newsFactor = (if randomNewsSentiment = ''Strongly Positive'' then 1.05
                        else if randomNewsSentiment = ''Positive'' then 1.02
                        else if randomNewsSentiment = ''Negative'' then 0.98
                        else if randomNewsSentiment = ''Strongly Negative'' then 0.95
                        else 1.0 :: real);
          randomMarketVol = pickRandom [''Low'', ''Normal'', ''Elevated'', ''High''] r3;
          marketVolFactor = (if randomMarketVol = ''Elevated'' then 0.97
                             else if randomMarketVol = ''High'' then 0.94
                             else 1.0 :: real);
          combinedFactor = weatherFactor * newsFactor * marketVolFactor;
          reason = ''ExtData(Weather:'' @ randomWeather @ '',News:'' @ randomNewsSentiment
                     @ '',MktVol:'' @ randomMarketVol @ '')''
      in (combinedFactor, reason))"

section \<open>Market context, as the fusion layer reads it\<close>

text \<open>
  The object returned by \<^verbatim>\<open>getMarketRegimeAndTrendContext\<close>, the two fields read of the
  result of \<^verbatim>\<open>analyzeTrendStability\<close>, and the state of \<^verbatim>\<open>analyzeMarketEntropyState\<close>.
\<close>

record trendContext =
  strength :: string
  direction :: string
  volatility :: string
  details :: string
  macroRegime :: string
  isTransitioning :: bool

record stabilityResult =
  isStable :: bool
  reason :: string

record regimeProbabilities =
  bullTrend :: real
  bearTrend :: real
  volatileRange :: real
  quietRange :: real

text \<open>\<^verbatim>\<open>analyzeAdvancedMarketRegime(trendContext, marketEntropyState)\<close>.\<close>

definition analyzeAdvancedMarketRegime :: "trendContext \<Rightarrow> string \<Rightarrow> regimeProbabilities \<times> string" where
  "analyzeAdvancedMarketRegime tc entropy =
     (let probabilities =
            (if strength tc = ''STRONG'' \<and> volatility tc \<noteq> ''HIGH'' \<and> entropy = ''ORDERLY''
             then (if includesStr (direction tc) ''BIG''
                   then \<lparr>bullTrend = 0.8, bearTrend = 0.05, volatileRange = 0.1, quietRange = 0.05\<rparr>
                   else \<lparr>bullTrend = 0.05, bearTrend = 0.8, volatileRange = 0.1, quietRange = 0.05\<rparr>)
             else if strength tc = ''RANGING'' \<and> volatility tc = ''HIGH'' \<and> includesStr entropy ''CHAOS''
             then \<lparr>bullTrend = 0.1, bearTrend = 0.1, volatileRange = 0.7, quietRange = 0.1\<rparr>
             else if strength tc = ''RANGING'' \<and> volatility tc = ''VERY_LOW''
             then \<lparr>bullTrend = 0.1, bearTrend = 0.1, volatileRange = 0.1, quietRange = 0.7\<rparr>
             else \<lparr>bullTrend = 0.25, bearTrend = 0.25, volatileRange = 0.25, quietRange = 0.25\<rparr>)
      in (probabilities,
          ''Prob(B:'' @ toFixed (bullTrend probabilities) 2 @ '',S:''
             @ toFixed (bearTrend probabilities) 2 @ '')''))"

section \<open>Regime profiles\<close>

record regimeProfile =
  baseWeightMultiplier :: real
  activeSignalTypes :: "string list"
  contextualAggression :: real
  regimeRecentAccuracy :: "nat list"
  totalPredictions :: nat
  correctPredictions :: nat

definition mkProfile :: "real \<Rightarrow> string list \<Rightarrow> real \<Rightarrow> regimeProfile" where
  "mkProfile m types a =
     \<lparr>baseWeightMultiplier = m, activeSignalTypes = types, contextualAggression = a,
      regimeRecentAccuracy = [], totalPredictions = 0, correctPredictions = 0\<rparr>"

text \<open>The initial catalog \<^verbatim>\<open>REGIME_SIGNAL_PROFILES\<close>.\<close>

definition REGIME_SIGNAL_PROFILES_init :: "string \<rightharpoonup> regimeProfile" where
  "REGIME_SIGNAL_PROFILES_init = map_of
     [(''TREND_STRONG_LOW_VOL'', mkProfile 1.30 [''trend'', ''momentum'', ''ichimoku'', ''volBreak'', ''leadLag'', ''stateSpace'', ''fusion'', ''ml''] 1.35),
      (''TREND_STRONG_MED_VOL'', mkProfile 1.20 [''trend'', ''momentum'', ''ichimoku'', ''pattern'', ''leadLag'', ''stateSpace'', ''fusion'', ''ml''] 1.25),
      (''TREND_STRONG_HIGH_VOL'', mkProfile 0.70 [''trend'', ''ichimoku'', ''entropy'', ''volPersist'', ''zScore'', ''fusion''] 0.70),
      (''TREND_MOD_LOW_VOL'', mkProfile 1.25 [''trend'', ''momentum'', ''ichimoku'', ''pattern'', ''volBreak'', ''leadLag'', ''stateSpace'', ''ml''] 1.25),
      (''TREND_MOD_MED_VOL'', mkProfile 1.15 [''trend'', ''momentum'', ''ichimoku'', ''pattern'', ''rsi'', ''leadLag'', ''bayesian'', ''fusion'', ''ml''] 1.15),
      (''TREND_MOD_HIGH_VOL'', mkProfile 0.75 [''trend'', ''ichimoku'', ''meanRev'', ''stochastic'', ''volPersist'', ''zScore''] 0.75),
      (''RANGE_LOW_VOL'', mkProfile 1.30 [''meanRev'', ''pattern'', ''volBreak'', ''stochastic'', ''harmonic'', ''fractalDim'', ''zScore'', ''bayesian'', ''fusion''] 1.30),
      (''RANGE_MED_VOL'', mkProfile 1.15 [''meanRev'', ''pattern'', ''stochastic'', ''rsi'', ''bollinger'', ''harmonic'', ''zScore''] 1.15),
      (''RANGE_HIGH_VOL'', mkProfile 0.65 [''meanRev'', ''entropy'', ''bollinger'', ''vwapDev'', ''volPersist'', ''zScore'', ''fusion''] 0.65),
      (''WEAK_HIGH_VOL'', mkProfile 0.70 [''meanRev'', ''entropy'', ''stochastic'', ''volPersist'', ''fractalDim'', ''zScore''] 0.70),
      (''WEAK_MED_VOL'', mkProfile 0.75 [''momentum'', ''meanRev'', ''pattern'', ''rsi'', ''fractalDim'', ''bayesian''] 0.75),
      (''WEAK_LOW_VOL'', mkProfile 0.85 [''all''] 0.85),
      (''DEFAULT'', mkProfile 0.9 [''all''] 0.9)]"

definition REGIME_ACCURACY_WINDOW :: nat where "REGIME_ACCURACY_WINDOW = 35"
definition REGIME_LEARNING_RATE_BASE :: real where "REGIME_LEARNING_RATE_BASE = 0.028"

text \<open>
  \<^verbatim>\<open>updateRegimeProfilePerformance(regime, actualOutcome, predictedOutcome)\<close>, on the catalog
  and the global long-term accuracy passed in.
\<close>

definition updateRegimeProfilePerformance ::
  "string \<Rightarrow> outcome option \<Rightarrow> outcome option \<Rightarrow> real \<Rightarrow> (string \<rightharpoonup> regimeProfile)
     \<Rightarrow> (string \<rightharpoonup> regimeProfile)" where
  "updateRegimeProfilePerformance regime actualOutcome predictedOutcome globalAcc profiles =
     (case profiles regime of
        None \<Rightarrow> profiles
      | Some profile \<Rightarrow>
          if predictedOutcome = None then profiles
          else
            let outcomeCorrect = (actualOutcome = predictedOutcome);
                ra1 = regimeRecentAccuracy profile @ [if outcomeCorrect then 1 else 0];
                ra2 = (if length ra1 > REGIME_ACCURACY_WINDOW then tl ra1 else ra1);
                p1 = profile\<lparr>
                       totalPredictions := totalPredictions profile + 1,
                       correctPredictions := (if outcomeCorrect then correctPredictions profile + 1
                                              else correctPredictions profile),
                       regimeRecentAccuracy := ra2\<rparr>;
                p2 =
                  (if real (length ra2) \<ge> real REGIME_ACCURACY_WINDOW * 0.7
                   then
                     (let regimeAcc = real (sum_list ra2) / real (length ra2);
                          f0 = 1.0 + \<bar>0.5 - globalAcc\<bar> * 0.7;
                          dynamicLearningRateFactor = max 0.65 (min 1.5 f0);
                          lr0 = REGIME_LEARNING_RATE_BASE * dynamicLearningRateFactor;
                          currentLearningRate = max 0.01 (min 0.07 lr0)
                      in if regimeAcc > 0.62
                         then p1\<lparr>baseWeightMultiplier :=
                                   min 1.9 (baseWeightMultiplier p1 + currentLearningRate),
                                 contextualAggression :=
                                   min 1.8 (contextualAggression p1 + currentLearningRate * 0.5)\<rparr>
                         else if regimeAcc < 0.38
                         then p1\<lparr>baseWeightMultiplier :=
                                   max 0.20 (baseWeightMultiplier p1 - currentLearningRate * 1.3),
                                 contextualAggression :=
                                   max 0.30 (contextualAggression p1 - currentLearningRate * 0.7)\<rparr>
                         else p1)
                   else p1)
            in profiles(regime \<mapsto> p2))"

section \<open>Consensus, confluence and uncertainty\<close>

text \<open>A vote after \<^verbatim>\<open>addSignal\<close>: the analyzer's object with \<^verbatim>\<open>adjustedWeight\<close> added.\<close>

record adjustedVote = signalVote +
  adjustedWeight :: real

definition sumWeights :: "adjustedVote list \<Rightarrow> real" where
  "sumWeights vs = foldl (\<lambda>acc s. acc + adjustedWeight s) 0 vs"

definition includesAny :: "string \<Rightarrow> string list \<Rightarrow> bool" where
  "includesAny s subs = list_ex (includesStr s) subs"

text \<open>
  \<^verbatim>\<open>analyzeBayesianInference(signals, baseWeight)\<close>. One round of its loop over the three
  categories updates the pair of posteriors from the category's two weight sums.
\<close>

definition bayesCategory :: "string \<Rightarrow> string option" where
  "bayesCategory src =
     (if includesAny src [''MACD'', ''Ichimoku''] then Some ''trend''
      else if includesAny src [''Stochastic'', ''RSI''] then Some ''momentum''
      else if includesAny src [''Bollinger'', ''MADev'', ''ZScore''] then Some ''meanRev''
      else None)"

definition categoryWeight :: "(string \<Rightarrow> string option) \<Rightarrow> string \<Rightarrow> outcome \<Rightarrow> adjustedVote list \<Rightarrow> real" where
  "categoryWeight cat c side vs =
     sumWeights (filter (\<lambda>s. cat (source s) = Some c \<and> prediction s = side) vs)"

definition bayesUpdate :: "real \<times> real \<Rightarrow> real \<times> real \<Rightarrow> real \<times> real" where
  "bayesUpdate post cat =
     (let (posteriorBig, posteriorSmall) = post;
          (catBig, catSmall) = cat;
          total = catBig + catSmall
      in if total > 0
         then
           (let evidenceForBig = catBig / total;
                evidenceForSmall = catSmall / total;
                newPosteriorBig = evidenceForBig * posteriorBig;
                newPosteriorSmall = evidenceForSmall * posteriorSmall;
                normalization = newPosteriorBig + newPosteriorSmall
            in if normalization > 0
               then (newPosteriorBig / normalization, newPosteriorSmall / normalization)
               else post)
         else post)"

definition analyzeBayesianInference :: "adjustedVote list \<Rightarrow> real \<Rightarrow> signalVote option" where
  "analyzeBayesianInference signals baseWeight =
     (if length signals < 5 then None
      else
        let cats = map (\<lambda>c. (categoryWeight bayesCategory c BIG signals,
                              categoryWeight bayesCategory c SMALL signals))
                       [''trend'', ''momentum'', ''meanRev''];
            (posteriorBig, posteriorSmall) = foldl bayesUpdate (0.5, 0.5) cats
        in if posteriorBig > posteriorSmall \<and> posteriorBig > 0.65
           then Some \<lparr>source = ''Bayesian'', prediction = BIG,
                      weight = baseWeight * (posteriorBig - 0.5) * 2\<rparr>
           else if posteriorSmall > posteriorBig \<and> posteriorSmall > 0.65
           then Some \<lparr>source = ''Bayesian'', prediction = SMALL,
                      weight = baseWeight * (posteriorSmall - 0.5) * 2\<rparr>
           else None)"

text \<open>\<^verbatim>\<open>analyzePredictionConsensus(signals, trendContext)\<close>: score, factor and details.\<close>

definition getCategory :: "string \<Rightarrow> string option" where
  "getCategory src =
     (if includesAny src [''MACD'', ''Ichimoku'', ''StateSpace'', ''Fusion''] then Some ''trend''
      else if includesAny src [''Stochastic'', ''RSI''] then Some ''momentum''
      else if includesAny src [''Bollinger'', ''MADev'', ''ZScore''] then Some ''meanRev''
      else if includesAny src [''Gram'', ''Cycle'', ''Alt'', ''Harmonic'', ''Pattern''] then Some ''pattern''
      else if includesAny src [''Vol'', ''Fractal'', ''QuantumTunnel''] then Some ''volatility''
      else if includesAny src [''Bayesian'', ''MonteCarlo'', ''Superposition''] then Some ''probabilistic''
      else if includesStr src ''ML-'' then Some ''ml''
      else None)"

definition consensusCategories :: "string list" where
  "consensusCategories =
     [''trend'', ''momentum'', ''meanRev'', ''pattern'', ''volatility'', ''probabilistic'', ''ml'']"

record consensusResult =
  consensusScore :: real
  factor :: real
  consensusDetails :: string

definition analyzePredictionConsensus :: "adjustedVote list \<Rightarrow> trendContext \<Rightarrow> consensusResult" where
  "analyzePredictionConsensus signals tc =
     (if length signals < 4
      then \<lparr>consensusScore = 0.5, factor = 1.0,
            consensusDetails = ''Insufficient signals for consensus''\<rparr>
      else
        let cats = map (\<lambda>c. (categoryWeight getCategory c BIG signals,
                              categoryWeight getCategory c SMALL signals)) consensusCategories;
            voted = filter (\<lambda>(b, s). b + s > 0) cats;
            bigCats = length (filter (\<lambda>(b, s). b > s * 1.2) voted);
            smallCats = length (filter (\<lambda>(b, s). \<not> b > s * 1.2 \<and> s > b * 1.2) voted);
            mixedCats = length (filter (\<lambda>(b, s). \<not> b > s * 1.2 \<and> \<not> s > b * 1.2) voted);
            totalCats = bigCats + smallCats + mixedCats;
            score = (if totalCats > 0
                     then (real (max bigCats smallCats) - real (min bigCats smallCats)) / real totalCats
                     else 0.5);
            factor0 = 1.0 + score * 0.4;
            trendBig = categoryWeight getCategory ''trend'' BIG signals;
            trendSmall = categoryWeight getCategory ''trend'' SMALL signals;
            momBig = categoryWeight getCategory ''momentum'' BIG signals;
            momSmall = categoryWeight getCategory ''momentum'' SMALL signals;
            factor1 = (if strength tc = ''STRONG'' \<and>
                          ((trendBig > trendSmall \<and> momSmall > momBig) \<or>
                           (trendSmall > trendBig \<and> momBig > momSmall))
                       then factor0 * 0.6 else factor0)
        in \<lparr>consensusScore = score,
            factor = max 0.4 (min 1.6 factor1),
            consensusDetails = ''Bcat:'' @ showNat bigCats @ '',Scat:'' @ showNat smallCats
               @ '',Mcat:'' @ showNat mixedCats @ '',Score:'' @ toFixed score 2\<rparr>)"

text \<open>\<^verbatim>\<open>analyzeQuantumSuperpositionState(signals, consensus, baseWeight)\<close>.\<close>

definition analyzeQuantumSuperpositionState ::
  "adjustedVote list \<Rightarrow> consensusResult \<Rightarrow> real \<Rightarrow> signalVote option" where
  "analyzeQuantumSuperpositionState signals consensus baseWeight =
     (if length signals < 5 then None
      else
        let totalWeight = sumWeights signals
        in if totalWeight < 0.1 then None
           else
             let bigWeight = sumWeights (filter (\<lambda>s. prediction s = BIG) signals);
                 smallWeight = sumWeights (filter (\<lambda>s. prediction s = SMALL) signals);
                 bigCollapseProbability = (bigWeight / totalWeight) * factor consensus;
                 smallCollapseProbability = (smallWeight / totalWeight) * (2.0 - factor consensus)
             in if bigCollapseProbability > smallCollapseProbability * 1.3
                then Some \<lparr>source = ''QuantumSuperposition'', prediction = BIG,
                           weight = baseWeight * min 1.0 (bigCollapseProbability - smallCollapseProbability)\<rparr>
                else if smallCollapseProbability > bigCollapseProbability * 1.3
                then Some \<lparr>source = ''QuantumSuperposition'', prediction = SMALL,
                           weight = baseWeight * min 1.0 (smallCollapseProbability - bigCollapseProbability)\<rparr>
                else None)"

text \<open>\<^verbatim>\<open>analyzePathConfluenceStrength(signals, finalPrediction)\<close>: score and diverse paths.\<close>

definition confluenceCategory :: "string \<Rightarrow> string" where
  "confluenceCategory src =
     (if includesAny src [''MACD'', ''Ichimoku''] then ''trend''
      else if includesAny src [''Stochastic'', ''RSI''] then ''momentum''
      else if includesAny src [''Bollinger'', ''ZScore''] then ''meanRev''
      else if includesAny src [''Gram'', ''Cycle'', ''Pattern''] then ''pattern''
      else if includesAny src [''Vol'', ''FractalDim''] then ''volatility''
      else if includesAny src [''Bayesian'', ''Superposition'', ''ML-''] then ''probabilistic''
      else ''other'')"

record confluenceResult =
  confluenceScore :: real
  diversePaths :: nat

definition analyzePathConfluenceStrength :: "adjustedVote list \<Rightarrow> outcome \<Rightarrow> confluenceResult" where
  "analyzePathConfluenceStrength signals finalPrediction =
     (if signals = [] then \<lparr>confluenceScore = 0, diversePaths = 0\<rparr>
      else
        let agreeingSignals =
              filter (\<lambda>s. prediction s = finalPrediction \<and> adjustedWeight s > MIN_ABSOLUTE_WEIGHT * 10)
                signals
        in if length agreeingSignals < 2
           then \<lparr>confluenceScore = 0, diversePaths = length agreeingSignals\<rparr>
           else
             let diversePathCount = length (remdups (map (\<lambda>s. confluenceCategory (source s)) agreeingSignals));
                 score0 = (if diversePathCount \<ge> 4 then 0.20
                           else if diversePathCount = 3 then 0.12
                           else if diversePathCount = 2 then 0.05
                           else 0 :: real);
                 veryStrongAgreeingCount = length (filter (\<lambda>s. adjustedWeight s > 0.10) agreeingSignals);
                 score1 = score0 + min (real veryStrongAgreeingCount * 0.02) 0.10
             in \<lparr>confluenceScore = min score1 0.30, diversePaths = diversePathCount\<rparr>)"

text \<open>\<^verbatim>\<open>analyzeSignalConsistency(signals, trendContext)\<close>: the score.\<close>

definition analyzeSignalConsistency :: "adjustedVote list \<Rightarrow> real" where
  "analyzeSignalConsistency signals =
     (if length signals < 3 then 0.70
      else
        let big = length (filter (\<lambda>s. prediction s = BIG) signals);
            small = length (filter (\<lambda>s. prediction s = SMALL) signals);
            totalPredictions = big + small
        in if totalPredictions = 0 then 0.5
           else real (max big small) / real totalPredictions)"

text \<open>
  \<^verbatim>\<open>calculateUncertaintyScore(...)\<close>: the score and the reasons. The formatted accuracy in
  the last reason uses \<open>toFixed\<close>.
\<close>

definition calculateUncertaintyScore ::
  "trendContext \<Rightarrow> stabilityResult \<Rightarrow> string \<Rightarrow> real \<Rightarrow> confluenceResult \<Rightarrow> real \<Rightarrow> bool \<Rightarrow> driftState
     \<Rightarrow> real \<times> string" where
  "calculateUncertaintyScore tc stability entropyState consistency pathConfluence globalAccuracy
       isReflexiveCorrection driftSt =
     (let parts =
        [(if isReflexiveCorrection then [(80, ''ReflexiveCorrection'')] else []),
         (if driftSt = DRIFT then [(70, ''ConceptDrift'')]
          else if driftSt = WARNING then [(40, ''DriftWarning'')] else []),
         (if \<not> isStable stability
          then [(if includesStr (reason stability) ''Dominance'' \<or> includesStr (reason stability) ''Choppiness''
                 then 50 else 40,
                 ''Instability:'' @ reason stability)]
          else []),
         (if includesStr entropyState ''CHAOS''
          then [(if entropyState = ''RISING_CHAOS'' then 45 else 35, entropyState)] else []),
         (if consistency < 0.6
          then [((1 - consistency) * 50, ''LowConsistency:'' @ toFixed consistency 2)] else []),
         (if diversePaths pathConfluence < 3
          then [((3 - real (diversePaths pathConfluence)) * 15,
                 ''LowConfluence:'' @ showNat (diversePaths pathConfluence))]
          else []),
         (if isTransitioning tc then [(25, ''RegimeTransition'')] else []),
         (if volatility tc = ''HIGH'' then [(20, ''HighVolatility'')] else []),
         (if globalAccuracy < 0.48
          then [((0.48 - globalAccuracy) * 150, ''LowGlobalAcc:'' @ toFixed globalAccuracy 2)] else [])];
          items = concat parts
      in (foldl (\<lambda>acc (v, r). acc + v) 0 items, joinWith '';'' (map snd items)))"

section \<open>The prediction cycle\<close>

text \<open>
  A history record: \<^verbatim>\<open>{ period, actual, actualNumber, status }\<close>, each field possibly missing
  or \<^verbatim>\<open>null\<close>. The period is \<open>periodId\<close> here.
\<close>

record historyRecord =
  periodId :: "string jsfield"
  actual :: "string jsfield"
  actualNumber :: "string jsfield"
  status :: "string jsfield"

text \<open>The filter of \<^verbatim>\<open>confirmedHistory\<close>: \<^verbatim>\<open>p.actual !== null && p.actualNumber !== undefined\<close>.\<close>

definition isConfirmed :: "historyRecord \<Rightarrow> bool" where
  "isConfirmed p = (actual p \<noteq> Null \<and> actualNumber p \<noteq> Undefined)"

text \<open>
  The process-wide learning state: the signal performance table, the drift detector, the
  two reflexive-correction counters, the regime catalog and the global long-term accuracy.
\<close>

record engineState =
  signalPerformanceTable :: signalPerformance
  driftDetectorState :: driftDetector
  reflexCounters :: reflexState
  REGIME_SIGNAL_PROFILES :: "string \<rightharpoonup> regimeProfile"
  GLOBAL_LONG_TERM_ACCURACY_FOR_LEARNING_RATE :: real

definition engineState_init :: engineState where
  "engineState_init =
     \<lparr>signalPerformanceTable = Map.empty, driftDetectorState = driftDetector_init,
      reflexCounters = reflexState_init, REGIME_SIGNAL_PROFILES = REGIME_SIGNAL_PROFILES_init,
      GLOBAL_LONG_TERM_ACCURACY_FOR_LEARNING_RATE = 0.5\<rparr>"

text \<open>
  What a cycle reads from outside the program text: the hour of \<^verbatim>\<open>getCurrentISTHour\<close>,
  \<^verbatim>\<open>Date.now()\<close>, the calls of \<^verbatim>\<open>Math.random()\<close> in the order the orchestration makes them,
  and the conversion of a number to text in a template literal.
\<close>

record cycleEnv =
  istHour :: int
  dateNow :: int
  rndWeather :: real
  rndNews :: real
  rndMarketVol :: real
  rndDecision :: real
  rndJitter :: real
  numberToString :: "real \<Rightarrow> string"

text \<open>
  The results of the analyzers of the section \<^verbatim>\<open>Core Analytical Modules\<close>, which are not
  embedded: one field per \<^verbatim>\<open>addSignal\<close> call of the signal generation, holding the object
  the analyzer returns on the confirmed history (\<open>None\<close> for \<^verbatim>\<open>null\<close>), in the order of the
  calls. The orchestration below is stated for every value of these fields.
\<close>

record analyzerVotes =
  voteTransitions :: "signalVote option"
  voteStreaks :: "signalVote option"
  voteAlternatingPatterns :: "signalVote option"
  voteTwoPlusOnePatterns :: "signalVote option"
  voteDoublePatterns :: "signalVote option"
  voteMirrorPatterns :: "signalVote option"
  voteRSI :: "signalVote option"
  voteMACD :: "signalVote option"
  voteBollingerBands :: "signalVote option"
  voteIchimokuCloud :: "signalVote option"
  voteStochastic :: "signalVote option"
  voteZScoreAnomaly :: "signalVote option"
  voteStateSpaceMomentum :: "signalVote option"
  voteWaveformPatterns :: "signalVote option"
  voteQuantumTunneling :: "signalVote option"
  voteVolatilityTrendFusion :: "signalVote option"
  voteMLModelSignal :: "signalVote option"

text \<open>The signal types of those calls, as written in the source.\<close>

definition addSignalCalls :: "analyzerVotes \<Rightarrow> (string \<times> signalVote option) list" where
  "addSignalCalls v =
     [(''pattern'', voteTransitions v), (''meanRev'', voteStreaks v),
      (''pattern'', voteAlternatingPatterns v), (''pattern'', voteTwoPlusOnePatterns v),
      (''pattern'', voteDoublePatterns v), (''pattern'', voteMirrorPatterns v),
      (''momentum'', voteRSI v), (''trend'', voteMACD v), (''meanRev'', voteBollingerBands v),
      (''trend'', voteIchimokuCloud v), (''momentum'', voteStochastic v),
      (''meanRev'', voteZScoreAnomaly v), (''trend'', voteStateSpaceMomentum v),
      (''pattern'', voteWaveformPatterns v), (''volatility'', voteQuantumTunneling v),
      (''fusion'', voteVolatilityTrendFusion v), (''ml'', voteMLModelSignal v)]"

text \<open>
  The results of the three context functions, which take the history only:
  \<^verbatim>\<open>getMarketRegimeAndTrendContext\<close>, \<^verbatim>\<open>analyzeTrendStability\<close> and the state of
  \<^verbatim>\<open>analyzeMarketEntropyState\<close>; and the analyzers' votes.
\<close>

record cycleAnalysis =
  trendCtx :: trendContext
  stabilityOf :: stabilityResult
  entropyStateOf :: string
  votesOf :: analyzerVotes

text \<open>
  The object returned by \<^verbatim>\<open>ultraAIPredict\<close>. The fields \<^verbatim>\<open>lastPredictedOutcome\<close>,
  \<^verbatim>\<open>lastFinalConfidence\<close>, \<^verbatim>\<open>lastConfidenceLevel\<close>, \<^verbatim>\<open>lastMacroRegime\<close> and
  \<^verbatim>\<open>lastMarketEntropyState\<close> repeat \<open>finalDecision\<close>, \<open>finalConfidence\<close>,
  \<open>confidenceLevel\<close>, \<open>currentMacroRegime\<close> and \<open>resultEntropyState\<close>;
  \<^verbatim>\<open>lastPredictionSignals\<close>, \<^verbatim>\<open>lastConcentrationModeEngaged\<close> and \<^verbatim>\<open>lastVolatilityRegime\<close>
  are the three \<open>next\<close> fields.
\<close>

record displayPrediction =
  displayConfidence :: real
  logic :: string

record predictionResult =
  predictionsBIG :: displayPrediction
  predictionsSMALL :: displayPrediction
  finalDecision :: outcome
  finalConfidence :: real
  confidenceLevel :: nat
  isForcedPrediction :: bool
  overallLogic :: string
  resultSource :: string
  contributingSignals :: "(string \<times> outcome \<times> string) list"
  currentMacroRegime :: string
  resultEntropyState :: string
  predictionQualityScore :: real
  reflexiveCorrectionFlag :: bool
  nextPredictionSignals :: "signalVote list"
  nextConcentrationModeEngaged :: bool
  nextVolatilityRegime :: string

text \<open>What the source can raise or compute that is not a result.\<close>

datatype cycleError = NotANumber | TypeError

text \<open>The object of the two early returns, \<open>src\<close> being its \<^verbatim>\<open>source\<close>.\<close>

definition forcedResult ::
  "string \<Rightarrow> real \<Rightarrow> string list \<Rightarrow> trendContext \<Rightarrow> string \<Rightarrow> bool \<Rightarrow> bool \<Rightarrow> predictionResult" where
  "forcedResult src rnd masterLogic tc entropyState concentration isReflexiveCorrection =
     \<lparr>predictionsBIG = \<lparr>displayConfidence = 0.5, logic = ''ForcedRandom''\<rparr>,
      predictionsSMALL = \<lparr>displayConfidence = 0.5, logic = ''ForcedRandom''\<rparr>,
      finalDecision = (if rnd > 0.5 then BIG else SMALL),
      finalConfidence = 0.5, confidenceLevel = 1, isForcedPrediction = True,
      overallLogic = joinWith '' -> '' masterLogic, resultSource = src,
      contributingSignals = [], currentMacroRegime = macroRegime tc,
      resultEntropyState = entropyState, predictionQualityScore = 0.01,
      reflexiveCorrectionFlag = isReflexiveCorrection,
      nextPredictionSignals = [], nextConcentrationModeEngaged = concentration,
      nextVolatilityRegime = volatility tc\<rparr>"

text \<open>
  The closure \<^verbatim>\<open>addSignal\<close> applied to the result of one analyzer: the signals collected so
  far and the performance table, as the call leaves them.
\<close>

definition addSignal ::
  "regimeProfile \<Rightarrow> real \<Rightarrow> int \<Rightarrow> string \<Rightarrow> historyRecord list
     \<Rightarrow> adjustedVote list \<times> signalPerformance \<Rightarrow> string \<times> signalVote option
     \<Rightarrow> adjustedVote list \<times> signalPerformance" where
  "addSignal currentRegimeProfile regimeAggression currentPeriodFull currentVolatilityRegime
       currentSharedHistory acc call =
     (let (signals, sp) = acc; (signalType, result) = call
      in if \<not> (''all'' \<in> set (activeSignalTypes currentRegimeProfile)
                \<or> signalType \<in> set (activeSignalTypes currentRegimeProfile))
         then acc
         else
           (case result of
              None \<Rightarrow> acc
            | Some r \<Rightarrow>
                if weight r = 0 then acc
                else
                  let (aw, sp1) = getDynamicWeightAdjustment (source r) (weight r * regimeAggression)
                                    currentPeriodFull currentVolatilityRegime currentSharedHistory sp
                  in (signals @ [signalVote.extend r \<lparr>adjustedWeight = aw\<rparr>], sp1)))"

text \<open>
  The part of the cycle before the history floor: session and external data, the global
  long-term accuracy, the reflexive-correction check, the advanced regime, concentration
  mode, the drift detector and the two performance updates. It returns what the rest of the
  cycle reads, with the trail collected so far and the state as left.
\<close>

record cyclePrelude =
  currentPeriodFullOf :: int
  primeTimeSessionOf :: "primeSession option"
  realTimeFactor :: real
  longTermGlobalAccuracyOf :: real
  isReflexiveCorrectionOf :: bool
  advancedRegimeOf :: regimeProbabilities
  concentrationOf :: bool
  driftStateOf :: driftState
  masterLogicOf :: "string list"
  stateOf :: engineState

text \<open>\<^verbatim>\<open>currentSharedStats?.periodFull || Date.now()\<close>.\<close>

definition currentPeriodOf :: "cycleEnv \<Rightarrow> sharedStats option \<Rightarrow> int" where
  "currentPeriodOf env currentSharedStats =
     (case currentSharedStats of
        None \<Rightarrow> dateNow env
      | Some s \<Rightarrow> (case periodFull s of
                     None \<Rightarrow> dateNow env
                   | Some p \<Rightarrow> if p = 0 then dateNow env else p))"

text \<open>
  The long-term global accuracy of the cycle and the global variable as the first lines
  leave it.
\<close>

definition globalAccuracyOf :: "sharedStats option \<Rightarrow> engineState \<Rightarrow> real \<times> real" where
  "globalAccuracyOf currentSharedStats st =
     (case currentSharedStats of
        None \<Rightarrow> (GLOBAL_LONG_TERM_ACCURACY_FOR_LEARNING_RATE st,
                  GLOBAL_LONG_TERM_ACCURACY_FOR_LEARNING_RATE st)
      | Some s \<Rightarrow> (case longTermGlobalAccuracy s of
                     None \<Rightarrow> (GLOBAL_LONG_TERM_ACCURACY_FOR_LEARNING_RATE st,
                               GLOBAL_LONG_TERM_ACCURACY_FOR_LEARNING_RATE st)
                   | Some a \<Rightarrow> (a, a)))"

text \<open>
  The block \<^verbatim>\<open>Concept Drift Detection\<close>: one call of the detector per cycle, with the
  correctness bit of the last prediction, when the carried state has a last actual outcome.
\<close>

definition driftStep :: "sharedStats option \<Rightarrow> driftDetector \<Rightarrow> (driftState \<times> driftDetector) option" where
  "driftStep currentSharedStats d =
     (case currentSharedStats of
        None \<Rightarrow> Some (STABLE, d)
      | Some s \<Rightarrow>
          if lastActualOutcome s \<noteq> Undefined
          then detectConceptDrift
                 (getBigSmallFromNumber (fieldValue (lastActualOutcome s)) = lastPredictedOutcome s) d
          else Some (STABLE, d))"

fun driftStateName :: "driftState \<Rightarrow> string" where
  "driftStateName STABLE = ''STABLE''"
| "driftStateName WARNING = ''WARNING''"
| "driftStateName DRIFT = ''DRIFT''"

text \<open>The block \<^verbatim>\<open>Performance Update\<close>: the table and the catalog as it leaves them.\<close>

definition performanceUpdate ::
  "trendContext \<Rightarrow> sharedStats option \<Rightarrow> real \<Rightarrow> engineState
     \<Rightarrow> signalPerformance \<times> (string \<rightharpoonup> regimeProfile)" where
  "performanceUpdate tc currentSharedStats globalAcc st =
     (case currentSharedStats of
        None \<Rightarrow> (signalPerformanceTable st, REGIME_SIGNAL_PROFILES st)
      | Some s \<Rightarrow>
          if truthyStr (lastActualOutcome s)
          then
            (let ao = getBigSmallFromNumber (fieldValue (lastActualOutcome s))
             in (updateSignalPerformance (lastPredictionSignals s) ao (lastPeriodFull s)
                   (if lastVolatilityRegime s = [] then volatility tc else lastVolatilityRegime s)
                   (lastFinalConfidence s) (lastConcentrationModeEngaged s)
                   (if lastMarketEntropyState s = [] then ''STABLE_MODERATE''
                    else lastMarketEntropyState s)
                   (signalPerformanceTable st),
                 if lastPredictedOutcome s \<noteq> None
                 then updateRegimeProfilePerformance (lastMacroRegime s) ao
                        (lastPredictedOutcome s) globalAcc (REGIME_SIGNAL_PROFILES st)
                 else REGIME_SIGNAL_PROFILES st))
          else (signalPerformanceTable st, REGIME_SIGNAL_PROFILES st))"

text \<open>The trail up to the drift detector, and from it to the history floor.\<close>

definition trailHead ::
  "cycleEnv \<Rightarrow> cycleAnalysis \<Rightarrow> bool \<Rightarrow> nat \<Rightarrow> string list" where
  "trailHead env an isReflexiveCorrection countdown =
     (let tc = trendCtx an
      in [''QAScore_v42.0(IST_Hr:'' @ showInt (istHour env) @ '')'',
          snd (getRealTimeExternalData (rndWeather env) (rndNews env) (rndMarketVol env))]
         @ (case getPrimeTimeSession (istHour env) of
              None \<Rightarrow> []
            | Some ps \<Rightarrow> [''!!! PRIME TIME ACTIVE: '' @ session ps @ '' !!!''])
         @ (if isReflexiveCorrection
            then [''!!! REFLEXIVE CORRECTION ACTIVE !!! (Countdown: '' @ showNat countdown @ '')'']
            else [])
         @ [''TrendCtx(Dir:'' @ direction tc @ '',Str:'' @ strength tc @ '',Vol:''
              @ volatility tc @ '',Regime:'' @ macroRegime tc @ '')'',
            ''MarketEntropy:'' @ entropyStateOf an,
            ''AdvRegime:'' @ snd (analyzeAdvancedMarketRegime tc (entropyStateOf an))])"

definition trailDrift :: "driftState \<Rightarrow> bool \<Rightarrow> string list" where
  "trailDrift driftSt concentration =
     (if driftSt \<noteq> STABLE then [''!!! DRIFT DETECTED: '' @ driftStateName driftSt @ '' !!!''] else [])
     @ (if concentration then [''ConcentrationModeActive''] else [])"

definition cycleStart ::
  "cycleEnv \<Rightarrow> cycleAnalysis \<Rightarrow> sharedStats option \<Rightarrow> engineState \<Rightarrow> cycleError + cyclePrelude" where
  "cycleStart env an currentSharedStats st =
     (let tc = trendCtx an;
          global = globalAccuracyOf currentSharedStats st;
          reflex = checkForAnomalousPerformance currentSharedStats (reflexCounters st);
          isReflexiveCorrection = fst reflex;
          concentration0 = (\<not> isStable (stabilityOf an) \<or> isReflexiveCorrection
                            \<or> includesStr (entropyStateOf an) ''CHAOS'')
      in case driftStep currentSharedStats (driftDetectorState st) of
           None \<Rightarrow> Inl NotANumber
         | Some (driftSt, detector1) \<Rightarrow>
             let concentration = (concentration0 \<or> driftSt \<noteq> STABLE);
                 perf = performanceUpdate tc currentSharedStats (snd global) st
             in Inr \<lparr>currentPeriodFullOf = currentPeriodOf env currentSharedStats,
                      primeTimeSessionOf = getPrimeTimeSession (istHour env),
                      realTimeFactor =
                        fst (getRealTimeExternalData (rndWeather env) (rndNews env) (rndMarketVol env)),
                      longTermGlobalAccuracyOf = fst global,
                      isReflexiveCorrectionOf = isReflexiveCorrection,
                      advancedRegimeOf = fst (analyzeAdvancedMarketRegime tc (entropyStateOf an)),
                      concentrationOf = concentration,
                      driftStateOf = driftSt,
                      masterLogicOf =
                        trailHead env an isReflexiveCorrection (reflexiveCorrectionActive (snd reflex))
                          @ trailDrift driftSt concentration,
                      stateOf = \<lparr>signalPerformanceTable = fst perf, driftDetectorState = detector1,
                                 reflexCounters = snd reflex, REGIME_SIGNAL_PROFILES = snd perf,
                                 GLOBAL_LONG_TERM_ACCURACY_FOR_LEARNING_RATE = snd global\<rparr>\<rparr>)"

text \<open>
  The signal generation: the seventeen analyzer calls, the Bayesian call on the signals
  collected by them, the consensus, and the superposition vote.
\<close>

definition generateSignals ::
  "cycleAnalysis \<Rightarrow> regimeProfile \<Rightarrow> real \<Rightarrow> int \<Rightarrow> historyRecord list \<Rightarrow> signalPerformance
     \<Rightarrow> adjustedVote list \<times> consensusResult \<times> signalPerformance" where
  "generateSignals an currentRegimeProfile regimeAggression currentPeriodFull currentSharedHistory sp =
     (let vol = volatility (trendCtx an);
          add = addSignal currentRegimeProfile regimeAggression currentPeriodFull vol currentSharedHistory;
          acc1 = foldl add ([], sp) (addSignalCalls (votesOf an));
          acc2 = add acc1 (''probabilistic'', analyzeBayesianInference (fst acc1) 0.15);
          (signals2, sp2) = acc2;
          consensus = analyzePredictionConsensus signals2 (trendCtx an)
      in case analyzeQuantumSuperpositionState signals2 consensus 0.22 of
           None \<Rightarrow> (signals2, consensus, sp2)
         | Some r \<Rightarrow>
             let (aw, sp3) = getDynamicWeightAdjustment (source r) (weight r) currentPeriodFull vol
                               currentSharedHistory sp2
             in (signals2 @ [signalVote.extend r \<lparr>adjustedWeight = aw\<rparr>], consensus, sp3))"

text \<open>The value of the text \<^verbatim>\<open>x.toFixed(f)\<close> read back as a number, as the sort comparator does.\<close>

definition toFixedValue :: "real \<Rightarrow> nat \<Rightarrow> real" where
  "toFixedValue x f = sgn x * real_of_int \<lfloor>\<bar>x\<bar> * 10 ^ f + 1 / 2\<rfloor> / 10 ^ f"

text \<open>
  The scoring of the valid signals, from \<^verbatim>\<open>let bigScore = 0; let smallScore = 0;\<close> to the
  returned object.
\<close>

definition scoreCycle ::
  "cycleEnv \<Rightarrow> cycleAnalysis \<Rightarrow> cyclePrelude \<Rightarrow> consensusResult \<Rightarrow> adjustedVote list \<Rightarrow> string list
     \<Rightarrow> predictionResult" where
  "scoreCycle env an pre consensus validSignals masterLogic =
     (let tc = trendCtx an;
          bigScore0 = sumWeights (filter (\<lambda>s. prediction s = BIG) validSignals);
          smallScore0 = sumWeights (filter (\<lambda>s. prediction s = SMALL) validSignals);
          probs = advancedRegimeOf pre;
          bigScore = bigScore0 * (1 + bullTrend probs - bearTrend probs) * factor consensus;
          smallScore = smallScore0 * (1 + bearTrend probs - bullTrend probs) * (2.0 - factor consensus);
          totalScore = bigScore + smallScore;
          decision = (if totalScore > 0 then (if bigScore \<ge> smallScore then BIG else SMALL)
                      else (if rndDecision env > 0.5 then BIG else SMALL));
          conf0 = (if totalScore > 0 then max bigScore smallScore / totalScore else 0.5);
          primeTimeConfidence = (case primeTimeSessionOf pre of None \<Rightarrow> 1.0 | Some ps \<Rightarrow> confidence ps);
          conf1 = 0.5 + (conf0 - 0.5) * primeTimeConfidence * realTimeFactor pre;
          signalConsistency = analyzeSignalConsistency validSignals;
          pathConfluence = analyzePathConfluenceStrength validSignals decision;
          (uncertaintyScore, uncertaintyReasons) =
            calculateUncertaintyScore tc (stabilityOf an) (entropyStateOf an) signalConsistency
              pathConfluence (longTermGlobalAccuracyOf pre) (isReflexiveCorrectionOf pre)
              (driftStateOf pre);
          uncertaintyFactor = 1.0 - min 1.0 (uncertaintyScore / 120.0);
          conf2 = 0.5 + (conf1 - 0.5) * uncertaintyFactor;
          log1 = masterLogic @ [''Uncertainty(Score:'' @ toFixed uncertaintyScore 0 @ '',Factor:''
                                  @ toFixed uncertaintyFactor 2 @ '')''];
          pqs0 = 0.5 + (signalConsistency - 0.5) * 0.4 + confluenceScore pathConfluence * 1.2;
          pqs = max 0.01 (min 0.99 (pqs0 - uncertaintyScore / 500));
          log2 = log1 @ [''PQS:'' @ toFixed pqs 3];
          prime = (primeTimeSessionOf pre \<noteq> None);
          highConfThreshold = (if prime then 0.72 else 0.78 :: real);
          medConfThreshold = (if prime then 0.60 else 0.65 :: real);
          highPqsThreshold = (if prime then 0.70 else 0.75 :: real);
          medPqsThreshold = (if prime then 0.55 else 0.60 :: real);
          level0 = (if conf2 > highConfThreshold \<and> pqs > highPqsThreshold then 3
                    else if conf2 > medConfThreshold \<and> pqs > medPqsThreshold then 2
                    else 1 :: nat);
          uncertaintyThreshold =
            (if isReflexiveCorrectionOf pre \<or> driftStateOf pre = DRIFT then 65 else 95 :: real);
          isForced = (uncertaintyScore \<ge> uncertaintyThreshold \<or> pqs < 0.20);
          level = (if isForced then 1 else level0);
          conf = (if isForced then 0.5 + (rndJitter env - 0.5) * 0.02 else conf2);
          log3 = log2 @ (if isForced
                         then [''FORCED_PREDICTION(Uncertainty:'' @ numberToString env uncertaintyScore
                                 @ ''/'' @ numberToString env uncertaintyThreshold @ '',PQS:''
                                 @ numberToString env pqs @ '')'']
                         else []);
          bigDisplayConfidence = (if decision = BIG then conf else 1 - conf);
          smallDisplayConfidence = (if decision = SMALL then conf else 1 - conf)
      in \<lparr>predictionsBIG = \<lparr>displayConfidence = max 0.001 (min 0.999 bigDisplayConfidence),
                              logic = ''EnsembleV42''\<rparr>,
          predictionsSMALL = \<lparr>displayConfidence = max 0.001 (min 0.999 smallDisplayConfidence),
                                logic = ''EnsembleV42''\<rparr>,
          finalDecision = decision,
          finalConfidence = conf,
          confidenceLevel = level,
          isForcedPrediction = isForced,
          overallLogic = joinWith '' -> '' log3,
          resultSource = ''RealTimeFusionV42'',
          contributingSignals =
            take 15 (map (\<lambda>s. (source s, prediction s, toFixed (adjustedWeight s) 5))
                       (sort_key (\<lambda>s. - toFixedValue (adjustedWeight s) 5) validSignals)),
          currentMacroRegime = macroRegime tc,
          resultEntropyState = entropyStateOf an,
          predictionQualityScore = pqs,
          reflexiveCorrectionFlag = isReflexiveCorrectionOf pre,
          nextPredictionSignals =
            map (\<lambda>s. \<lparr>source = source s, prediction = prediction s, weight = adjustedWeight s\<rparr>)
              validSignals,
          nextConcentrationModeEngaged = concentrationOf pre,
          nextVolatilityRegime = volatility tc\<rparr>)"

text \<open>
  \<^verbatim>\<open>ultraAIPredict(currentSharedHistory, currentSharedStats)\<close>, on the learning state passed
  in and returned. \<open>Inl\<close> is a cycle that does not return an object: a number that is not
  one in the drift detector, or a regime catalog without its \<^verbatim>\<open>DEFAULT\<close> entry.
\<close>

definition ultraAIPredict ::
  "cycleEnv \<Rightarrow> cycleAnalysis \<Rightarrow> historyRecord list \<Rightarrow> sharedStats option \<Rightarrow> engineState
     \<Rightarrow> cycleError + predictionResult \<times> engineState" where
  "ultraAIPredict env an currentSharedHistory currentSharedStats st =
     (case cycleStart env an currentSharedStats st of
        Inl e \<Rightarrow> Inl e
      | Inr pre \<Rightarrow>
          let tc = trendCtx an;
              confirmedHistory = filter isConfirmed currentSharedHistory
          in if length confirmedHistory < 52
             then Inr (forcedResult ''InsufficientHistory'' (rndDecision env)
                         (masterLogicOf pre @ [''InsufficientHistory_ForceRandom''])
                         tc (entropyStateOf an) (concentrationOf pre) (isReflexiveCorrectionOf pre),
                       stateOf pre)
             else
               (case (case REGIME_SIGNAL_PROFILES (stateOf pre) (macroRegime tc) of
                        Some p \<Rightarrow> Some p
                      | None \<Rightarrow> REGIME_SIGNAL_PROFILES (stateOf pre) ''DEFAULT'') of
                  None \<Rightarrow> Inl TypeError
                | Some currentRegimeProfile \<Rightarrow>
                    let primeTimeAggression =
                          (case primeTimeSessionOf pre of None \<Rightarrow> 1.0 | Some ps \<Rightarrow> aggression ps);
                        regimeAggression =
                          regimeContextualAggression (contextualAggression currentRegimeProfile)
                            primeTimeAggression (isReflexiveCorrectionOf pre) (driftStateOf pre)
                            (concentrationOf pre);
                        (signals, consensus, sp1) =
                          generateSignals an currentRegimeProfile regimeAggression
                            (currentPeriodFullOf pre) currentSharedHistory
                            (signalPerformanceTable (stateOf pre));
                        st1 = (stateOf pre)\<lparr>signalPerformanceTable := sp1\<rparr>;
                        log1 = masterLogicOf pre
                                 @ [''Consensus:'' @ consensusDetails consensus @ '',Factor:''
                                      @ toFixed (factor consensus) 2];
                        validSignals = filter (\<lambda>s. adjustedWeight s > MIN_ABSOLUTE_WEIGHT) signals;
                        log2 = log1 @ [''ValidSignals('' @ showNat (length validSignals) @ ''/''
                                         @ showNat (length signals) @ '')'']
                    in if validSignals = []
                       then Inr (forcedResult ''NoValidSignals'' (rndDecision env)
                                   (log2 @ [''NoValidSignals_ForceRandom''])
                                   tc (entropyStateOf an) (concentrationOf pre)
                                   (isReflexiveCorrectionOf pre),
                                 st1)
                       else Inr (scoreCycle env an pre consensus validSignals log2, st1)))"

section \<open>Properties of the entropy window\<close>

lemma countOutcome_none:
  "\<forall>x \<in> set os. x = None \<Longrightarrow> countOutcome k os = 0"
  by (induction os) (auto simp: countOutcome_def)

text \<open>
  C7, as stated: on a window that cannot be evaluated the function returns 1.0. It fails
  on the first of the two cases, a list shorter than the window: one label against a
  window of two gives \<^verbatim>\<open>null\<close>.
\<close>

theorem C7_short_window_counterexample:
  "calculateEntropyForSignal [Some BIG] 2 \<noteq> Some 1"
  by (simp add: calculateEntropyForSignal_def)

text \<open>
  C7, amended: a list shorter than the window gives \<^verbatim>\<open>null\<close> (absence); a list that
  covers the window whose window holds no BIG and no SMALL label gives 1.0.
\<close>

theorem C7_entropy_degenerate:
  "(int (length outcomes) < windowSize \<longrightarrow>
      calculateEntropyForSignal outcomes windowSize = None) \<and>
   (windowSize \<le> int (length outcomes) \<and>
    (\<forall>x \<in> set (slice0 outcomes windowSize). x = None) \<longrightarrow>
      calculateEntropyForSignal outcomes windowSize = Some 1)"
  by (simp add: calculateEntropyForSignal_def countOutcome_none Let_def)

theorem C7_entropy_degenerate_witness:
  "calculateEntropyForSignal [Some SMALL] 3 = None \<and>
   calculateEntropyForSignal [None, None, Some BIG] 2 = Some 1"
proof -
  have a: "int (length [Some SMALL]) < 3" by simp
  have b: "2 \<le> int (length [None, None, Some BIG]) \<and>
           (\<forall>x \<in> set (slice0 [None, None, Some BIG] 2). x = None)"
    by (simp add: slice0_def)
  from a C7_entropy_degenerate [of "[Some SMALL]" 3]
  have "calculateEntropyForSignal [Some SMALL] 3 = None" by blast
  moreover from b C7_entropy_degenerate [of "[None, None, Some BIG]" 2]
  have "calculateEntropyForSignal [None, None, Some BIG] 2 = Some 1" by blast
  ultimately show ?thesis by simp
qed

section \<open>Properties of the drift detector\<close>

lemma dd_inv_init: "dd_inv driftDetector_init"
  by (simp add: dd_inv_def driftDetector_init_def)

lemma ddm_p_range:
  assumes "dd_inv d"
  shows "0 \<le> ddm_p b d \<and> ddm_p b d \<le> 1"
proof -
  obtain q where q: "q = (case p_i d of Some q \<Rightarrow> q | None \<Rightarrow> 0)" by simp
  have qr: "0 \<le> q \<and> q \<le> 1" using assms q by (auto simp: dd_inv_def split: option.splits)
  define k where "k = real (n_samples d + 1)"
  have k: "1 \<le> k" by (simp add: k_def)
  have e: "ddm_p b d = q * (1 - 1 / k) + (if b then 0 else 1) / k"
    by (simp add: ddm_p_def q k_def diff_divide_distrib right_diff_distrib Let_def)
  have a: "0 \<le> 1 - 1 / k" "1 - 1/k \<le> 1" "0 \<le> 1 / k" using k by (auto simp: field_simps)
  have u: "0 \<le> q * (1 - 1 / k)" using qr a by simp
  have v: "q * (1 - 1 / k) \<le> 1 - 1 / k" using qr a by (simp add: mult_left_le_one_le)
  show ?thesis
  proof (cases b)
    case True
    then have "ddm_p b d = q * (1 - 1 / k)" using e by simp
    then show ?thesis using u v a by linarith
  next
    case False
    then have "ddm_p b d = q * (1 - 1 / k) + 1 / k" using e by simp
    then show ?thesis using u v a by linarith
  qed
qed

lemma ddm_s_nonneg: "dd_inv d \<Longrightarrow> 0 \<le> ddm_s b d"
  using ddm_p_range[of d b] by (simp add: ddm_s_def)

lemma xless_mono3:
  assumes "case sm of Fin s \<Rightarrow> 0 \<le> s | Infinity \<Rightarrow> True" "1 \<le> k"
    and "xless v (xadd pm sm)"
  shows "\<not> xless (xadd pm (xscale k sm)) v"
proof (cases pm; cases sm; cases v)
  fix a b c assume h: "pm = Fin a" "sm = Fin b" "v = Fin c"
  then have "0 \<le> b" "c < a + b" using assms by auto
  moreover have "b \<le> k * b" using \<open>0 \<le> b\<close> assms(2) by (simp add: mult_le_cancel_right1)
  ultimately show ?thesis using h by simp
qed (use assms in auto)

lemma detect_unfold:
  assumes "dd_inv d"
  shows "detectConceptDrift b d =
     (let p = ddm_p b d; s = ddm_s b d;
          d1 = d\<lparr>n_samples := n_samples d + 1, p_i := Some p\<rparr>;
          d2 = (if xless (Fin (p + s)) (xadd (p_min d) (s_min d))
                then d1\<lparr>p_min := Fin p, s_min := Fin s\<rparr> else d1)
      in if xless (xadd (p_min d2) (xscale 3 (s_min d2))) (Fin (p + s))
         then Some (DRIFT, d2\<lparr>p_min := Infinity, s_min := Infinity, n_samples := 1\<rparr>)
         else if xless (xadd (p_min d2) (xscale 2 (s_min d2))) (Fin (p + s))
         then Some (WARNING, d2)
         else Some (STABLE, d2))"
proof -
  have r: "0 \<le> ddm_p b d \<and> ddm_p b d \<le> 1" using assms by (rule ddm_p_range)
  then have nn: "\<not> ddm_p b d * (1 - ddm_p b d) / real (n_samples d + 1) < 0"
    by (simp add: not_less)
  show ?thesis
  proof (cases "p_i d")
    case None
    then have z: "n_samples d = 0" using assms by (simp add: dd_inv_def)
    have pe: "ddm_p b d = (if b then 0 else 1)" using None z by (simp add: ddm_p_def)
    show ?thesis using None z pe
      by (simp add: detectConceptDrift_def ddm_s_def Let_def warning_level_def drift_level_def)
  next
    case (Some q)
    have pe: "ddm_p b d = q + ((if b then 0 else 1) - q) / real (n_samples d + 1)"
      using Some by (simp add: ddm_p_def)
    show ?thesis
    proof (cases "n_samples d = 0")
      case True
      then show ?thesis using Some assms by (simp add: dd_inv_def)
    next
      case False
      then show ?thesis using Some pe nn
        by (simp add: detectConceptDrift_def ddm_s_def Let_def warning_level_def drift_level_def)
    qed
  qed
qed


lemma detect_refines_spec:
  assumes "dd_inv d"
  shows "detectConceptDrift isCorrect d = Some (ddm_transition_spec isCorrect d)"
proof -
  let ?p = "ddm_p isCorrect d" and ?s = "ddm_s isCorrect d"
  have s0: "0 \<le> ?s" using assms by (rule ddm_s_nonneg)
  have sm: "case s_min d of Fin s \<Rightarrow> 0 \<le> s | Infinity \<Rightarrow> True"
    using assms by (simp add: dd_inv_def)
  show ?thesis
  proof (cases "xless (Fin (?p + ?s)) (xadd (p_min d) (s_min d))")
    case True
    have a: "\<not> xless (xadd (p_min d) (xscale 3 (s_min d))) (Fin (?p + ?s))"
      using xless_mono3[OF sm _ True, of 3] by simp
    have b: "\<not> xless (xadd (p_min d) (xscale 2 (s_min d))) (Fin (?p + ?s))"
      using xless_mono3[OF sm _ True, of 2] by simp
    show ?thesis using True a b s0
      by (simp add: detect_unfold[OF assms] ddm_transition_spec_def Let_def)
  next
    case False
    then show ?thesis
      by (simp add: detect_unfold[OF assms] ddm_transition_spec_def Let_def)
  qed
qed

lemma dd_inv_step:
  assumes "dd_inv d" "detectConceptDrift b d = Some (st, d')"
  shows "dd_inv d'"
proof -
  have e: "(st, d') = ddm_transition_spec b d" using assms detect_refines_spec by simp
  have r: "0 \<le> ddm_p b d \<and> ddm_p b d \<le> 1" using assms(1) by (rule ddm_p_range)
  have s0: "0 \<le> ddm_s b d" using assms(1) by (rule ddm_s_nonneg)
  show ?thesis using e r s0 assms(1)
    by (auto simp: ddm_transition_spec_def Let_def dd_inv_def split: if_splits)
qed


lemma runDrift_total:
  "dd_inv d \<Longrightarrow> \<exists>sts d'. runDrift bs d = Some (sts, d') \<and> length sts = length bs \<and> dd_inv d'"
proof (induction bs arbitrary: d)
  case Nil
  then show ?case by simp
next
  case (Cons b bs)
  obtain st d1 where s: "detectConceptDrift b d = Some (st, d1)"
    using detect_refines_spec[OF Cons.prems] by (cases "ddm_transition_spec b d") simp
  then have "dd_inv d1" using Cons.prems dd_inv_step by blast
  from Cons.IH[OF this] obtain sts d2 where
    "runDrift bs d1 = Some (sts, d2)" "length sts = length bs" "dd_inv d2" by blast
  then show ?case using s by simp
qed

lemma first_hit: "detectConceptDrift True driftDetector_init = Some (STABLE, dd_after_hit)"
  by (simp add: detectConceptDrift_def driftDetector_init_def dd_after_hit_def Let_def
      warning_level_def drift_level_def)

lemma then_miss: "detectConceptDrift False dd_after_hit =
   Some (DRIFT, \<lparr>p_min = Infinity, s_min = Infinity, n_samples = 1, p_i = Some (1/2)\<rparr>)"
  by (simp add: detectConceptDrift_def dd_after_hit_def Let_def
      warning_level_def drift_level_def add_pos_nonneg not_less add_nonneg_nonneg)

text \<open>
  C10: when \<open>detectConceptDrift\<close> declares DRIFT it resets \<open>p_min\<close>, \<open>s_min\<close> and the
  count only; the stored mean \<open>p_i\<close> keeps the value computed over the samples before the
  reset, and the first update after the reset averages the new error bit with that stale
  mean (count 2) instead of restarting from the bit alone.
\<close>

theorem C10_drift_keeps_stale_mean:
  assumes "dd_inv d" and "detectConceptDrift b d = Some (DRIFT, d')"
  shows "p_min d' = Infinity \<and> s_min d' = Infinity \<and> n_samples d' = 1 \<and>
         p_i d' = Some (ddm_p b d) \<and>
         (\<forall>b2. \<exists>st d''. detectConceptDrift b2 d' = Some (st, d'') \<and>
            p_i d'' = Some (ddm_p b d + ((if b2 then 0 else 1) - ddm_p b d) / 2))"
proof -
  define q where "q = ddm_p b d"
  have e: "(DRIFT, d') = ddm_transition_spec b d" using assms detect_refines_spec by simp
  then have d': "d' = \<lparr>p_min = Infinity, s_min = Infinity, n_samples = 1, p_i = Some q\<rparr>"
    by (auto simp: ddm_transition_spec_def Let_def q_def split: if_splits)
  have inv: "dd_inv d'" using assms by (rule dd_inv_step)
  have "\<exists>st d''. detectConceptDrift b2 d' = Some (st, d'') \<and>
            p_i d'' = Some (q + ((if b2 then 0 else 1) - q) / 2)" for b2
  proof -
    have "detectConceptDrift b2 d' = Some (ddm_transition_spec b2 d')" using inv by (rule detect_refines_spec)
    moreover have "p_i (snd (ddm_transition_spec b2 d')) = Some (ddm_p b2 d')"
      by (simp add: ddm_transition_spec_def Let_def)
    moreover have "ddm_p b2 d' = q + ((if b2 then 0 else 1) - q) / 2"
      by (simp add: d' ddm_p_def)
    ultimately show ?thesis by (cases "ddm_transition_spec b2 d'") auto
  qed
  then show ?thesis using d' by (simp add: q_def)
qed

theorem C10_drift_keeps_stale_mean_witness:
  "dd_inv dd_after_hit \<and>
   detectConceptDrift False dd_after_hit =
     Some (DRIFT, \<lparr>p_min = Infinity, s_min = Infinity, n_samples = 1, p_i = Some (1/2)\<rparr>) \<and>
   (\<exists>st d''. detectConceptDrift True
        \<lparr>p_min = Infinity, s_min = Infinity, n_samples = 1, p_i = Some (1/2)\<rparr> = Some (st, d'') \<and>
      p_i d'' = Some (1/4))"
proof -
  have i: "dd_inv dd_after_hit" by (simp add: dd_inv_def dd_after_hit_def)
  have p: "ddm_p False dd_after_hit = 1/2" by (simp add: ddm_p_def dd_after_hit_def)
  from C10_drift_keeps_stale_mean[OF i then_miss] p show ?thesis using i then_miss
    by (auto simp: ddm_p_def dest!: spec[where x=True])
qed

text \<open>
  C5: on every detector reached from the initial one, \<open>detectConceptDrift\<close> returns, and
  its result and new state are those of the specification's transition rule: \<open>p_i\<close> and
  \<open>s_i\<close> are the running error mean and its standard error over the count; if
  \<open>p_i + s_i > p_min + 3 s_min\<close> the result is DRIFT and \<open>(p_min, s_min, n)\<close> becomes
  \<open>(\<infinity>, \<infinity>, 1)\<close>; else if \<open>p_i + s_i > p_min + 2 s_min\<close> it is WARNING; else STABLE, with
  \<open>(p_min, s_min)\<close> replaced by \<open>(p_i, s_i)\<close> exactly when \<open>p_i + s_i\<close> is below the stored
  minimum.
\<close>

theorem C5_drift_transition:
  assumes "dd_inv d"
  shows "detectConceptDrift isCorrect d = Some (ddm_transition_spec isCorrect d)"
  using assms by (rule detect_refines_spec)

theorem C5_drift_transition_witness:
  "dd_inv dd_after_hit \<and> detectConceptDrift False dd_after_hit =
     Some (DRIFT, \<lparr>p_min = Infinity, s_min = Infinity, n_samples = 1, p_i = Some (1/2)\<rparr>)"
proof -
  have i: "dd_inv dd_after_hit" by (simp add: dd_inv_def dd_after_hit_def)
  have "ddm_transition_spec False dd_after_hit =
     (DRIFT, \<lparr>p_min = Infinity, s_min = Infinity, n_samples = 1, p_i = Some (1/2)\<rparr>)"
    by (simp add: ddm_transition_spec_def ddm_p_def ddm_s_def dd_after_hit_def Let_def
        add_pos_nonneg)
  then show ?thesis using C5_drift_transition[OF i, of False] i by simp
qed

section \<open>Properties of the reflexive correction\<close>

lemma reflex_inv_init: "reflex_inv reflexState_init"
  by (simp add: reflex_inv_def reflexState_init_def)

lemma reflex_inv_step: "reflex_inv r \<Longrightarrow> reflex_inv (snd (checkForAnomalousPerformance st r))"
  by (auto simp: reflex_inv_def checkForAnomalousPerformance_def Let_def split: option.splits)

lemma reflex_countdown:
  "reflexiveCorrectionActive r > 0 \<Longrightarrow>
   checkForAnomalousPerformance st r =
     (True, r\<lparr>reflexiveCorrectionActive := reflexiveCorrectionActive r - 1\<rparr>)"
  by (simp add: checkForAnomalousPerformance_def)

lemma reflex_miss:
  "reflexiveCorrectionActive r = 0 \<Longrightarrow> highConfMiss st \<Longrightarrow>
   checkForAnomalousPerformance (Some st) r =
     (if consecutiveHighConfLosses r + 1 \<ge> 2
      then (True, r\<lparr>consecutiveHighConfLosses := 0, reflexiveCorrectionActive := 5\<rparr>)
      else (False, r\<lparr>consecutiveHighConfLosses := consecutiveHighConfLosses r + 1\<rparr>))"
  by (auto simp: checkForAnomalousPerformance_def highConfMiss_def scoredPrediction_def Let_def)

lemma reflex_reset:
  "reflexiveCorrectionActive r = 0 \<Longrightarrow> scoredPrediction st \<Longrightarrow> \<not> highConfMiss st \<Longrightarrow>
   checkForAnomalousPerformance (Some st) r = (False, r\<lparr>consecutiveHighConfLosses := 0\<rparr>)"
  by (auto simp: checkForAnomalousPerformance_def highConfMiss_def scoredPrediction_def Let_def)

lemma reflex_scored:
  assumes "reflex_inv r" "scoredPrediction st" "\<not> highConfMiss st"
  shows "fst (checkForAnomalousPerformance (Some st) r) = (0 < reflexiveCorrectionActive r)"
    and "consecutiveHighConfLosses (snd (checkForAnomalousPerformance (Some st) r)) = 0"
    and "reflexiveCorrectionActive (snd (checkForAnomalousPerformance (Some st) r)) =
           reflexiveCorrectionActive r - 1"
proof -
  show "fst (checkForAnomalousPerformance (Some st) r) = (0 < reflexiveCorrectionActive r)"
    using assms by (cases "0 < reflexiveCorrectionActive r") (simp_all add: reflex_countdown reflex_reset)
  show "consecutiveHighConfLosses (snd (checkForAnomalousPerformance (Some st) r)) = 0"
    using assms
    by (cases "0 < reflexiveCorrectionActive r")
       (simp_all add: reflex_countdown reflex_reset reflex_inv_def)
  show "reflexiveCorrectionActive (snd (checkForAnomalousPerformance (Some st) r)) =
           reflexiveCorrectionActive r - 1"
    using assms by (cases "0 < reflexiveCorrectionActive r") (simp_all add: reflex_countdown reflex_reset)
qed

lemma reflex_unscored:
  assumes "reflex_inv r" "unscoredCycle st"
  shows "fst (checkForAnomalousPerformance st r) = (0 < reflexiveCorrectionActive r)"
    and "consecutiveHighConfLosses (snd (checkForAnomalousPerformance st r)) =
           consecutiveHighConfLosses r"
    and "reflexiveCorrectionActive (snd (checkForAnomalousPerformance st r)) =
           reflexiveCorrectionActive r - 1"
  using assms
  by (auto simp: checkForAnomalousPerformance_def unscoredCycle_def scoredPrediction_def
      reflex_inv_def Let_def split: option.splits)

lemma runReflex3:
  assumes "checkForAnomalousPerformance a r = (f1, r1)"
    and "checkForAnomalousPerformance b r1 = (f2, r2)"
    and "checkForAnomalousPerformance c r2 = (f3, r3)"
  shows "runReflex [a, b, c] r = ([f1, f2, f3], r3)"
  by (simp add: assms)

lemma reflex_miss_hit_miss:
  assumes "reflexiveCorrectionActive r = 0" "consecutiveHighConfLosses r = 0"
    and "highConfMiss st1" "scoredPrediction st3" "\<not> highConfMiss st3" "highConfMiss st2"
  shows "runReflex [Some st1, Some st3, Some st2] r =
           ([False, False, False], r\<lparr>consecutiveHighConfLosses := 1\<rparr>)"
proof -
  have 1: "checkForAnomalousPerformance (Some st1) r = (False, r\<lparr>consecutiveHighConfLosses := 1\<rparr>)"
    using assms(1,2,3) by (simp add: reflex_miss)
  have 2: "checkForAnomalousPerformance (Some st3) (r\<lparr>consecutiveHighConfLosses := 1\<rparr>) = (False, r)"
    using assms(1,2,4,5) by (simp add: reflex_reset)
  have 3: "checkForAnomalousPerformance (Some st2) r = (False, r\<lparr>consecutiveHighConfLosses := 1\<rparr>)"
    using assms(1,2,6) by (simp add: reflex_miss)
  show ?thesis by (rule runReflex3[OF 1 2 3])
qed

lemma g7: "getBigSmallFromNumber (Some ''7'') = Some BIG"
  by code_simp

lemma g2: "getBigSmallFromNumber (Some ''2'') = Some SMALL"
  by code_simp

lemma miss_ex: "highConfMiss (statsExample 3 ''7'' SMALL)"
  by (simp add: highConfMiss_def scoredPrediction_def statsExample_def g7)

lemma hit_ex: "scoredPrediction (statsExample 3 ''7'' BIG) \<and> \<not> highConfMiss (statsExample 3 ''7'' BIG)"
  by (simp add: highConfMiss_def scoredPrediction_def statsExample_def g7)

lemma pending_ex: "\<not> scoredPrediction pendingExample"
  by (simp add: scoredPrediction_def pendingExample_def statsExample_def)

text \<open>Two misses, then six hits: the flag is raised for the triggering cycle and five more.\<close>

lemma run_ex:
  "runReflex (replicate 2 (Some (statsExample 3 ''7'' SMALL)) @ replicate 6 (Some (statsExample 3 ''2'' SMALL)))
      reflexState_init
   = ([False, True, True, True, True, True, True, False], reflexState_init)"
  by code_simp

text \<open>
  C6, as stated: any cycle whose previous prediction was not a high-confidence miss resets
  the miss counter to 0. After one miss at level 3 the counter is 1; the next cycle carries
  a level-1 prediction whose outcome is not known yet, which is not a high-confidence
  miss, and the counter is still 1 after it, so that a second miss in the cycle after
  starts the countdown although the two misses were not consecutive cycles.
\<close>

theorem C6_pending_outcome_counterexample:
  "\<not> highConfMiss pendingExample \<and>
   checkForAnomalousPerformance (Some (statsExample 3 ''7'' SMALL)) reflexState_init =
     (False, \<lparr>consecutiveHighConfLosses = 1, reflexiveCorrectionActive = 0\<rparr>) \<and>
   checkForAnomalousPerformance (Some pendingExample)
       \<lparr>consecutiveHighConfLosses = 1, reflexiveCorrectionActive = 0\<rparr> =
     (False, \<lparr>consecutiveHighConfLosses = 1, reflexiveCorrectionActive = 0\<rparr>) \<and>
   consecutiveHighConfLosses (snd (checkForAnomalousPerformance (Some pendingExample)
       \<lparr>consecutiveHighConfLosses = 1, reflexiveCorrectionActive = 0\<rparr>)) \<noteq> 0 \<and>
   runReflex [Some (statsExample 3 ''7'' SMALL), Some pendingExample, Some (statsExample 3 ''7'' SMALL)]
       reflexState_init =
     ([False, False, True], \<lparr>consecutiveHighConfLosses = 0, reflexiveCorrectionActive = 5\<rparr>)"
proof -
  let ?one = "\<lparr>consecutiveHighConfLosses = 1, reflexiveCorrectionActive = 0\<rparr>"
  have 1: "checkForAnomalousPerformance (Some (statsExample 3 ''7'' SMALL)) reflexState_init = (False, ?one)"
    using reflex_miss[OF _ miss_ex, of reflexState_init] by (simp add: reflexState_init_def)
  have 2: "checkForAnomalousPerformance (Some pendingExample) ?one = (False, ?one)"
    using pending_ex by (simp add: checkForAnomalousPerformance_def scoredPrediction_def)
  have 3: "checkForAnomalousPerformance (Some (statsExample 3 ''7'' SMALL)) ?one =
             (True, \<lparr>consecutiveHighConfLosses = 0, reflexiveCorrectionActive = 5\<rparr>)"
    using reflex_miss[OF _ miss_ex, of ?one] by simp
  have 4: "\<not> highConfMiss pendingExample" using pending_ex by (simp add: highConfMiss_def)
  have 5: "consecutiveHighConfLosses (snd (checkForAnomalousPerformance (Some pendingExample) ?one)) \<noteq> 0"
    unfolding 2 by simp
  have 6: "runReflex [Some (statsExample 3 ''7'' SMALL), Some pendingExample,
                      Some (statsExample 3 ''7'' SMALL)] reflexState_init =
     ([False, False, True], \<lparr>consecutiveHighConfLosses = 0, reflexiveCorrectionActive = 5\<rparr>)"
    by (rule runReflex3[OF 1 2 3])
  show ?thesis by (intro conjI) (rule 4 1 2 5 6)+
qed

text \<open>
  C6, amended: (1) from idle counters, two consecutive misses at confidence level 3 set the
  countdown to 5 and reset the miss counter, and the first miss alone does not; (2) while
  the countdown is positive every call decrements it by one whatever the carried state
  says, leaves the miss counter alone and so cannot set the countdown again; (3) in every
  cycle that the check flags, the contextual aggression is multiplied by 0.25; (4) in every
  reachable state, a cycle whose carried state holds a scored previous prediction that was
  not a high-confidence miss leaves the miss counter at 0 and starts no countdown: it is
  flagged only if the countdown was already running, and the countdown only goes down;
  (5) in every reachable state, a cycle whose carried state gives nothing to score leaves
  the miss counter as it was, and starts no countdown either; (6) so from idle counters a
  miss, a scored prediction that is not a high-confidence miss, and a miss in three
  successive cycles flag no cycle and leave the counter at 1.
\<close>

theorem C6_reflexive_correction:
  "(reflexiveCorrectionActive r = 0 \<and> consecutiveHighConfLosses r = 0 \<and>
      highConfMiss st1 \<and> highConfMiss st2 \<longrightarrow>
      checkForAnomalousPerformance (Some st1) r = (False, r\<lparr>consecutiveHighConfLosses := 1\<rparr>) \<and>
      checkForAnomalousPerformance (Some st2) (r\<lparr>consecutiveHighConfLosses := 1\<rparr>) =
        (True, r\<lparr>consecutiveHighConfLosses := 0, reflexiveCorrectionActive := 5\<rparr>)) \<and>
   (reflexiveCorrectionActive r > 0 \<longrightarrow>
      checkForAnomalousPerformance st r =
        (True, r\<lparr>reflexiveCorrectionActive := reflexiveCorrectionActive r - 1\<rparr>)) \<and>
   (fst (checkForAnomalousPerformance st r) \<longrightarrow>
      regimeContextualAggression c pta (fst (checkForAnomalousPerformance st r)) ds conc =
        (if c = 0 then 1 else c) * pta * 0.25) \<and>
   (reflex_inv r \<and> scoredPrediction st3 \<and> \<not> highConfMiss st3 \<longrightarrow>
      fst (checkForAnomalousPerformance (Some st3) r) = (0 < reflexiveCorrectionActive r) \<and>
      consecutiveHighConfLosses (snd (checkForAnomalousPerformance (Some st3) r)) = 0 \<and>
      reflexiveCorrectionActive (snd (checkForAnomalousPerformance (Some st3) r)) =
        reflexiveCorrectionActive r - 1) \<and>
   (reflex_inv r \<and> unscoredCycle st4 \<longrightarrow>
      fst (checkForAnomalousPerformance st4 r) = (0 < reflexiveCorrectionActive r) \<and>
      consecutiveHighConfLosses (snd (checkForAnomalousPerformance st4 r)) =
        consecutiveHighConfLosses r \<and>
      reflexiveCorrectionActive (snd (checkForAnomalousPerformance st4 r)) =
        reflexiveCorrectionActive r - 1) \<and>
   (reflexiveCorrectionActive r = 0 \<and> consecutiveHighConfLosses r = 0 \<and>
      highConfMiss st1 \<and> scoredPrediction st3 \<and> \<not> highConfMiss st3 \<and> highConfMiss st2 \<longrightarrow>
      runReflex [Some st1, Some st3, Some st2] r =
        ([False, False, False], r\<lparr>consecutiveHighConfLosses := 1\<rparr>))"
proof (intro conjI impI)
  assume a: "reflexiveCorrectionActive r = 0 \<and> consecutiveHighConfLosses r = 0 \<and>
      highConfMiss st1 \<and> highConfMiss st2"
  then show "checkForAnomalousPerformance (Some st1) r = (False, r\<lparr>consecutiveHighConfLosses := 1\<rparr>)"
    by (simp add: reflex_miss)
  from a show "checkForAnomalousPerformance (Some st2) (r\<lparr>consecutiveHighConfLosses := 1\<rparr>) =
        (True, r\<lparr>consecutiveHighConfLosses := 0, reflexiveCorrectionActive := 5\<rparr>)"
    by (simp add: reflex_miss)
next
  assume "reflexiveCorrectionActive r > 0"
  then show "checkForAnomalousPerformance st r =
        (True, r\<lparr>reflexiveCorrectionActive := reflexiveCorrectionActive r - 1\<rparr>)"
    by (rule reflex_countdown)
next
  assume "fst (checkForAnomalousPerformance st r)"
  then show "regimeContextualAggression c pta (fst (checkForAnomalousPerformance st r)) ds conc =
        (if c = 0 then 1 else c) * pta * 0.25"
    by (simp add: regimeContextualAggression_def)
next
  assume a: "reflex_inv r \<and> scoredPrediction st3 \<and> \<not> highConfMiss st3"
  then have a1: "reflex_inv r" and a2: "scoredPrediction st3" and a3: "\<not> highConfMiss st3"
    by simp_all
  show "fst (checkForAnomalousPerformance (Some st3) r) = (0 < reflexiveCorrectionActive r)"
    by (rule reflex_scored(1)[OF a1 a2 a3])
  show "consecutiveHighConfLosses (snd (checkForAnomalousPerformance (Some st3) r)) = 0"
    by (rule reflex_scored(2)[OF a1 a2 a3])
  show "reflexiveCorrectionActive (snd (checkForAnomalousPerformance (Some st3) r)) =
        reflexiveCorrectionActive r - 1"
    by (rule reflex_scored(3)[OF a1 a2 a3])
next
  assume a: "reflex_inv r \<and> unscoredCycle st4"
  then have a1: "reflex_inv r" and a2: "unscoredCycle st4" by simp_all
  show "fst (checkForAnomalousPerformance st4 r) = (0 < reflexiveCorrectionActive r)"
    by (rule reflex_unscored(1)[OF a1 a2])
  show "consecutiveHighConfLosses (snd (checkForAnomalousPerformance st4 r)) =
        consecutiveHighConfLosses r"
    by (rule reflex_unscored(2)[OF a1 a2])
  show "reflexiveCorrectionActive (snd (checkForAnomalousPerformance st4 r)) =
        reflexiveCorrectionActive r - 1"
    by (rule reflex_unscored(3)[OF a1 a2])
next
  assume "reflexiveCorrectionActive r = 0 \<and> consecutiveHighConfLosses r = 0 \<and>
      highConfMiss st1 \<and> scoredPrediction st3 \<and> \<not> highConfMiss st3 \<and> highConfMiss st2"
  then have "reflexiveCorrectionActive r = 0" "consecutiveHighConfLosses r = 0"
    "highConfMiss st1" "scoredPrediction st3" "\<not> highConfMiss st3" "highConfMiss st2"
    by simp_all
  then show "runReflex [Some st1, Some st3, Some st2] r =
        ([False, False, False], r\<lparr>consecutiveHighConfLosses := 1\<rparr>)"
    by (rule reflex_miss_hit_miss)
qed

theorem C6_reflexive_correction_witness:
  "checkForAnomalousPerformance (Some (statsExample 3 ''7'' SMALL)) reflexState_init =
     (False, \<lparr>consecutiveHighConfLosses = 1, reflexiveCorrectionActive = 0\<rparr>) \<and>
   checkForAnomalousPerformance (Some (statsExample 3 ''7'' SMALL))
       \<lparr>consecutiveHighConfLosses = 1, reflexiveCorrectionActive = 0\<rparr> =
     (True, \<lparr>consecutiveHighConfLosses = 0, reflexiveCorrectionActive = 5\<rparr>) \<and>
   checkForAnomalousPerformance (Some (statsExample 3 ''7'' SMALL))
       \<lparr>consecutiveHighConfLosses = 0, reflexiveCorrectionActive = 5\<rparr> =
     (True, \<lparr>consecutiveHighConfLosses = 0, reflexiveCorrectionActive = 4\<rparr>) \<and>
   regimeContextualAggression 1.3 1.25 True STABLE False = 1.3 * 1.25 * 0.25 \<and>
   checkForAnomalousPerformance (Some (statsExample 3 ''7'' BIG))
       \<lparr>consecutiveHighConfLosses = 1, reflexiveCorrectionActive = 0\<rparr> =
     (False, \<lparr>consecutiveHighConfLosses = 0, reflexiveCorrectionActive = 0\<rparr>) \<and>
   checkForAnomalousPerformance None
       \<lparr>consecutiveHighConfLosses = 1, reflexiveCorrectionActive = 0\<rparr> =
     (False, \<lparr>consecutiveHighConfLosses = 1, reflexiveCorrectionActive = 0\<rparr>) \<and>
   runReflex [Some (statsExample 3 ''7'' SMALL), Some (statsExample 3 ''7'' BIG),
              Some (statsExample 3 ''7'' SMALL)] reflexState_init =
     ([False, False, False], \<lparr>consecutiveHighConfLosses = 1, reflexiveCorrectionActive = 0\<rparr>)"
proof -
  let ?miss = "statsExample 3 ''7'' SMALL" and ?hit = "statsExample 3 ''7'' BIG"
  let ?one = "\<lparr>consecutiveHighConfLosses = 1, reflexiveCorrectionActive = 0\<rparr>"
  have a: "reflexiveCorrectionActive reflexState_init = 0 \<and>
      consecutiveHighConfLosses reflexState_init = 0 \<and> highConfMiss ?miss \<and> highConfMiss ?miss"
    using miss_ex by (simp add: reflexState_init_def)
  have b: "reflexiveCorrectionActive \<lparr>consecutiveHighConfLosses = 0, reflexiveCorrectionActive = 5\<rparr> > 0"
    by simp
  have c: "fst (checkForAnomalousPerformance (Some ?miss)
       \<lparr>consecutiveHighConfLosses = 0, reflexiveCorrectionActive = 5\<rparr>)"
    by (simp add: checkForAnomalousPerformance_def)
  have d: "reflex_inv ?one \<and> scoredPrediction ?hit \<and> \<not> highConfMiss ?hit"
    using hit_ex by (simp add: reflex_inv_def)
  have e: "reflex_inv ?one \<and> unscoredCycle None"
    by (simp add: reflex_inv_def unscoredCycle_def)
  have f: "reflexiveCorrectionActive reflexState_init = 0 \<and>
      consecutiveHighConfLosses reflexState_init = 0 \<and> highConfMiss ?miss \<and>
      scoredPrediction ?hit \<and> \<not> highConfMiss ?hit \<and> highConfMiss ?miss"
    using miss_ex hit_ex by (simp add: reflexState_init_def)
  note T = C6_reflexive_correction
  have 1: "checkForAnomalousPerformance (Some ?miss) reflexState_init =
             (False, reflexState_init\<lparr>consecutiveHighConfLosses := 1\<rparr>) \<and>
           checkForAnomalousPerformance (Some ?miss) (reflexState_init\<lparr>consecutiveHighConfLosses := 1\<rparr>) =
             (True, reflexState_init\<lparr>consecutiveHighConfLosses := 0, reflexiveCorrectionActive := 5\<rparr>)"
    by (rule T[THEN conjunct1, THEN mp, OF a])
  have 2: "checkForAnomalousPerformance (Some ?miss)
       \<lparr>consecutiveHighConfLosses = 0, reflexiveCorrectionActive = 5\<rparr> =
     (True, \<lparr>consecutiveHighConfLosses = 0, reflexiveCorrectionActive = 5\<rparr>
        \<lparr>reflexiveCorrectionActive := reflexiveCorrectionActive
            \<lparr>consecutiveHighConfLosses = 0, reflexiveCorrectionActive = 5\<rparr> - 1\<rparr>)"
    by (rule T[THEN conjunct2, THEN conjunct1, THEN mp, OF b])
  have 3: "regimeContextualAggression 1.3 1.25 (fst (checkForAnomalousPerformance (Some ?miss)
       \<lparr>consecutiveHighConfLosses = 0, reflexiveCorrectionActive = 5\<rparr>)) STABLE False =
        (if (1.3::real) = 0 then 1 else 1.3) * 1.25 * 0.25"
    by (rule T[THEN conjunct2, THEN conjunct2, THEN conjunct1, THEN mp, OF c])
  have 4: "fst (checkForAnomalousPerformance (Some ?hit) ?one) = (0 < reflexiveCorrectionActive ?one) \<and>
      consecutiveHighConfLosses (snd (checkForAnomalousPerformance (Some ?hit) ?one)) = 0 \<and>
      reflexiveCorrectionActive (snd (checkForAnomalousPerformance (Some ?hit) ?one)) =
        reflexiveCorrectionActive ?one - 1"
    by (rule T[THEN conjunct2, THEN conjunct2, THEN conjunct2, THEN conjunct1, THEN mp, OF d])
  have 5: "fst (checkForAnomalousPerformance None ?one) = (0 < reflexiveCorrectionActive ?one) \<and>
      consecutiveHighConfLosses (snd (checkForAnomalousPerformance None ?one)) =
        consecutiveHighConfLosses ?one \<and>
      reflexiveCorrectionActive (snd (checkForAnomalousPerformance None ?one)) =
        reflexiveCorrectionActive ?one - 1"
    by (rule T[THEN conjunct2, THEN conjunct2, THEN conjunct2, THEN conjunct2, THEN conjunct1,
          THEN mp, OF e])
  have 6: "runReflex [Some ?miss, Some ?hit, Some ?miss] reflexState_init =
        ([False, False, False], reflexState_init\<lparr>consecutiveHighConfLosses := 1\<rparr>)"
    by (rule T[THEN conjunct2, THEN conjunct2, THEN conjunct2, THEN conjunct2, THEN conjunct2,
          THEN mp, OF f])
  have h4: "checkForAnomalousPerformance (Some ?hit) ?one =
     (False, \<lparr>consecutiveHighConfLosses = 0, reflexiveCorrectionActive = 0\<rparr>)"
    using 4 by (cases "checkForAnomalousPerformance (Some ?hit) ?one"; cases "snd (checkForAnomalousPerformance (Some ?hit) ?one)") auto
  have h5: "checkForAnomalousPerformance None ?one = (False, ?one)"
    using 5 by (cases "checkForAnomalousPerformance None ?one"; cases "snd (checkForAnomalousPerformance None ?one)") auto
  from 1 2 3 h4 h5 6 c show ?thesis by (simp add: reflexState_init_def)
qed
section \<open>Properties of the signal performance learner\<close>

lemma ensureBucket_frame:
  "total_obs (ensureBucket g p) = total_obs p"
  "recentAccuracy (ensureBucket g p) = recentAccuracy p"
  "alphaFactor (ensureBucket g p) = alphaFactor p"
  "isOnProbation (ensureBucket g p) = isOnProbation p"
  "lastActivePeriod (ensureBucket g p) = lastActivePeriod p"
  "lastUpdatePeriod (ensureBucket g p) = lastUpdatePeriod p"
  "currentAdjustmentFactor (ensureBucket g p) = currentAdjustmentFactor p"
  by (simp_all add: ensureBucket_def)

lemma adjustFromWindow_frame:
  "total_obs (adjustFromWindow p) = total_obs p"
  "recentAccuracy (adjustFromWindow p) = recentAccuracy p"
  "correct (adjustFromWindow p) = correct p"
  "sessionTotal (adjustFromWindow p) = sessionTotal p"
  "sessionCorrect (adjustFromWindow p) = sessionCorrect p"
  "performanceByVolatility (adjustFromWindow p) = performanceByVolatility p"
  "longTermImportanceScore (adjustFromWindow p) = longTermImportanceScore p"
  "lastActivePeriod (adjustFromWindow p) = lastActivePeriod p"
  "lastUpdatePeriod (adjustFromWindow p) = lastUpdatePeriod p"
  by (simp_all add: adjustFromWindow_def Let_def)

lemma countObservation_fields:
  "total_obs (countObservation oc period regime delta p) = total_obs p + 1"
  "recentAccuracy (countObservation oc period regime delta p) = pushWindow (recentAccuracy p) oc"
  "lastActivePeriod (countObservation oc period regime delta p) = period"
  by (simp_all add: countObservation_def Let_def adjustFromWindow_frame pushWindow_def)

lemma adjustFromWindow_on:
  assumes "total_obs p \<ge> 10" "length (recentAccuracy p) \<ge> 15"
  shows "currentAdjustmentFactor (adjustFromWindow p) = newAdjustmentFactor (windowAccuracy (recentAccuracy p))"
    and "alphaFactor (adjustFromWindow p) =
           alphaFactorStep (alphaFactor p) (newAdjustmentFactor (windowAccuracy (recentAccuracy p)))
             (alphaLearningRate (windowAccuracy (recentAccuracy p)))"
    and "isOnProbation (adjustFromWindow p) =
           (if windowAccuracy (recentAccuracy p) < 0.40 then True
            else if windowAccuracy (recentAccuracy p) > 0.55 then False
            else isOnProbation p)"
  using assms
  by (simp_all add: adjustFromWindow_def Let_def MIN_OBSERVATIONS_FOR_ADJUST_def PERFORMANCE_WINDOW_def
      PROBATION_MIN_OBSERVATIONS_def PROBATION_THRESHOLD_ACCURACY_def)

lemma countObservation_adjust:
  "currentAdjustmentFactor (countObservation oc period regime delta p) =
     currentAdjustmentFactor (adjustFromWindow
        (p\<lparr>total_obs := total_obs p + 1, recentAccuracy := pushWindow (recentAccuracy p) oc\<rparr>))"
  "alphaFactor (countObservation oc period regime delta p) =
     alphaFactor (adjustFromWindow
        (p\<lparr>total_obs := total_obs p + 1, recentAccuracy := pushWindow (recentAccuracy p) oc\<rparr>))"
  "isOnProbation (countObservation oc period regime delta p) =
     isOnProbation (adjustFromWindow
        (p\<lparr>total_obs := total_obs p + 1, recentAccuracy := pushWindow (recentAccuracy p) oc\<rparr>))"
  by (simp_all add: countObservation_def Let_def adjustFromWindow_def pushWindow_def)

lemma updateSignalEntry_counted:
  assumes "source sig \<noteq> []" "countedFor sp (source sig) period"
  shows "updateSignalEntry ao period regime hi ov conc ent sp sig (source sig) =
            Some ((countObservation (prediction sig = ao) period regime
                     (importanceDelta (prediction sig = ao) hi ov conc ent)
                     (ensureBucket regime (perfBefore sp (source sig))))\<lparr>lastUpdatePeriod := period\<rparr>)"
  using assms
  by (simp add: updateSignalEntry_def countedFor_def Let_def ensureBucket_frame)

lemma alphaFactorStep_range:
  assumes "MIN_ALPHA_FACTOR \<le> a" "a \<le> MAX_ALPHA_FACTOR" "0 \<le> r" "r \<le> 1"
  shows "MIN_ALPHA_FACTOR \<le> alphaFactorStep a t r \<and> alphaFactorStep a t r \<le> MAX_ALPHA_FACTOR
         \<and> \<bar>t - alphaFactorStep a t r\<bar> \<le> \<bar>t - a\<bar>"
proof (cases "t > a")
  case True
  define x where "x = a + r * (t - a)"
  have "0 \<le> r * (t - a)" using True assms by simp
  moreover have "r * (t - a) \<le> t - a" using True assms by (simp add: mult_left_le_one_le)
  ultimately have x: "a \<le> x" "x \<le> t" by (simp_all add: x_def)
  have e: "alphaFactorStep a t r = min MAX_ALPHA_FACTOR x"
    using True by (simp add: alphaFactorStep_def x_def)
  have m: "MIN_ALPHA_FACTOR \<le> MAX_ALPHA_FACTOR" by (simp add: MIN_ALPHA_FACTOR_def MAX_ALPHA_FACTOR_def)
  show ?thesis unfolding e using x assms True m by (cases "MAX_ALPHA_FACTOR \<le> x") (simp_all add: min_def)
next
  case False
  define x where "x = a - r * (a - t)"
  have "0 \<le> r * (a - t)" using False assms by simp
  moreover have "r * (a - t) \<le> a - t" using False assms by (simp add: mult_left_le_one_le)
  ultimately have x: "t \<le> x" "x \<le> a" by (simp_all add: x_def)
  have e: "alphaFactorStep a t r = max MIN_ALPHA_FACTOR x"
    using False by (simp add: alphaFactorStep_def x_def)
  have m: "MIN_ALPHA_FACTOR \<le> MAX_ALPHA_FACTOR" by (simp add: MIN_ALPHA_FACTOR_def MAX_ALPHA_FACTOR_def)
  show ?thesis unfolding e using x assms False m by (cases "x \<le> MIN_ALPHA_FACTOR") (simp_all add: max_def)
qed

lemma alphaLearningRate_values:
  "alphaLearningRate acc = (if acc < 0.35 then 0.07 else if acc < 0.45 then 0.056 else 0.04)"
  by (simp add: alphaLearningRate_def ALPHA_UPDATE_RATE_def)

lemma alphaLearningRate_range: "0 \<le> alphaLearningRate acc \<and> alphaLearningRate acc \<le> 1"
  by (simp add: alphaLearningRate_values)

lemma updateSignalEntry_other:
  "source sig \<noteq> src \<Longrightarrow> updateSignalEntry ao period regime hi ov conc ent sp sig src = sp src"
  by (simp add: updateSignalEntry_def Let_def)

lemma updateSignalEntry_settled_noop:
  assumes "settledAt period regime sp (source sig)"
  shows "updateSignalEntry ao period regime hi ov conc ent sp sig = sp"
proof (cases "source sig = []")
  case True
  then show ?thesis by (simp add: updateSignalEntry_def)
next
  case False
  from assms obtain p where p: "sp (source sig) = Some p" "settled period regime p"
    by (auto simp: settledAt_def split: option.splits)
  have b: "ensureBucket regime (perfBefore sp (source sig)) = p"
    using p by (auto simp: ensureBucket_def perfBefore_def settled_def)
  have "p\<lparr>lastUpdatePeriod := period\<rparr> = p" using p by (simp add: settled_def)
  then show ?thesis using False p b
    by (simp add: updateSignalEntry_def Let_def settled_def map_upd_triv)
qed

lemma countObservation_bucket:
  "performanceByVolatility (countObservation oc period regime delta p) regime \<noteq> None"
  by (simp add: countObservation_def Let_def adjustFromWindow_frame)

lemma updateSignalEntry_settles:
  assumes "source sig \<noteq> []"
  shows "settledAt period regime (updateSignalEntry ao period regime hi ov conc ent sp sig) (source sig)"
proof -
  let ?p1 = "ensureBucket regime (perfBefore sp (source sig))"
  have b: "performanceByVolatility ?p1 regime \<noteq> None" by (simp add: ensureBucket_def)
  show ?thesis
  proof (cases "lastActivePeriod ?p1 \<noteq> period \<or> total_obs ?p1 = 0")
    case True
    then show ?thesis using assms
      by (simp add: updateSignalEntry_def Let_def settledAt_def settled_def countObservation_fields
          countObservation_bucket)
  next
    case False
    then show ?thesis using assms b
      by (simp add: updateSignalEntry_def Let_def settledAt_def settled_def)
  qed
qed

lemma updateSignalEntry_cong:
  "sp1 (source sig) = sp2 (source sig) \<Longrightarrow>
   updateSignalEntry ao period regime hi ov conc ent sp1 sig (source sig) =
   updateSignalEntry ao period regime hi ov conc ent sp2 sig (source sig)"
  by (cases "source sig = []") (simp_all add: updateSignalEntry_def Let_def perfBefore_def)

lemma settledAt_preserved:
  assumes "settledAt period regime sp src"
  shows "settledAt period regime (updateSignalEntry ao period regime hi ov conc ent sp sig) src"
proof (cases "source sig = src")
  case True
  then show ?thesis using assms by (simp add: updateSignalEntry_settled_noop)
next
  case False
  then show ?thesis using assms by (simp add: settledAt_def updateSignalEntry_other)
qed

lemma fold_settled_preserved:
  "settledAt period regime sp src \<Longrightarrow>
   settledAt period regime (foldl (updateSignalEntry ao period regime hi ov conc ent) sp sigs) src"
  by (induction sigs arbitrary: sp) (simp_all add: settledAt_preserved)

lemma fold_settles_all:
  "sig \<in> set sigs \<Longrightarrow> source sig \<noteq> [] \<Longrightarrow>
   settledAt period regime (foldl (updateSignalEntry ao period regime hi ov conc ent) sp sigs) (source sig)"
proof (induction sigs arbitrary: sp)
  case Nil
  then show ?case by simp
next
  case (Cons x xs)
  show ?case
  proof (cases "sig = x")
    case True
    then show ?thesis using Cons.prems
      by (simp add: fold_settled_preserved updateSignalEntry_settles)
  next
    case False
    then show ?thesis using Cons by simp
  qed
qed

lemma fold_noop_when_settled:
  "(\<forall>sig \<in> set sigs. source sig \<noteq> [] \<longrightarrow> settledAt period regime sp (source sig)) \<Longrightarrow>
   foldl (updateSignalEntry ao period regime hi ov conc ent) sp sigs = sp"
proof (induction sigs arbitrary: sp)
  case Nil
  then show ?case by simp
next
  case (Cons x xs)
  have "updateSignalEntry ao period regime hi ov conc ent sp x = sp"
  proof (cases "source x = []")
    case True
    then show ?thesis by (simp add: updateSignalEntry_def)
  next
    case False
    then show ?thesis using Cons.prems by (simp add: updateSignalEntry_settled_noop)
  qed
  then show ?case using Cons by simp
qed

lemma fold_first_vote:
  "src \<noteq> [] \<Longrightarrow> find (\<lambda>s. source s = src) sigs = Some sig \<Longrightarrow>
   foldl (updateSignalEntry ao period regime hi ov conc ent) sp sigs src =
     updateSignalEntry ao period regime hi ov conc ent sp sig src"
proof (induction sigs arbitrary: sp)
  case Nil
  then show ?case by simp
next
  case (Cons x xs)
  show ?case
  proof (cases "source x = src")
    case True
    then have e: "sig = x" using Cons.prems by simp
    have "settledAt period regime (updateSignalEntry ao period regime hi ov conc ent sp x) src"
      using True Cons.prems(1) updateSignalEntry_settles[of x] by auto
    then have "settledAt period regime
        (foldl (updateSignalEntry ao period regime hi ov conc ent)
           (updateSignalEntry ao period regime hi ov conc ent sp x) xs) src"
      by (rule fold_settled_preserved)
    moreover have "foldl (updateSignalEntry ao period regime hi ov conc ent)
           (updateSignalEntry ao period regime hi ov conc ent sp x) xs src
        = updateSignalEntry ao period regime hi ov conc ent sp x src"
      using \<open>settledAt period regime (updateSignalEntry ao period regime hi ov conc ent sp x) src\<close>
    proof (induction xs arbitrary: sp rule: rev_induct)
      case Nil
      then show ?case by simp
    next
      case (snoc y ys)
      let ?m = "foldl (updateSignalEntry ao period regime hi ov conc ent)
           (updateSignalEntry ao period regime hi ov conc ent sp x) ys"
      have st: "settledAt period regime ?m src" using snoc.prems by (rule fold_settled_preserved)
      have "updateSignalEntry ao period regime hi ov conc ent ?m y src = ?m src"
      proof (cases "source y = src")
        case True
        then show ?thesis using st by (simp add: updateSignalEntry_settled_noop)
      next
        case False
        then show ?thesis by (simp add: updateSignalEntry_other)
      qed
      then show ?case using snoc by simp
    qed
    ultimately show ?thesis using e by simp
  next
    case False
    then have f: "find (\<lambda>s. source s = src) xs = Some sig" using Cons.prems by simp
    have "updateSignalEntry ao period regime hi ov conc ent sp x src = sp src"
      using False by (simp add: updateSignalEntry_other)
    moreover have ss: "source sig = src" using f by (auto simp: find_Some_iff)
    moreover have "updateSignalEntry ao period regime hi ov conc ent
            (updateSignalEntry ao period regime hi ov conc ent sp x) sig src
         = updateSignalEntry ao period regime hi ov conc ent sp sig src"
      using updateSignalEntry_cong[of "updateSignalEntry ao period regime hi ov conc ent sp x" sig sp]
        calculation by simp
    ultimately show ?thesis using Cons.IH[OF Cons.prems(1) f] by simp
  qed
qed

lemma gLabel: "getBigSmallFromNumber (Some (outcomeName x)) = None"
  by (cases x; simp; code_simp)

lemma noChaos: "\<not> includesStr ''STABLE_MODERATE'' ''CHAOS''"
  by code_simp

lemma missStep_first: "missStep 1 Map.empty = Map.empty(''RSI'' \<mapsto> missRecord 1)"
  by (simp add: missStep_def updateSignalPerformance_def updateSignalEntry_def missVote_def
      perfBefore_def ensureBucket_def newSignalPerf_def countObservation_def Let_def
      importanceDelta_def gtNum_def noChaos pushWindow_def PERFORMANCE_WINDOW_def bumpBucket_def
      adjustFromWindow_def MIN_OBSERVATIONS_FOR_ADJUST_def missRecord_def)

lemma missStep_next:
  assumes "1 \<le> k" "k < 14"
  shows "missStep (int (Suc k)) (Map.empty(''RSI'' \<mapsto> missRecord k)) = Map.empty(''RSI'' \<mapsto> missRecord (Suc k))"
proof -
  have r: "replicate k (0::nat) @ [0] = replicate (Suc k) 0" by (simp add: replicate_append_same)
  have rk: "real k < 14" "0 \<le> real k" using assms by simp_all
  have l: "min 1 (max 0 (0.5 - 0.015 * real k + - 0.015)) = 0.5 - 0.015 * real (Suc k)"
  proof -
    have "min 1 (max 0 (0.5 - 0.015 * real k + - 0.015)) = 0.5 - 0.015 * real k + - 0.015"
      using rk by (simp add: min_def max_def)
    also have "\<dots> = 0.5 - 0.015 * real (Suc k)" by (simp add: field_simps)
    finally show ?thesis .
  qed
  have step: "missStep (int (Suc k)) (Map.empty(''RSI'' \<mapsto> missRecord k)) =
     Map.empty(''RSI'' \<mapsto> (missRecord k)\<lparr>total_obs := k + 1, sessionTotal := k + 1,
        performanceByVolatility := Map.empty(''MEDIUM'' \<mapsto> \<lparr>vol_correct = 0, vol_total = k + 1\<rparr>),
        longTermImportanceScore := min 1 (max 0 (0.5 - 0.015 * real k + - 0.015)),
        recentAccuracy := replicate k 0 @ [0],
        lastActivePeriod := Some (int (Suc k)), lastUpdatePeriod := Some (int (Suc k))\<rparr>)"
    using assms
    by (simp add: missStep_def updateSignalPerformance_def updateSignalEntry_def missVote_def
      perfBefore_def ensureBucket_def countObservation_def Let_def
      importanceDelta_def gtNum_def noChaos pushWindow_def PERFORMANCE_WINDOW_def bumpBucket_def
      adjustFromWindow_def MIN_OBSERVATIONS_FOR_ADJUST_def missRecord_def)
  show ?thesis unfolding step l r by (simp add: missRecord_def)
qed

lemma missStep_15:
  "missStep 15 (Map.empty(''RSI'' \<mapsto> missRecord 14)) ''RSI'' =
     Some ((missRecord 15)\<lparr>currentAdjustmentFactor := 0.05, alphaFactor := 0.9335, isOnProbation := True\<rparr>)"
  by (simp add: missStep_def updateSignalPerformance_def updateSignalEntry_def missVote_def
      perfBefore_def ensureBucket_def countObservation_def Let_def
      importanceDelta_def gtNum_def noChaos pushWindow_def PERFORMANCE_WINDOW_def bumpBucket_def
      adjustFromWindow_def MIN_OBSERVATIONS_FOR_ADJUST_def missRecord_def
      windowAccuracy_def newAdjustmentFactor_def alphaFactorStep_def alphaLearningRate_def
      PROBATION_MIN_OBSERVATIONS_def PROBATION_THRESHOLD_ACCURACY_def MIN_WEIGHT_FACTOR_def
      MAX_WEIGHT_FACTOR_def MIN_ALPHA_FACTOR_def MAX_ALPHA_FACTOR_def ALPHA_UPDATE_RATE_def
      numeral_eq_Suc replicate_append_same)

lemma missStreak_Suc: "missStreak (Suc k) = missStep (int (Suc k)) (missStreak k)"
  by (simp add: missStreak_def)

lemma missStreak_upto_14:
  "1 \<le> k \<Longrightarrow> k \<le> 14 \<Longrightarrow> missStreak k = Map.empty(''RSI'' \<mapsto> missRecord k)"
proof (induction k)
  case 0
  then show ?case by simp
next
  case (Suc k)
  show ?case
  proof (cases "k = 0")
    case True
    then show ?thesis using missStep_first by (simp add: missStreak_def)
  next
    case False
    then have k: "1 \<le> k" "k < 14" using Suc.prems by simp_all
    have h: "missStreak k = Map.empty(''RSI'' \<mapsto> missRecord k)"
      by (rule Suc.IH) (use k in simp_all)
    have "missStreak (Suc k) = missStep (int (Suc k)) (missStreak k)" by (rule missStreak_Suc)
    also have "\<dots> = missStep (int (Suc k)) (Map.empty(''RSI'' \<mapsto> missRecord k))" by (simp only: h)
    also have "\<dots> = Map.empty(''RSI'' \<mapsto> missRecord (Suc k))" using k by (rule missStep_next)
    finally show ?thesis .
  qed
qed

lemma missStreak_15: "missStreak 15 ''RSI'' = Some probationRecord"
proof -
  have "missStreak 15 = missStep 15 (missStreak 14)"
    using missStreak_Suc[of 14] by simp
  also have "\<dots> = missStep 15 (Map.empty(''RSI'' \<mapsto> missRecord 14))"
    using missStreak_upto_14[of 14] by simp
  finally show ?thesis using missStep_15 by (simp add: probationRecord_def)
qed

lemma decayInactive_probation:
  "\<not> inactiveTooLong cur p \<Longrightarrow> isOnProbation (decayInactive cur p) = isOnProbation p"
  by (auto simp: decayInactive_def inactiveTooLong_def Let_def split: option.splits)

lemma decayInactive_lifts:
  "inactiveTooLong cur p \<Longrightarrow> \<not> isOnProbation (decayInactive cur p)"
  by (auto simp: decayInactive_def inactiveTooLong_def Let_def split: option.splits)

lemma probation_cap:
  assumes "sp src = Some perf" "isOnProbation perf" "\<not> inactiveTooLong cur perf" "0 \<le> baseWeight"
  shows "fst (getDynamicWeightAdjustment src baseWeight cur regime hist sp)
           \<le> max (baseWeight * PROBATION_WEIGHT_CAP) MIN_ABSOLUTE_WEIGHT"
proof -
  let ?p1 = "if length hist \<le> 1 then perf\<lparr>sessionCorrect := 0, sessionTotal := 0\<rparr> else perf"
  have i: "\<not> inactiveTooLong cur ?p1" using assms(3) by (simp add: inactiveTooLong_def)
  have "isOnProbation ?p1" using assms(2) by simp
  then have pr: "isOnProbation (decayInactive cur ?p1)" using i by (simp add: decayInactive_probation)
  have "baseWeight * min f PROBATION_WEIGHT_CAP \<le> baseWeight * PROBATION_WEIGHT_CAP" for f
    using assms(4) by (simp add: mult_left_mono)
  then show ?thesis using assms(1) pr
    by (simp add: getDynamicWeightAdjustment_def Let_def max.coboundedI1)
qed

lemma update_first_vote:
  assumes "src \<noteq> []" "find (\<lambda>s. source s = src) sigs = Some sig" "countedFor sp src period"
  shows "updateSignalPerformance sigs (Some ao) period regime conf conc ent sp src =
           Some ((countObservation (prediction sig = ao) period regime
                    (importanceDelta (prediction sig = ao) (gtNum conf 0.75)
                       (getBigSmallFromNumber (Some (outcomeName ao))
                          = Some (if gtNum conf 0.5 then BIG else SMALL)) conc ent)
                    (ensureBucket regime (perfBefore sp src)))\<lparr>lastUpdatePeriod := period\<rparr>)"
proof -
  have ne: "sigs \<noteq> []" using assms(2) by auto
  have ss: "source sig = src" using assms(2) by (auto simp: find_Some_iff)
  show ?thesis
    using ne fold_first_vote[OF assms(1) assms(2)] updateSignalEntry_counted[of sig sp period] assms ss
    by (simp add: updateSignalPerformance_def Let_def)
qed

lemma counted_update_adjusts:
  assumes "src \<noteq> []" "find (\<lambda>s. source s = src) sigs = Some sig" "countedFor sp src period"
    and "updateSignalPerformance sigs (Some ao) period regime conf conc ent sp src = Some perf'"
    and "total_obs perf' \<ge> 10" "length (recentAccuracy perf') \<ge> 15"
  shows "currentAdjustmentFactor perf' = newAdjustmentFactor (windowAccuracy (recentAccuracy perf'))"
    and "alphaFactor perf' =
           alphaFactorStep (alphaFactor (perfBefore sp src))
             (newAdjustmentFactor (windowAccuracy (recentAccuracy perf')))
             (alphaLearningRate (windowAccuracy (recentAccuracy perf')))"
    and "isOnProbation perf' =
           (if windowAccuracy (recentAccuracy perf') < 0.40 then True
            else if windowAccuracy (recentAccuracy perf') > 0.55 then False
            else isOnProbation (perfBefore sp src))"
proof -
  define p1 where "p1 = ensureBucket regime (perfBefore sp src)"
  define oc where "oc = (prediction sig = ao)"
  define delta where "delta = importanceDelta (prediction sig = ao) (gtNum conf 0.75)
                       (getBigSmallFromNumber (Some (outcomeName ao))
                          = Some (if gtNum conf 0.5 then BIG else SMALL)) conc ent"
  define q where "q = p1\<lparr>total_obs := total_obs p1 + 1,
                 recentAccuracy := pushWindow (recentAccuracy p1) oc\<rparr>"
  define c where "c = countObservation oc period regime delta p1"
  have "Some perf' = Some (c\<lparr>lastUpdatePeriod := period\<rparr>)"
    using update_first_vote[OF assms(1-3), of ao regime conf conc ent] assms(4)
    unfolding c_def p1_def oc_def delta_def by simp
  then have p: "perf' = c\<lparr>lastUpdatePeriod := period\<rparr>" by simp
  have t: "total_obs perf' = total_obs q" "recentAccuracy perf' = recentAccuracy q"
    by (simp_all add: p c_def q_def countObservation_fields)
  have q: "total_obs q \<ge> 10" "length (recentAccuracy q) \<ge> 15" using assms(5,6) t by simp_all
  have f: "alphaFactor q = alphaFactor (perfBefore sp src)"
          "isOnProbation q = isOnProbation (perfBefore sp src)"
    by (simp_all add: q_def p1_def ensureBucket_frame)
  have ca: "currentAdjustmentFactor perf' = currentAdjustmentFactor (adjustFromWindow q)"
           "alphaFactor perf' = alphaFactor (adjustFromWindow q)"
           "isOnProbation perf' = isOnProbation (adjustFromWindow q)"
    unfolding p c_def q_def by (simp_all add: countObservation_adjust)
  show "currentAdjustmentFactor perf' = newAdjustmentFactor (windowAccuracy (recentAccuracy perf'))"
    unfolding ca t by (rule adjustFromWindow_on(1)[OF q])
  show "alphaFactor perf' =
           alphaFactorStep (alphaFactor (perfBefore sp src))
             (newAdjustmentFactor (windowAccuracy (recentAccuracy perf')))
             (alphaLearningRate (windowAccuracy (recentAccuracy perf')))"
    unfolding ca t f[symmetric] by (rule adjustFromWindow_on(2)[OF q])
  show "isOnProbation perf' =
           (if windowAccuracy (recentAccuracy perf') < 0.40 then True
            else if windowAccuracy (recentAccuracy perf') > 0.55 then False
            else isOnProbation (perfBefore sp src))"
    unfolding ca t f[symmetric] by (rule adjustFromWindow_on(3)[OF q])
qed

text \<open>
  C4: when \<open>updateSignalPerformance\<close> counts an observation of a source and leaves its total
  at 10 or more and its window at 15 samples or more, the new
  \<open>currentAdjustmentFactor\<close> is \<open>clamp(1 + (accuracy - 0.5) * 3.5, 0.05, 1.95)\<close> for the
  accuracy of the window, and \<open>alphaFactor\<close> moves from its old value towards that factor
  by the rate 0.04, times 1.4 below accuracy 0.45, times 1.75 below 0.35, cut at 1.6 from
  above and 0.4 from below; an \<open>alphaFactor\<close> in \<open>[0.4, 1.6]\<close> stays there and does not
  move away from the factor.
\<close>

theorem C4_adjustment_and_alpha:
  assumes "src \<noteq> []" and "find (\<lambda>s. source s = src) sigs = Some sig"
    and "countedFor sp src period"
    and "updateSignalPerformance sigs (Some ao) period regime conf conc ent sp src = Some perf'"
    and "total_obs perf' \<ge> 10" and "length (recentAccuracy perf') \<ge> 15"
  shows "(let accuracy = windowAccuracy (recentAccuracy perf');
              rate = (if accuracy < 0.35 then 0.04 * 1.75 else if accuracy < 0.45 then 0.04 * 1.4 else 0.04);
              alpha0 = alphaFactor (perfBefore sp src);
              newAdj = min (max (1 + (accuracy - 0.5) * 3.5) 0.05) 1.95
          in currentAdjustmentFactor perf' = newAdj \<and>
             alphaFactor perf' =
               (if newAdj > alpha0 then min 1.6 (alpha0 + rate * (newAdj - alpha0))
                else max 0.4 (alpha0 - rate * (alpha0 - newAdj))) \<and>
             (0.4 \<le> alpha0 \<and> alpha0 \<le> 1.6 \<longrightarrow>
                0.4 \<le> alphaFactor perf' \<and> alphaFactor perf' \<le> 1.6 \<and>
                \<bar>newAdj - alphaFactor perf'\<bar> \<le> \<bar>newAdj - alpha0\<bar>))"
proof -
  let ?acc = "windowAccuracy (recentAccuracy perf')"
  let ?a0 = "alphaFactor (perfBefore sp src)"
  note c = counted_update_adjusts[OF assms]
  have n: "newAdjustmentFactor ?acc = min (max (1 + (?acc - 0.5) * 3.5) 0.05) 1.95"
    by (simp add: newAdjustmentFactor_def Let_def MIN_WEIGHT_FACTOR_def MAX_WEIGHT_FACTOR_def)
  have r: "alphaLearningRate ?acc =
      (if ?acc < 0.35 then 0.04 * 1.75 else if ?acc < 0.45 then 0.04 * 1.4 else 0.04)"
    by (simp add: alphaLearningRate_def ALPHA_UPDATE_RATE_def)
  have s: "alphaFactorStep ?a0 t k =
      (if t > ?a0 then min 1.6 (?a0 + k * (t - ?a0)) else max 0.4 (?a0 - k * (?a0 - t)))" for t k
    by (simp add: alphaFactorStep_def MIN_ALPHA_FACTOR_def MAX_ALPHA_FACTOR_def)
  have g: "0.4 \<le> ?a0 \<and> ?a0 \<le> 1.6 \<longrightarrow>
         0.4 \<le> alphaFactor perf' \<and> alphaFactor perf' \<le> 1.6 \<and>
         \<bar>newAdjustmentFactor ?acc - alphaFactor perf'\<bar> \<le> \<bar>newAdjustmentFactor ?acc - ?a0\<bar>"
    using alphaFactorStep_range[of ?a0 "alphaLearningRate ?acc" "newAdjustmentFactor ?acc"]
      alphaLearningRate_range[of ?acc] c(2)
    by (simp add: MIN_ALPHA_FACTOR_def MAX_ALPHA_FACTOR_def)
  have a: "alphaFactor perf' = alphaFactorStep ?a0 (newAdjustmentFactor ?acc) (alphaLearningRate ?acc)"
    by (rule c(2))
  show ?thesis
    unfolding Let_def using c(1) g a unfolding s r n by blast
qed

lemma settledAt_countedAt: "settledAt period regime sp src \<Longrightarrow> countedAt period sp src"
  by (auto simp: settledAt_def settled_def countedAt_def split: option.splits)

lemma perfCounters_ensureBucket: "perfCounters (ensureBucket g p) = perfCounters p"
  by (auto simp: perfCounters_def ensureBucket_def bucketCounts_def fun_eq_iff)

lemma updateSignalEntry_counted_noop:
  assumes "countedAt period sp (source sig)"
  shows "map_option perfCounters (updateSignalEntry ao period regime hi ov conc ent sp sig src)
           = map_option perfCounters (sp src)
         \<and> (countedAt period sp src \<longrightarrow>
              countedAt period (updateSignalEntry ao period regime hi ov conc ent sp sig) src)"
proof (cases "source sig = []")
  case True
  then show ?thesis by (simp add: updateSignalEntry_def)
next
  case False
  from assms obtain p where p: "sp (source sig) = Some p" "lastActivePeriod p = period"
      "total_obs p \<noteq> 0" "lastUpdatePeriod p = period"
    by (auto simp: countedAt_def split: option.splits)
  have u: "(ensureBucket regime p)\<lparr>lastUpdatePeriod := period\<rparr> = ensureBucket regime p"
    using p by (simp add: ensureBucket_def)
  have "updateSignalEntry ao period regime hi ov conc ent sp sig
             = sp(source sig \<mapsto> (ensureBucket regime p)\<lparr>lastUpdatePeriod := period\<rparr>)"
    using False p(1,2,3) by (simp add: updateSignalEntry_def Let_def perfBefore_def ensureBucket_frame)
  then have e: "updateSignalEntry ao period regime hi ov conc ent sp sig
             = sp(source sig \<mapsto> ensureBucket regime p)"
    by (simp only: u)
  show ?thesis unfolding e using p
    by (auto simp: perfCounters_ensureBucket countedAt_def ensureBucket_frame)
qed

lemma fold_counted_noop:
  "(\<forall>sig \<in> set sigs. source sig \<noteq> [] \<longrightarrow> countedAt period sp (source sig)) \<Longrightarrow>
   map_option perfCounters (foldl (updateSignalEntry ao period regime hi ov conc ent) sp sigs src)
     = map_option perfCounters (sp src)"
proof (induction sigs arbitrary: sp)
  case Nil
  then show ?case by simp
next
  case (Cons x xs)
  let ?sp1 = "updateSignalEntry ao period regime hi ov conc ent sp x"
  have one: "map_option perfCounters (?sp1 s) = map_option perfCounters (sp s)
             \<and> (countedAt period sp s \<longrightarrow> countedAt period ?sp1 s)" for s
  proof (cases "source x = []")
    case True
    then show ?thesis by (simp add: updateSignalEntry_def)
  next
    case False
    then have "countedAt period sp (source x)" using Cons.prems by simp
    then show ?thesis by (rule updateSignalEntry_counted_noop)
  qed
  have "\<forall>sig \<in> set xs. source sig \<noteq> [] \<longrightarrow> countedAt period ?sp1 (source sig)"
    using Cons.prems one by simp
  from Cons.IH[OF this] show ?case using one by simp
qed

text \<open>
  C8: after \<open>updateSignalPerformance\<close> has run for a period, a second call with the same
  period, the same votes and the same volatility regime returns the table unchanged,
  whatever outcome, confidence, concentration flag and entropy state it is given; under
  any volatility regime it changes no counter of any source (it can only create an empty
  bucket).
\<close>

theorem C8_update_once_per_period:
  "updateSignalPerformance sigs ao2 period regime conf2 conc2 ent2
       (updateSignalPerformance sigs (Some ao) period regime conf conc ent sp)
     = updateSignalPerformance sigs (Some ao) period regime conf conc ent sp
   \<and> map_option perfCounters
         (updateSignalPerformance sigs ao2 period regime2 conf2 conc2 ent2
            (updateSignalPerformance sigs (Some ao) period regime conf conc ent sp) src)
     = map_option perfCounters
         (updateSignalPerformance sigs (Some ao) period regime conf conc ent sp src)"
proof (cases "sigs = []")
  case True
  then show ?thesis by (cases ao2) (simp_all add: updateSignalPerformance_def)
next
  case ne: False
  let ?hi = "gtNum conf 0.75"
  let ?ov = "getBigSmallFromNumber (Some (outcomeName ao)) = Some (if gtNum conf 0.5 then BIG else SMALL)"
  let ?sp1 = "foldl (updateSignalEntry ao period regime ?hi ?ov conc ent) sp sigs"
  have f: "updateSignalPerformance sigs (Some ao) period regime conf conc ent sp = ?sp1"
    using ne by (simp add: updateSignalPerformance_def Let_def)
  have st: "\<forall>sig \<in> set sigs. source sig \<noteq> [] \<longrightarrow> settledAt period regime ?sp1 (source sig)"
    by (simp add: fold_settles_all)
  have A: "updateSignalPerformance sigs ao2 period regime conf2 conc2 ent2
       (updateSignalPerformance sigs (Some ao) period regime conf conc ent sp)
     = updateSignalPerformance sigs (Some ao) period regime conf conc ent sp"
    unfolding f using st
    by (cases ao2) (simp_all add: updateSignalPerformance_def Let_def fold_noop_when_settled)
  have ct: "\<forall>sig \<in> set sigs. source sig \<noteq> [] \<longrightarrow> countedAt period ?sp1 (source sig)"
    using st settledAt_countedAt by blast
  have B: "map_option perfCounters
         (updateSignalPerformance sigs ao2 period regime2 conf2 conc2 ent2
            (updateSignalPerformance sigs (Some ao) period regime conf conc ent sp) src)
     = map_option perfCounters
         (updateSignalPerformance sigs (Some ao) period regime conf conc ent sp src)"
    unfolding f using ct
    by (cases ao2) (simp_all add: updateSignalPerformance_def Let_def fold_counted_noop)
  from A B show ?thesis by (rule conjI)
qed

lemma missStep_as_update:
  "updateSignalPerformance [missVote] (Some SMALL) (Some 15) ''MEDIUM'' (Some 0.6) False
       ''STABLE_MODERATE'' (Map.empty(''RSI'' \<mapsto> missRecord 14)) ''RSI'' = Some probationRecord"
  using missStep_15 by (simp add: missStep_def probationRecord_def)

theorem C8_update_once_per_period_witness:
  "updateSignalPerformance [missVote] (Some BIG) (Some 15) ''MEDIUM'' (Some 0.9) True ''RISING_CHAOS''
       (updateSignalPerformance [missVote] (Some SMALL) (Some 15) ''MEDIUM'' (Some 0.6) False
          ''STABLE_MODERATE'' (Map.empty(''RSI'' \<mapsto> missRecord 14))) ''RSI''
     = Some probationRecord
   \<and> map_option total_obs
       (updateSignalPerformance [missVote] (Some BIG) (Some 15) ''HIGH'' (Some 0.9) True ''RISING_CHAOS''
         (updateSignalPerformance [missVote] (Some SMALL) (Some 15) ''MEDIUM'' (Some 0.6) False
           ''STABLE_MODERATE'' (Map.empty(''RSI'' \<mapsto> missRecord 14))) ''RSI'')
     = Some 15"
proof -
  let ?first = "updateSignalPerformance [missVote] (Some SMALL) (Some 15) ''MEDIUM'' (Some 0.6) False
          ''STABLE_MODERATE'' (Map.empty(''RSI'' \<mapsto> missRecord 14))"
  note T = C8_update_once_per_period[of "[missVote]" "Some BIG" "Some 15" "''MEDIUM''" "Some 0.9" True
      "''RISING_CHAOS''" SMALL "Some 0.6" False "''STABLE_MODERATE''"
      "Map.empty(''RSI'' \<mapsto> missRecord 14)" "''HIGH''" "''RSI''"]
  have a: "updateSignalPerformance [missVote] (Some BIG) (Some 15) ''MEDIUM'' (Some 0.9) True
             ''RISING_CHAOS'' ?first ''RSI'' = Some probationRecord"
    using T[THEN conjunct1] missStep_as_update by simp
  define X where "X = updateSignalPerformance [missVote] (Some BIG) (Some 15) ''HIGH'' (Some 0.9) True
            ''RISING_CHAOS'' ?first ''RSI''"
  have "map_option perfCounters X = Some (perfCounters probationRecord)"
    using T[THEN conjunct2] missStep_as_update unfolding X_def by simp
  then obtain p where p: "X = Some p" "perfCounters p = perfCounters probationRecord"
    by (cases X) auto
  from p(2) have "total_obs p = total_obs probationRecord" by (simp add: perfCounters_def)
  then have "map_option total_obs X = Some 15"
    using p(1) by (simp add: probationRecord_def missRecord_def)
  then have b: "map_option total_obs
         (updateSignalPerformance [missVote] (Some BIG) (Some 15) ''HIGH'' (Some 0.9) True
            ''RISING_CHAOS'' ?first ''RSI'') = Some 15"
    unfolding X_def .
  from a b show ?thesis by (rule conjI)
qed

lemma perf_inv_new: "perf_inv newSignalPerf"
  by (simp add: perf_inv_def newSignalPerf_def PERFORMANCE_WINDOW_def MIN_WEIGHT_FACTOR_def
      MAX_WEIGHT_FACTOR_def MIN_ALPHA_FACTOR_def MAX_ALPHA_FACTOR_def)

lemma sp_inv_empty: "sp_inv Map.empty"
  by (simp add: sp_inv_def)

lemma perf_inv_ensureBucket: "perf_inv p \<Longrightarrow> perf_inv (ensureBucket g p)"
  by (simp add: perf_inv_def ensureBucket_def)

lemma clamp_range:
  fixes x lo hi :: real
  shows "lo \<le> hi \<Longrightarrow> lo \<le> min (max x lo) hi \<and> min (max x lo) hi \<le> hi"
  by (auto simp: min_def max_def)

lemma newAdjustmentFactor_range:
  "MIN_WEIGHT_FACTOR \<le> newAdjustmentFactor a \<and> newAdjustmentFactor a \<le> MAX_WEIGHT_FACTOR"
proof -
  have "MIN_WEIGHT_FACTOR \<le> MAX_WEIGHT_FACTOR"
    by (simp add: MIN_WEIGHT_FACTOR_def MAX_WEIGHT_FACTOR_def)
  then show ?thesis unfolding newAdjustmentFactor_def Let_def by (rule clamp_range)
qed

lemma perf_inv_adjustFromWindow: "perf_inv p \<Longrightarrow> perf_inv (adjustFromWindow p)"
proof -
  assume i: "perf_inv p"
  let ?acc = "windowAccuracy (recentAccuracy p)"
  have a: "MIN_ALPHA_FACTOR \<le> alphaFactorStep (alphaFactor p) (newAdjustmentFactor ?acc) (alphaLearningRate ?acc)
         \<and> alphaFactorStep (alphaFactor p) (newAdjustmentFactor ?acc) (alphaLearningRate ?acc) \<le> MAX_ALPHA_FACTOR"
    using alphaFactorStep_range[of "alphaFactor p" "alphaLearningRate ?acc" "newAdjustmentFactor ?acc"]
      alphaLearningRate_range[of ?acc] i by (simp add: perf_inv_def)
  show ?thesis using i a newAdjustmentFactor_range[of ?acc]
    by (simp add: perf_inv_def adjustFromWindow_def Let_def)
qed

lemma pushWindow_length:
  "length (pushWindow ra b) \<le> length ra + 1 \<and> length (pushWindow ra b) \<le> max (length ra) PERFORMANCE_WINDOW"
  by (simp add: pushWindow_def Let_def)

lemma perf_inv_countObservation: "perf_inv p \<Longrightarrow> perf_inv (countObservation oc period g delta p)"
proof -
  assume i: "perf_inv p"
  let ?q = "p\<lparr>total_obs := total_obs p + 1,
            sessionTotal := sessionTotal p + 1,
            correct := (if oc then correct p + 1 else correct p),
            sessionCorrect := (if oc then sessionCorrect p + 1 else sessionCorrect p),
            performanceByVolatility :=
              (performanceByVolatility p)(g \<mapsto> bumpBucket oc
                 (case performanceByVolatility p g of
                      None \<Rightarrow> \<lparr>vol_correct = 0, vol_total = 0\<rparr> | Some b \<Rightarrow> b)),
            longTermImportanceScore := min 1.0 (max 0.0 (longTermImportanceScore p + delta)),
            recentAccuracy := pushWindow (recentAccuracy p) oc\<rparr>"
  have "perf_inv ?q" using i pushWindow_length[of "recentAccuracy p" oc]
    by (auto simp: perf_inv_def)
  then have "perf_inv (adjustFromWindow ?q)" by (rule perf_inv_adjustFromWindow)
  then have "perf_inv ((adjustFromWindow ?q)\<lparr>lastActivePeriod := period\<rparr>)"
    by (simp add: perf_inv_def)
  then show ?thesis by (simp add: countObservation_def Let_def)
qed

lemma perf_inv_perfBefore: "sp_inv sp \<Longrightarrow> perf_inv (perfBefore sp src)"
  by (auto simp: sp_inv_def perfBefore_def perf_inv_new split: option.splits)

lemma sp_inv_updateSignalEntry:
  assumes "sp_inv sp"
  shows "sp_inv (updateSignalEntry ao period g hi ov conc ent sp sig)"
proof (cases "source sig = []")
  case True
  then show ?thesis using assms by (simp add: updateSignalEntry_def)
next
  case False
  let ?p1 = "ensureBucket g (perfBefore sp (source sig))"
  have p1: "perf_inv ?p1" using assms by (simp add: perf_inv_perfBefore perf_inv_ensureBucket)
  have c: "perf_inv (countObservation oc period g d ?p1)" for oc d
    using p1 by (rule perf_inv_countObservation)
  have k: "perf_inv q \<Longrightarrow> perf_inv (q\<lparr>lastUpdatePeriod := period\<rparr>)" for q
    by (simp add: perf_inv_def)
  show ?thesis using False assms p1 c k
    by (auto simp: updateSignalEntry_def Let_def sp_inv_def)
qed

lemma sp_inv_updateSignalPerformance:
  assumes "sp_inv sp"
  shows "sp_inv (updateSignalPerformance sigs ao period g conf conc ent sp)"
proof -
  have "sp_inv (foldl (updateSignalEntry a period g hi ov conc ent) sp xs)" for a hi ov xs
    using assms by (induction xs arbitrary: sp) (simp_all add: sp_inv_updateSignalEntry)
  then show ?thesis using assms
    by (cases ao) (simp_all add: updateSignalPerformance_def Let_def)
qed

lemma perf_inv_decayInactive: "perf_inv p \<Longrightarrow> perf_inv (decayInactive cur p)"
  by (auto simp: perf_inv_def decayInactive_def Let_def MIN_WEIGHT_FACTOR_def MAX_WEIGHT_FACTOR_def
      DECAY_RATE_def min_def max_def split: option.splits)

lemma sp_inv_getDynamicWeightAdjustment:
  assumes "sp_inv sp"
  shows "sp_inv (snd (getDynamicWeightAdjustment src w cur g hist sp))"
proof (cases "sp src")
  case None
  then show ?thesis using assms
    by (auto simp: getDynamicWeightAdjustment_def sp_inv_def perf_inv_new)
next
  case (Some p)
  then have "perf_inv p" using assms by (simp add: sp_inv_def)
  then have "perf_inv (if length hist \<le> 1 then p\<lparr>sessionCorrect := 0, sessionTotal := 0\<rparr> else p)"
    by (simp add: perf_inv_def)
  then have "perf_inv (decayInactive cur
                 (if length hist \<le> 1 then p\<lparr>sessionCorrect := 0, sessionTotal := 0\<rparr> else p))"
    by (rule perf_inv_decayInactive)
  then show ?thesis using Some assms
    by (auto simp: getDynamicWeightAdjustment_def Let_def sp_inv_def)
qed

lemma probationRecord_window:
  "length (recentAccuracy probationRecord) = 15" "windowAccuracy (recentAccuracy probationRecord) = 0"
  "total_obs probationRecord = 15"
  by (simp_all add: probationRecord_def missRecord_def windowAccuracy_def sum_list_replicate)

lemma miss14_counted: "countedFor (Map.empty(''RSI'' \<mapsto> missRecord 14)) ''RSI'' (Some 15)"
  by (simp add: countedFor_def perfBefore_def missRecord_def)

lemma miss14_before: "perfBefore (Map.empty(''RSI'' \<mapsto> missRecord 14)) ''RSI'' = missRecord 14"
  by (simp add: perfBefore_def)

theorem C4_adjustment_and_alpha_witness:
  "updateSignalPerformance [missVote] (Some SMALL) (Some 15) ''MEDIUM'' (Some 0.6) False
       ''STABLE_MODERATE'' (Map.empty(''RSI'' \<mapsto> missRecord 14)) ''RSI'' = Some probationRecord \<and>
   currentAdjustmentFactor probationRecord = 0.05 \<and>
   alphaFactor probationRecord = max 0.4 (1 - 0.04 * 1.75 * (1 - 0.05)) \<and>
   0.4 \<le> alphaFactor probationRecord \<and> alphaFactor probationRecord \<le> 1.6"
proof -
  have s: "''RSI'' \<noteq> []" by simp
  have f: "find (\<lambda>s. source s = ''RSI'') [missVote] = Some missVote" by (simp add: missVote_def)
  have t: "total_obs probationRecord \<ge> 10" "length (recentAccuracy probationRecord) \<ge> 15"
    by (simp_all add: probationRecord_window)
  from C4_adjustment_and_alpha[OF s f miss14_counted missStep_as_update t]
  show ?thesis using missStep_as_update
    by (simp add: Let_def probationRecord_window miss14_before) (simp add: missRecord_def)
qed
section \<open>Probation\<close>

lemma mixedRecord_0: "mixedRecord 0 = missRecord 10"
  by (simp add: mixedRecord_def missRecord_def)

lemma hitStep_next:
  assumes "h < 4"
  shows "hitStep (int (11 + h)) (Map.empty(''RSI'' \<mapsto> mixedRecord h)) =
           Map.empty(''RSI'' \<mapsto> mixedRecord (Suc h))"
proof -
  have r: "(replicate 10 (0::nat) @ replicate h 1) @ [1] = replicate 10 0 @ replicate (Suc h) 1"
    by (simp add: replicate_append_same)
  have rk: "real h < 4" "0 \<le> real h" using assms by simp_all
  have l: "min 1 (max 0 (0.35 + 0.01 * real h + 0.01)) = 0.35 + 0.01 * real (Suc h)"
  proof -
    have "min 1 (max 0 (0.35 + 0.01 * real h + 0.01)) = 0.35 + 0.01 * real h + 0.01"
      using rk by (simp add: min_def max_def)
    also have "\<dots> = 0.35 + 0.01 * real (Suc h)" by (simp add: field_simps)
    finally show ?thesis .
  qed
  have step: "hitStep (int (11 + h)) (Map.empty(''RSI'' \<mapsto> mixedRecord h)) =
     Map.empty(''RSI'' \<mapsto> (mixedRecord h)\<lparr>total_obs := 10 + h + 1, sessionTotal := 10 + h + 1,
        correct := h + 1, sessionCorrect := h + 1,
        performanceByVolatility := Map.empty(''MEDIUM'' \<mapsto> \<lparr>vol_correct = h + 1, vol_total = 10 + h + 1\<rparr>),
        longTermImportanceScore := min 1 (max 0 (0.35 + 0.01 * real h + 0.01)),
        recentAccuracy := (replicate 10 0 @ replicate h 1) @ [1],
        lastActivePeriod := Some (int (11 + h)), lastUpdatePeriod := Some (int (11 + h))\<rparr>)"
    using assms
    by (simp add: hitStep_def updateSignalPerformance_def updateSignalEntry_def hitVote_def
      perfBefore_def ensureBucket_def countObservation_def Let_def
      importanceDelta_def gtNum_def noChaos pushWindow_def PERFORMANCE_WINDOW_def bumpBucket_def
      adjustFromWindow_def MIN_OBSERVATIONS_FOR_ADJUST_def mixedRecord_def)
  show ?thesis unfolding step l r by (simp add: mixedRecord_def)
qed

lemma hitStep_15:
  "hitStep 15 (Map.empty(''RSI'' \<mapsto> mixedRecord 4)) = Map.empty(''RSI'' \<mapsto> mixedProbation)"
  by (simp add: hitStep_def updateSignalPerformance_def updateSignalEntry_def hitVote_def
      perfBefore_def ensureBucket_def countObservation_def Let_def
      importanceDelta_def gtNum_def noChaos pushWindow_def PERFORMANCE_WINDOW_def bumpBucket_def
      adjustFromWindow_def MIN_OBSERVATIONS_FOR_ADJUST_def mixedRecord_def mixedProbation_def
      windowAccuracy_def newAdjustmentFactor_def alphaFactorStep_def alphaLearningRate_def
      PROBATION_MIN_OBSERVATIONS_def PROBATION_THRESHOLD_ACCURACY_def MIN_WEIGHT_FACTOR_def
      MAX_WEIGHT_FACTOR_def MIN_ALPHA_FACTOR_def MAX_ALPHA_FACTOR_def ALPHA_UPDATE_RATE_def
      numeral_eq_Suc replicate_append_same)

lemma mixedRun_Suc: "mixedRun (Suc h) = hitStep (int (11 + h)) (mixedRun h)"
proof -
  have e: "[11..<11 + Suc h] = [11..<11 + h] @ [11 + h]"
    using upt_Suc_append[of 11 "11 + h"] by simp
  show ?thesis unfolding mixedRun_def e by simp
qed

lemma mixedRun_upto_4: "h \<le> 4 \<Longrightarrow> mixedRun h = Map.empty(''RSI'' \<mapsto> mixedRecord h)"
proof (induction h)
  case 0
  have "mixedRun 0 = missStreak 10" by (simp add: mixedRun_def)
  also have "\<dots> = Map.empty(''RSI'' \<mapsto> missRecord 10)" by (rule missStreak_upto_14) simp_all
  finally show ?case by (simp only: mixedRecord_0)
next
  case (Suc h)
  then have k: "h < 4" by simp
  have i: "mixedRun h = Map.empty(''RSI'' \<mapsto> mixedRecord h)"
    by (rule Suc.IH) (use k in simp)
  have "mixedRun (Suc h) = hitStep (int (11 + h)) (mixedRun h)" by (rule mixedRun_Suc)
  also have "\<dots> = hitStep (int (11 + h)) (Map.empty(''RSI'' \<mapsto> mixedRecord h))" by (simp only: i)
  also have "\<dots> = Map.empty(''RSI'' \<mapsto> mixedRecord (Suc h))" using k by (rule hitStep_next)
  finally show ?case .
qed

lemma mixedRun_5: "mixedRun 5 = Map.empty(''RSI'' \<mapsto> mixedProbation)"
proof -
  have "mixedRun 5 = hitStep 15 (mixedRun 4)"
    using mixedRun_Suc[of 4] by simp
  also have "\<dots> = hitStep 15 (Map.empty(''RSI'' \<mapsto> mixedRecord 4))"
    using mixedRun_upto_4[of 4] by simp
  finally show ?thesis by (simp only: hitStep_15)
qed

lemma hitVote_find: "find (\<lambda>s. source s = ''RSI'') [hitVote] = Some hitVote"
  by (simp add: hitVote_def)

lemma hitStep_shape:
  assumes "sp ''RSI'' = Some p" "lastActivePeriod p \<noteq> Some j"
    and "length (recentAccuracy p) < 30"
  shows "\<exists>p'. hitStep j sp ''RSI'' = Some p' \<and> total_obs p' = total_obs p + 1 \<and>
           recentAccuracy p' = recentAccuracy p @ [1] \<and> lastActivePeriod p' = Some j"
proof -
  have s: "''RSI'' \<noteq> []" by simp
  have c: "countedFor sp ''RSI'' (Some j)"
    using assms(1,2) by (simp add: countedFor_def perfBefore_def)
  have b: "perfBefore sp ''RSI'' = p" using assms(1) by (simp add: perfBefore_def)
  have w: "pushWindow (recentAccuracy p) True = recentAccuracy p @ [1]"
    using assms(3) by (simp add: pushWindow_def PERFORMANCE_WINDOW_def Let_def)
  show ?thesis
    unfolding hitStep_def
    using update_first_vote[OF s hitVote_find c, of SMALL "''MEDIUM''" "Some 0.6" False "''STABLE_MODERATE''"]
    by (simp add: countObservation_fields ensureBucket_frame b w hitVote_def)
qed

lemma mixedProbation_shape:
  "total_obs mixedProbation = 15" "recentAccuracy mixedProbation = replicate 10 0 @ replicate 5 1"
  "lastActivePeriod mixedProbation = Some 15" "isOnProbation mixedProbation"
  "lastUpdatePeriod mixedProbation = Some 15"
  by (simp_all add: mixedProbation_def mixedRecord_def)

lemma mixedWindow: "windowAccuracy (replicate 10 0 @ replicate h 1) = real h / (10 + real h)"
  by (simp add: windowAccuracy_def sum_list_replicate add.commute)

lemma mixedRun_probation:
  "5 \<le> h \<Longrightarrow> h \<le> 13 \<Longrightarrow>
   \<exists>p. mixedRun h ''RSI'' = Some p \<and> total_obs p = 10 + h \<and>
       recentAccuracy p = replicate 10 0 @ replicate h 1 \<and>
       lastActivePeriod p = Some (int (10 + h)) \<and> (h \<le> 12 \<longrightarrow> isOnProbation p)"
proof (induction h)
  case 0
  then show ?case by simp
next
  case (Suc h)
  show ?case
  proof (cases "h = 4")
    case True
    then show ?thesis by (simp add: mixedRun_5 mixedProbation_shape)
  next
    case False
    then have k: "5 \<le> h" "h \<le> 12" using Suc.prems by simp_all
    from Suc.IH obtain p where p: "mixedRun h ''RSI'' = Some p" "total_obs p = 10 + h"
        "recentAccuracy p = replicate 10 0 @ replicate h 1"
        "lastActivePeriod p = Some (int (10 + h))" "isOnProbation p"
      using k by auto
    have n: "lastActivePeriod p \<noteq> Some (int (11 + h))" using p(4) by simp
    have l: "length (recentAccuracy p) < 30" using p(3) k by simp
    from hitStep_shape[of "mixedRun h" p "int (11 + h)", OF p(1) n l] obtain p' where
      p': "hitStep (int (11 + h)) (mixedRun h) ''RSI'' = Some p'" "total_obs p' = total_obs p + 1"
          "recentAccuracy p' = recentAccuracy p @ [1]" "lastActivePeriod p' = Some (int (11 + h))"
      by auto
    have w: "recentAccuracy p' = replicate 10 0 @ replicate (Suc h) 1"
      using p'(3) p(3) by (simp add: replicate_append_same)
    have s: "''RSI'' \<noteq> []" by simp
    have c: "countedFor (mixedRun h) ''RSI'' (Some (int (11 + h)))"
      using p(1) n by (simp add: countedFor_def perfBefore_def)
    have u: "updateSignalPerformance [hitVote] (Some SMALL) (Some (int (11 + h))) ''MEDIUM''
               (Some 0.6) False ''STABLE_MODERATE'' (mixedRun h) ''RSI'' = Some p'"
      using p'(1) by (simp add: hitStep_def)
    have t: "total_obs p' \<ge> 10" "length (recentAccuracy p') \<ge> 15"
      using p'(2) p(2) w k by simp_all
    have b: "perfBefore (mixedRun h) ''RSI'' = p" using p(1) by (simp add: perfBefore_def)
    have "isOnProbation p'" if "Suc h \<le> 12"
    proof -
      have a: "\<not> windowAccuracy (recentAccuracy p') > 0.55"
        unfolding w mixedWindow using that by (simp add: field_simps)
      show ?thesis
        using counted_update_adjusts(3)[OF s hitVote_find c u t] a p(5) by (simp add: b)
    qed
    then show ?thesis
      using p' p w by (simp add: mixedRun_Suc)
  qed
qed

lemma mixedProbation_factors:
  "volatilitySpecificAdjustment ''MEDIUM'' mixedProbation = 47 / 60"
  "sessionAdjustmentFactor mixedProbation = 3 / 4"
  "currentAdjustmentFactor mixedProbation = 5 / 12" "alphaFactor mixedProbation = 1151 / 1200"
  "longTermImportanceScore mixedProbation = 0.4"
  by (simp_all add: volatilitySpecificAdjustment_def sessionAdjustmentFactor_def mixedProbation_def
      mixedRecord_def MIN_OBSERVATIONS_FOR_ADJUST_def Let_def)

lemma mixedProbation_uncapped:
  "uncappedFactor ''MEDIUM'' mixedProbation = 5 / 12 * (1151 / 1200) * (47 / 60) * (3 / 4) * (47 / 50)"
  by (simp add: uncappedFactor_def mixedProbation_factors)

lemma mixedProbation_window:
  "length (recentAccuracy mixedProbation) = 15" "windowAccuracy (recentAccuracy mixedProbation) = 1 / 3"
  unfolding mixedProbation_shape mixedWindow by simp_all

lemma read_factors_frame:
  "volatilitySpecificAdjustment g (p\<lparr>lastUpdatePeriod := x\<rparr>) = volatilitySpecificAdjustment g p"
  "volatilitySpecificAdjustment g (p\<lparr>currentAdjustmentFactor := y\<rparr>) = volatilitySpecificAdjustment g p"
  "volatilitySpecificAdjustment g (p\<lparr>isOnProbation := z\<rparr>) = volatilitySpecificAdjustment g p"
  "sessionAdjustmentFactor (p\<lparr>lastUpdatePeriod := x\<rparr>) = sessionAdjustmentFactor p"
  "sessionAdjustmentFactor (p\<lparr>currentAdjustmentFactor := y\<rparr>) = sessionAdjustmentFactor p"
  "sessionAdjustmentFactor (p\<lparr>isOnProbation := z\<rparr>) = sessionAdjustmentFactor p"
  by (simp_all add: volatilitySpecificAdjustment_def sessionAdjustmentFactor_def)

text \<open>The read of the next period: the source is still on probation and the cap decides.\<close>

lemma mixed_read_next:
  "fst (getDynamicWeightAdjustment ''RSI'' 0.05 16 ''MEDIUM'' [(), ()] (mixedRun 5)) = 0.005"
proof -
  have d: "decayInactive 16 mixedProbation = mixedProbation\<lparr>lastUpdatePeriod := Some 16\<rparr>"
    by (simp add: decayInactive_def mixedProbation_def mixedRecord_def
        INACTIVITY_PERIOD_FOR_DECAY_def PERFORMANCE_WINDOW_def Let_def)
  show ?thesis
    by (simp add: getDynamicWeightAdjustment_def mixedRun_5 d read_factors_frame
        mixedProbation_factors mixedProbation_shape Let_def PROBATION_WEIGHT_CAP_def
        MIN_ABSOLUTE_WEIGHT_def)
qed

text \<open>
  The read of period 106, 91 periods after the last counted vote: the factor decays by
  0.025 towards 1, probation is lifted, and no cap applies.
\<close>

lemma mixed_read_late:
  "fst (getDynamicWeightAdjustment ''RSI'' 0.05 106 ''MEDIUM'' [(), ()] (mixedRun 5))
     = 0.05 * (53 / 120 * (1151 / 1200) * (47 / 60) * (3 / 4) * (47 / 50))"
proof -
  let ?q = "mixedProbation\<lparr>currentAdjustmentFactor := 53 / 120, isOnProbation := False,
              lastUpdatePeriod := Some 106\<rparr>"
  have d: "decayInactive 106 mixedProbation = ?q"
    by (simp add: decayInactive_def mixedProbation_def mixedRecord_def
        INACTIVITY_PERIOD_FOR_DECAY_def PERFORMANCE_WINDOW_def DECAY_RATE_def Let_def)
  show ?thesis
    by (simp add: getDynamicWeightAdjustment_def mixedRun_5 d read_factors_frame
        mixedProbation_factors Let_def MIN_ABSOLUTE_WEIGHT_def)
qed

lemma probation_floor_read:
  "missStreak 15 ''RSI'' = Some probationRecord \<and> isOnProbation probationRecord \<and>
   length (recentAccuracy probationRecord) = 15 \<and>
   windowAccuracy (recentAccuracy probationRecord) < 0.40 \<and>
   \<not> fst (getDynamicWeightAdjustment ''RSI'' 0.002 16 ''MEDIUM'' [(), ()] (missStreak 15))
       \<le> 0.002 * PROBATION_WEIGHT_CAP"
proof -
  have d: "decayInactive 16 probationRecord = probationRecord\<lparr>lastUpdatePeriod := Some 16\<rparr>"
    by (simp add: decayInactive_def probationRecord_def missRecord_def
        INACTIVITY_PERIOD_FOR_DECAY_def PERFORMANCE_WINDOW_def Let_def)
  have v: "volatilitySpecificAdjustment ''MEDIUM'' (probationRecord\<lparr>lastUpdatePeriod := Some 16\<rparr>) = 0.55"
    by (simp add: volatilitySpecificAdjustment_def probationRecord_def missRecord_def
        MIN_OBSERVATIONS_FOR_ADJUST_def Let_def)
  have s: "sessionAdjustmentFactor (probationRecord\<lparr>lastUpdatePeriod := Some 16\<rparr>) = 0.6"
    by (simp add: sessionAdjustmentFactor_def probationRecord_def missRecord_def Let_def)
  have f: "currentAdjustmentFactor probationRecord = 0.05" "alphaFactor probationRecord = 0.9335"
    "longTermImportanceScore probationRecord = 0.275" "isOnProbation probationRecord"
    by (simp_all add: probationRecord_def missRecord_def)
  have "fst (getDynamicWeightAdjustment ''RSI'' 0.002 16 ''MEDIUM'' [(), ()] (missStreak 15)) = 0.0003"
    by (simp add: getDynamicWeightAdjustment_def missStreak_15 d v s f Let_def
        PROBATION_WEIGHT_CAP_def MIN_ABSOLUTE_WEIGHT_def)
  moreover have "windowAccuracy (recentAccuracy probationRecord) < 0.40"
    "length (recentAccuracy probationRecord) = 15"
    by (simp_all add: probationRecord_def missRecord_def windowAccuracy_def sum_list_replicate)
  ultimately show ?thesis
    using f(4) by (simp add: missStreak_15 PROBATION_WEIGHT_CAP_def)
qed

text \<open>
  C3, as stated: the weight of a source on probation is at most \<open>baseWeight * 0.10\<close>.
  First, after fifteen misses the source of the worked run is on probation with a window of
  15 samples at accuracy 0; read with base weight 0.002 in the next period, its weight is
  the floor 0.0003, above \<open>0.002 * 0.10\<close>. Second, after ten misses and five correct votes
  the source is on probation with a window of 15 samples at accuracy 1/3; the next read of
  its weight, with base weight 0.05 in period 106, which is 91 periods after its last
  counted vote, lifts the probation and returns more than \<open>0.05 * 0.10\<close>.
\<close>

theorem C3_probation_cap_counterexample:
  "(missStreak 15 ''RSI'' = Some probationRecord \<and> isOnProbation probationRecord \<and>
    length (recentAccuracy probationRecord) = 15 \<and>
    windowAccuracy (recentAccuracy probationRecord) < 0.40 \<and>
    \<not> fst (getDynamicWeightAdjustment ''RSI'' 0.002 16 ''MEDIUM'' [(), ()] (missStreak 15))
        \<le> 0.002 * PROBATION_WEIGHT_CAP) \<and>
   (mixedRun 5 ''RSI'' = Some mixedProbation \<and> isOnProbation mixedProbation \<and>
    length (recentAccuracy mixedProbation) = 15 \<and>
    windowAccuracy (recentAccuracy mixedProbation) < 0.40 \<and>
    \<not> fst (getDynamicWeightAdjustment ''RSI'' 0.05 106 ''MEDIUM'' [(), ()] (mixedRun 5))
        \<le> 0.05 * PROBATION_WEIGHT_CAP)"
proof -
  have 1: "mixedRun 5 ''RSI'' = Some mixedProbation" by (simp add: mixedRun_5)
  have 2: "windowAccuracy (recentAccuracy mixedProbation) < 0.40"
    unfolding mixedProbation_window by simp
  have 3: "\<not> fst (getDynamicWeightAdjustment ''RSI'' 0.05 106 ''MEDIUM'' [(), ()] (mixedRun 5))
        \<le> 0.05 * PROBATION_WEIGHT_CAP"
    unfolding mixed_read_late by (simp add: PROBATION_WEIGHT_CAP_def)
  show ?thesis
    by (intro conjI probation_floor_read)
       (rule 1 2 3 mixedProbation_shape(4) mixedProbation_window(1))+
qed

text \<open>
  C3, amended: when \<open>updateSignalPerformance\<close> counts an observation and leaves a window
  of 15 samples or more, the source is on probation if the accuracy of the window is below
  0.40 and off probation if it is above 0.55; and for a source on probation, a read by
  \<open>getDynamicWeightAdjustment\<close> whose period is no more than 90 above the period of the
  source's last counted observation (or is the period the record is already stamped with)
  returns, for a base weight that is not negative, at most the larger of
  \<open>baseWeight * 0.10\<close> and the absolute floor 0.0003.
\<close>

theorem C3_probation:
  "(src \<noteq> [] \<and> find (\<lambda>s. source s = src) sigs = Some sig \<and> countedFor sp src period \<and>
    length (recentAccuracy (perfBefore sp src)) \<le> total_obs (perfBefore sp src) \<and>
    updateSignalPerformance sigs (Some ao) period regime conf conc ent sp src = Some perf' \<and>
    length (recentAccuracy perf') \<ge> 15 \<longrightarrow>
      (windowAccuracy (recentAccuracy perf') < 0.40 \<longrightarrow> isOnProbation perf') \<and>
      (windowAccuracy (recentAccuracy perf') > 0.55 \<longrightarrow> \<not> isOnProbation perf')) \<and>
   (sp2 src2 = Some perf2 \<and> isOnProbation perf2 \<and> \<not> inactiveTooLong cur perf2 \<and> 0 \<le> baseWeight \<longrightarrow>
      fst (getDynamicWeightAdjustment src2 baseWeight cur regime2 hist sp2)
        \<le> max (baseWeight * 0.10) 0.0003)"
proof (intro conjI impI)
  assume h: "src \<noteq> [] \<and> find (\<lambda>s. source s = src) sigs = Some sig \<and> countedFor sp src period \<and>
    length (recentAccuracy (perfBefore sp src)) \<le> total_obs (perfBefore sp src) \<and>
    updateSignalPerformance sigs (Some ao) period regime conf conc ent sp src = Some perf' \<and>
    length (recentAccuracy perf') \<ge> 15"
  then have h1: "src \<noteq> []" and h2: "find (\<lambda>s. source s = src) sigs = Some sig"
    and h3: "countedFor sp src period"
    and h4: "length (recentAccuracy (perfBefore sp src)) \<le> total_obs (perfBefore sp src)"
    and h5: "updateSignalPerformance sigs (Some ao) period regime conf conc ent sp src = Some perf'"
    and h6: "length (recentAccuracy perf') \<ge> 15" by simp_all
  have "Some perf' = Some ((countObservation (prediction sig = ao) period regime
                    (importanceDelta (prediction sig = ao) (gtNum conf 0.75)
                       (getBigSmallFromNumber (Some (outcomeName ao))
                          = Some (if gtNum conf 0.5 then BIG else SMALL)) conc ent)
                    (ensureBucket regime (perfBefore sp src)))\<lparr>lastUpdatePeriod := period\<rparr>)"
    using update_first_vote[OF h1 h2 h3, of ao regime conf conc ent] h5 by simp
  then have t: "total_obs perf' = total_obs (perfBefore sp src) + 1"
     and r: "recentAccuracy perf' = pushWindow (recentAccuracy (perfBefore sp src)) (prediction sig = ao)"
    by (simp_all add: countObservation_fields ensureBucket_frame)
  have "length (recentAccuracy perf') \<le> length (recentAccuracy (perfBefore sp src)) + 1"
    unfolding r by (simp add: pushWindow_def Let_def)
  then have tot: "total_obs perf' \<ge> 10" using h4 h6 t by simp
  note c = counted_update_adjusts(3)[OF h1 h2 h3 h5 tot h6]
  { assume "windowAccuracy (recentAccuracy perf') < 0.40"
    then show "isOnProbation perf'" using c by simp }
  { assume "windowAccuracy (recentAccuracy perf') > 0.55"
    then show "\<not> isOnProbation perf'" using c by simp }
next
  assume "sp2 src2 = Some perf2 \<and> isOnProbation perf2 \<and> \<not> inactiveTooLong cur perf2 \<and> 0 \<le> baseWeight"
  then show "fst (getDynamicWeightAdjustment src2 baseWeight cur regime2 hist sp2)
        \<le> max (baseWeight * 0.10) 0.0003"
    using probation_cap[of sp2 src2 perf2 cur baseWeight regime2 hist]
    by (simp add: PROBATION_WEIGHT_CAP_def MIN_ABSOLUTE_WEIGHT_def)
qed

lemma mixedRun_exit:
  "\<exists>p p'. mixedRun 12 ''RSI'' = Some p \<and> isOnProbation p \<and> total_obs p = 22 \<and>
      length (recentAccuracy p) = 22 \<and> lastActivePeriod p = Some 22 \<and>
      mixedRun 13 ''RSI'' = Some p' \<and> recentAccuracy p' = replicate 10 0 @ replicate 13 1"
proof -
  from mixedRun_probation[of 12] obtain p where p: "mixedRun 12 ''RSI'' = Some p" "total_obs p = 22"
      "recentAccuracy p = replicate 10 0 @ replicate 12 1"
      "lastActivePeriod p = Some 22" "isOnProbation p"
    by auto
  from mixedRun_probation[of 13] obtain p' where p': "mixedRun 13 ''RSI'' = Some p'"
      "recentAccuracy p' = replicate 10 0 @ replicate 13 1"
    by auto
  have "length (recentAccuracy p) = 22" using p(3) by simp
  then show ?thesis using p p' by auto
qed

theorem C3_probation_witness:
  "\<not> isOnProbation (mixedRecord 4) \<and> isOnProbation mixedProbation \<and>
   isOnProbation (the (mixedRun 12 ''RSI'')) \<and> \<not> isOnProbation (the (mixedRun 13 ''RSI'')) \<and>
   fst (getDynamicWeightAdjustment ''RSI'' 0.05 16 ''MEDIUM'' [(), ()] (mixedRun 5)) \<le> 0.005 \<and>
   fst (getDynamicWeightAdjustment ''RSI'' 0.05 16 ''MEDIUM'' [(), ()] (mixedRun 5)) = 0.05 * 0.10 \<and>
   uncappedFactor ''MEDIUM'' mixedProbation > PROBATION_WEIGHT_CAP"
proof -
  note T = C3_probation
  have s: "''RSI'' \<noteq> []" by simp
  let ?sp4 = "mixedRun 4"
  have r4: "?sp4 = Map.empty(''RSI'' \<mapsto> mixedRecord 4)" by (rule mixedRun_upto_4) simp
  have b4: "perfBefore ?sp4 ''RSI'' = mixedRecord 4" by (simp add: r4 perfBefore_def)
  have c4: "countedFor ?sp4 ''RSI'' (Some 15)"
    unfolding countedFor_def b4 by (simp add: mixedRecord_def)
  have l4: "length (recentAccuracy (perfBefore ?sp4 ''RSI'')) \<le> total_obs (perfBefore ?sp4 ''RSI'')"
    unfolding b4 by (simp add: mixedRecord_def)
  have u4: "updateSignalPerformance [hitVote] (Some SMALL) (Some 15) ''MEDIUM'' (Some 0.6) False
       ''STABLE_MODERATE'' ?sp4 ''RSI'' = Some mixedProbation"
    using hitStep_15 by (simp add: r4 hitStep_def)
  have w4: "length (recentAccuracy mixedProbation) \<ge> 15" by (simp add: mixedProbation_window)
  have h1: "''RSI'' \<noteq> [] \<and> find (\<lambda>s. source s = ''RSI'') [hitVote] = Some hitVote \<and>
      countedFor ?sp4 ''RSI'' (Some 15) \<and>
      length (recentAccuracy (perfBefore ?sp4 ''RSI'')) \<le> total_obs (perfBefore ?sp4 ''RSI'') \<and>
      updateSignalPerformance [hitVote] (Some SMALL) (Some 15) ''MEDIUM'' (Some 0.6) False
        ''STABLE_MODERATE'' ?sp4 ''RSI'' = Some mixedProbation \<and>
      length (recentAccuracy mixedProbation) \<ge> 15"
    by (intro conjI) (rule s hitVote_find c4 l4 u4 w4)+
  have a1: "windowAccuracy (recentAccuracy mixedProbation) < 0.40"
    unfolding mixedProbation_window by simp
  have 1: "isOnProbation mixedProbation"
    by (rule T[of "''RSI''" "[hitVote]" hitVote ?sp4 "Some 15" SMALL "''MEDIUM''" "Some 0.6" False
          "''STABLE_MODERATE''" mixedProbation, THEN conjunct1, THEN mp, OF h1, THEN conjunct1,
          THEN mp, OF a1])
  have 0: "\<not> isOnProbation (mixedRecord 4)" by (simp add: mixedRecord_def)
  from mixedRun_exit obtain p p' where p: "mixedRun 12 ''RSI'' = Some p" "isOnProbation p"
      "total_obs p = 22" "length (recentAccuracy p) = 22" "lastActivePeriod p = Some 22"
      "mixedRun 13 ''RSI'' = Some p'" "recentAccuracy p' = replicate 10 0 @ replicate 13 1"
    by auto
  let ?sp12 = "mixedRun 12"
  have b12: "perfBefore ?sp12 ''RSI'' = p" using p(1) by (simp add: perfBefore_def)
  have c12: "countedFor ?sp12 ''RSI'' (Some 23)"
    unfolding countedFor_def b12 by (simp add: p)
  have l12: "length (recentAccuracy (perfBefore ?sp12 ''RSI'')) \<le> total_obs (perfBefore ?sp12 ''RSI'')"
    unfolding b12 by (simp add: p)
  have u12: "updateSignalPerformance [hitVote] (Some SMALL) (Some 23) ''MEDIUM'' (Some 0.6) False
       ''STABLE_MODERATE'' ?sp12 ''RSI'' = Some p'"
    using p(6) mixedRun_Suc[of 12] by (simp add: hitStep_def)
  have w12: "length (recentAccuracy p') \<ge> 15" unfolding p(7) by simp
  have h2: "''RSI'' \<noteq> [] \<and> find (\<lambda>s. source s = ''RSI'') [hitVote] = Some hitVote \<and>
      countedFor ?sp12 ''RSI'' (Some 23) \<and>
      length (recentAccuracy (perfBefore ?sp12 ''RSI'')) \<le> total_obs (perfBefore ?sp12 ''RSI'') \<and>
      updateSignalPerformance [hitVote] (Some SMALL) (Some 23) ''MEDIUM'' (Some 0.6) False
        ''STABLE_MODERATE'' ?sp12 ''RSI'' = Some p' \<and>
      length (recentAccuracy p') \<ge> 15"
    by (intro conjI) (rule s hitVote_find c12 l12 u12 w12)+
  have a2: "windowAccuracy (recentAccuracy p') > 0.55"
    unfolding p(7) mixedWindow by simp
  have 2: "\<not> isOnProbation p'"
    by (rule T[of "''RSI''" "[hitVote]" hitVote ?sp12 "Some 23" SMALL "''MEDIUM''" "Some 0.6" False
          "''STABLE_MODERATE''" p', THEN conjunct1, THEN mp, OF h2, THEN conjunct2,
          THEN mp, OF a2])
  have i3: "\<not> inactiveTooLong 16 mixedProbation"
    by (simp add: inactiveTooLong_def mixedProbation_shape
        INACTIVITY_PERIOD_FOR_DECAY_def PERFORMANCE_WINDOW_def)
  have m5: "mixedRun 5 ''RSI'' = Some mixedProbation" by (simp add: mixedRun_5)
  have n3: "0 \<le> (0.05::real)" by simp
  have h3: "mixedRun 5 ''RSI'' = Some mixedProbation \<and>
       isOnProbation mixedProbation \<and> \<not> inactiveTooLong 16 mixedProbation \<and> 0 \<le> (0.05::real)"
    by (intro conjI) (rule m5 1 i3 n3)+
  have 3: "fst (getDynamicWeightAdjustment ''RSI'' 0.05 16 ''MEDIUM'' [(), ()] (mixedRun 5))
             \<le> max (0.05 * 0.10) 0.0003"
    by (rule T[of _ _ _ _ _ _ _ _ _ _ _ "mixedRun 5" "''RSI''" mixedProbation 16 "0.05"
          "''MEDIUM''" "[(), ()]", THEN conjunct2, THEN mp, OF h3])
  have 4: "fst (getDynamicWeightAdjustment ''RSI'' 0.05 16 ''MEDIUM'' [(), ()] (mixedRun 5)) = 0.05 * 0.10"
    unfolding mixed_read_next by simp
  have 5: "uncappedFactor ''MEDIUM'' mixedProbation > PROBATION_WEIGHT_CAP"
    unfolding mixedProbation_uncapped by (simp add: PROBATION_WEIGHT_CAP_def)
  from 0 1 2 3 4 5 p show ?thesis by simp
qed

end
